theory Spec2Isabelle
  imports Complex_Main "HOL-Library.AList"
begin

section \<open>Shared vocabulary\<close>

text \<open>
  Timestamps.  The scripts receive ISO-8601 strings and turn them into \<open>Date\<close> objects
  with \<open>new Date(s)\<close>; every comparison and subtraction is then done on the
  millisecond value of the \<open>Date\<close>.  The model works on that millisecond value
  directly (an \<open>int\<close>), so a timestamp field of a node holds the parsed value.

  Errors.  Every failure of the scripts is a thrown exception.  The constructor records
  the throw site and carries the text interpolated into the message:
  \<^item> \<open>TransportError t\<close>: the HTTP status test failed, \<open>t\<close> is \<open>response.statusText\<close>;
  \<^item> \<open>QueryError m\<close>: the body has \<open>errors\<close>, \<open>m\<close> is \<open>errors[0].message\<close>;
  \<^item> \<open>InvalidResponse\<close>, \<open>NotFoundError\<close>: the two extra tests of the open-PR monitor;
  \<^item> \<open>TypeError\<close>: the JavaScript runtime's error on reading a property of
    \<open>null\<close> or \<open>undefined\<close>.
\<close>

datatype error =
    TransportError string
  | QueryError string
  | InvalidResponse
  | NotFoundError
  | TypeError

record pageInfo =
  hasNextPage :: bool
  endCursor :: "string option"

record 'a connection =
  nodes :: "'a list"
  pageInfo :: pageInfo

record gql_error =
  message :: string

text \<open>
  A decoded HTTP response: \<open>status\<close> and \<open>statusText\<close> of the response object, and
  the two members of the JSON body.  \<open>json_data = None\<close> and \<open>json_errors = None\<close>
  stand for a member that is absent or \<open>null\<close>.
\<close>

record 'd response =
  status :: int
  statusText :: string
  json_data :: "'d option"
  json_errors :: "gql_error list option"

section \<open>Repository health: response times\<close>

text \<open>The nodes of the pull-request query of the repository-health script.\<close>

record comment_node =
  cn_author :: "string option"
  cn_createdAt :: int

record review_node =
  rn_author :: "string option"
  rn_createdAt :: int
  rn_state :: string

record timeline_node =
  tn_typename :: string
  tn_actor :: "string option"
  tn_createdAt :: int

record pr_node =
  pn_number :: int
  pn_createdAt :: int
  pn_author :: "string option"
  pn_isDraft :: bool
  pn_comments :: "comment_node list"
  pn_reviews :: "review_node list"
  pn_timelineItems :: "timeline_node list"

text \<open>
  \<open>allEvents\<close> is one JavaScript array holding objects of the three shapes; the
  datatype keeps the shape of each element.
\<close>

datatype event =
    CommentEvent comment_node
  | ReviewEvent review_node
  | TimelineEvent timeline_node

fun event_typename :: "event \<Rightarrow> string option" where
  "event_typename (CommentEvent c) = None"
| "event_typename (ReviewEvent r) = None"
| "event_typename (TimelineEvent t) = Some (tn_typename t)"

fun event_createdAt :: "event \<Rightarrow> int" where
  "event_createdAt (CommentEvent c) = cn_createdAt c"
| "event_createdAt (ReviewEvent r) = rn_createdAt r"
| "event_createdAt (TimelineEvent t) = tn_createdAt t"

text \<open>
  \<open>a || b\<close> on two optional strings: \<open>undefined\<close> and the empty string are falsy.
\<close>

fun js_or :: "string option \<Rightarrow> string option \<Rightarrow> string option" where
  "js_or None b = b"
| "js_or (Some l) b = (if l = [] then b else Some l)"

text \<open>\<open>event.author?.login || event.actor?.login\<close>\<close>

fun event_login :: "event \<Rightarrow> string option" where
  "event_login (CommentEvent c) = js_or (cn_author c) None"
| "event_login (ReviewEvent r) = js_or (rn_author r) None"
| "event_login (TimelineEvent t) = js_or None (tn_actor t)"

text \<open>\<open>maintainers.includes(x)\<close> for an array of login strings.\<close>

fun js_includes :: "string list \<Rightarrow> string option \<Rightarrow> bool" where
  "js_includes ms None = False"
| "js_includes ms (Some l) = (l \<in> set ms)"

definition convertToRoundedHours :: "int \<Rightarrow> int" where
  "convertToRoundedHours milliseconds = (milliseconds + 1800000) div 3600000"

definition allEvents :: "pr_node \<Rightarrow> event list" where
  "allEvents pr =
     map CommentEvent (pn_comments pr) @ map ReviewEvent (pn_reviews pr)
       @ map TimelineEvent (pn_timelineItems pr)"

definition isReadyForReview :: "event \<Rightarrow> bool" where
  "isReadyForReview e = (event_typename e = Some ''ReadyForReviewEvent'')"

definition isOfficial :: "string list \<Rightarrow> string \<Rightarrow> event \<Rightarrow> bool" where
  "isOfficial maintainers creator e =
     ((js_includes maintainers (event_login e) \<and> event_login e \<noteq> Some creator)
      \<or> event_typename e = Some ''ClosedEvent''
      \<or> event_typename e = Some ''MergedEvent'')"

definition isNonAuthor :: "string \<Rightarrow> event \<Rightarrow> bool" where
  "isNonAuthor creator e = (event_login e \<noteq> Some creator)"

definition isResolved :: "event \<Rightarrow> bool" where
  "isResolved e =
     (event_typename e = Some ''ClosedEvent'' \<or> event_typename e = Some ''MergedEvent'')"

record response_time =
  rt_number :: int
  rt_createdAt :: int
  rt_resolvedAt :: "int option"
  rt_resolutionTime :: "int option"
  rt_maintainer :: bool
  rt_creator :: string
  rt_officialResponseHours :: "int option"
  rt_nonAuthorResponseHours :: "int option"

text \<open>
  The body of the \<open>map\<close> callback of \<open>calculateResponseTimes\<close>.  Reading
  \<open>pr.author.login\<close> of a pull request whose author is \<open>null\<close> throws.
\<close>

definition responseTime :: "string list \<Rightarrow> pr_node \<Rightarrow> error + response_time" where
  "responseTime maintainers pr =
     (case pn_author pr of
        None \<Rightarrow> Inl TypeError
      | Some creator \<Rightarrow>
          let prCreatedAt = pn_createdAt pr;
              events = allEvents pr;
              readyForReviewEvent = List.find isReadyForReview events;
              effectiveCreatedAt =
                (case readyForReviewEvent of
                   Some e \<Rightarrow> event_createdAt e
                 | None \<Rightarrow> prCreatedAt);
              officialEvent = List.find (isOfficial maintainers creator) events;
              nonAuthorEvent = List.find (isNonAuthor creator) events;
              resolvedEvent = List.find isResolved events;
              resolutionTime =
                map_option (\<lambda>e. convertToRoundedHours (event_createdAt e - effectiveCreatedAt))
                  resolvedEvent
          in Inr \<lparr> rt_number = pn_number pr,
                   rt_createdAt = pn_createdAt pr,
                   rt_resolvedAt = map_option event_createdAt resolvedEvent,
                   rt_resolutionTime = resolutionTime,
                   rt_maintainer = (creator \<in> set maintainers),
                   rt_creator = creator,
                   rt_officialResponseHours =
                     map_option (\<lambda>e. convertToRoundedHours (event_createdAt e - prCreatedAt))
                       officialEvent,
                   rt_nonAuthorResponseHours =
                     map_option (\<lambda>e. convertToRoundedHours (event_createdAt e - prCreatedAt))
                       nonAuthorEvent \<rparr>)"

text \<open>\<open>pullRequests.map(...)\<close>: the first callback that throws ends the call.\<close>

fun calculateResponseTimes :: "pr_node list \<Rightarrow> string list \<Rightarrow> error + response_time list" where
  "calculateResponseTimes [] maintainers = Inr []"
| "calculateResponseTimes (pr # prs) maintainers =
     (case responseTime maintainers pr of
        Inl e \<Rightarrow> Inl e
      | Inr r \<Rightarrow>
          (case calculateResponseTimes prs maintainers of
             Inl e \<Rightarrow> Inl e
           | Inr rs \<Rightarrow> Inr (r # rs)))"

section \<open>Repository health: the pull-request listing\<close>

text \<open>
  \<open>fetchPRData\<close> posts the listing query with the cursor as its only variable, so the
  endpoint is a function from the cursor to the response.  \<open>json_data\<close> holds
  \<open>data.data.repository.pullRequests\<close>; \<open>None\<close> stands for a \<open>null\<close> on that path,
  which makes the property read throw.  The body's \<open>errors\<close> member is never read here.
  \<open>rangeStart\<close> and \<open>rangeEnd\<close> are the two module constants (computed from the clock
  when the script starts).

  Every loop of the model also returns the list of the requests it sent, in order.
  A run that never leaves the \<open>while\<close> loop is the value \<open>None\<close>.
\<close>

partial_function (option) fetchPRData_loop ::
  "(string option \<Rightarrow> pr_node connection response) \<Rightarrow> int \<Rightarrow> string option \<Rightarrow> pr_node list
     \<Rightarrow> string option list \<Rightarrow> ((error + pr_node list) \<times> string option list) option"
where
  "fetchPRData_loop endpoint rangeStart cursor pullRequests sent =
     (let response = endpoint cursor; sent' = sent @ [cursor] in
      if status response \<noteq> 200 then Some (Inl (TransportError (statusText response)), sent')
      else
        (case json_data response of
           None \<Rightarrow> Some (Inl TypeError, sent')
         | Some page \<Rightarrow>
             (let fetchedPRs = nodes page;
                  pullRequests' = pullRequests @ fetchedPRs
              in if fetchedPRs \<noteq> [] \<and> pn_createdAt (last fetchedPRs) < rangeStart
                 then Some (Inr pullRequests', sent')
                 else if hasNextPage (pageInfo page)
                 then fetchPRData_loop endpoint rangeStart (endCursor (pageInfo page))
                        pullRequests' sent'
                 else Some (Inr pullRequests', sent'))))"

definition inRange :: "int \<Rightarrow> int \<Rightarrow> pr_node \<Rightarrow> bool" where
  "inRange rangeStart rangeEnd pr =
     (\<not> pn_isDraft pr \<and> rangeStart \<le> pn_createdAt pr \<and> pn_createdAt pr \<le> rangeEnd)"

definition fetchPRData ::
  "(string option \<Rightarrow> pr_node connection response) \<Rightarrow> int \<Rightarrow> int
     \<Rightarrow> ((error + pr_node list) \<times> string option list) option"
where
  "fetchPRData endpoint rangeStart rangeEnd =
     (case fetchPRData_loop endpoint rangeStart None [] [] of
        None \<Rightarrow> None
      | Some (Inl e, sent) \<Rightarrow> Some (Inl e, sent)
      | Some (Inr pullRequests, sent) \<Rightarrow>
          Some (Inr (filter (inRange rangeStart rangeEnd) pullRequests), sent))"

section \<open>The open-PR monitor\<close>

record monitor_pr =
  mp_number :: int
  mp_title :: string
  mp_createdAt :: int
  mp_state :: string
  mp_isDraft :: bool
  mp_url :: string

record monitor_row =
  row_created :: string
  row_state :: string
  row_title :: string
  row_url :: string

record monitor_vars =
  mv_cursor :: "string option"
  mv_owner :: string
  mv_name :: string

text \<open>\<open>response.ok\<close> of the Fetch API.\<close>

definition response_ok :: "'d response \<Rightarrow> bool" where
  "response_ok r = (200 \<le> status r \<and> status r \<le> 299)"

text \<open>
  The object pushed for a pull request that is not a draft.  \<open>toLocaleDateString\<close>
  depends on the locale of the machine and is a parameter.
\<close>

definition monitor_row_of :: "(int \<Rightarrow> string) \<Rightarrow> monitor_pr \<Rightarrow> monitor_row" where
  "monitor_row_of toLocaleDateString pr =
     \<lparr> row_created = toLocaleDateString (mp_createdAt pr),
       row_state = mp_state pr,
       row_title = mp_title pr,
       row_url = mp_url pr \<rparr>"

text \<open>
  In \<open>fetchRepoMetrics\<close> \<open>json_data = None\<close> stands for a body that is falsy or has
  no \<open>data\<close>, and \<open>json_data = Some None\<close> for \<open>data.repository\<close> being \<open>null\<close>.
  An \<open>errors\<close> member that is an empty array is truthy, and reading the message of
  its first element throws.
\<close>

partial_function (option) fetchRepoMetrics_loop ::
  "(monitor_vars \<Rightarrow> monitor_pr connection option response) \<Rightarrow> (int \<Rightarrow> string) \<Rightarrow> string \<Rightarrow> string
     \<Rightarrow> string option \<Rightarrow> monitor_row list \<Rightarrow> monitor_vars list
     \<Rightarrow> ((error + monitor_row list) \<times> monitor_vars list) option"
where
  "fetchRepoMetrics_loop endpoint toLocaleDateString org repo cursor prs sent =
     (let variables = \<lparr> mv_cursor = cursor, mv_owner = org, mv_name = repo \<rparr>;
          response = endpoint variables;
          sent' = sent @ [variables]
      in if \<not> response_ok response
         then Some (Inl (TransportError (statusText response)), sent')
         else
           (case json_data response of
              None \<Rightarrow> Some (Inl InvalidResponse, sent')
            | Some repository \<Rightarrow>
                (case json_errors response of
                   Some [] \<Rightarrow> Some (Inl TypeError, sent')
                 | Some (e # es) \<Rightarrow> Some (Inl (QueryError (message e)), sent')
                 | None \<Rightarrow>
                     (case repository of
                        None \<Rightarrow> Some (Inl NotFoundError, sent')
                      | Some pullRequests \<Rightarrow>
                          (let prs' = prs @ map (monitor_row_of toLocaleDateString)
                                          (filter (\<lambda>pr. \<not> mp_isDraft pr) (nodes pullRequests))
                           in if hasNextPage (pageInfo pullRequests)
                              then fetchRepoMetrics_loop endpoint toLocaleDateString org repo
                                     (endCursor (pageInfo pullRequests)) prs' sent'
                              else Some (Inr prs', sent'))))))"

definition fetchRepoMetrics ::
  "(monitor_vars \<Rightarrow> monitor_pr connection option response) \<Rightarrow> (int \<Rightarrow> string) \<Rightarrow> string \<Rightarrow> string
     \<Rightarrow> ((error + monitor_row list) \<times> monitor_vars list) option"
where
  "fetchRepoMetrics endpoint toLocaleDateString org repo =
     fetchRepoMetrics_loop endpoint toLocaleDateString org repo None [] []"

section \<open>User activity: one GraphQL request\<close>

text \<open>
  \<open>fetchQuery(query, variables)\<close>.  The endpoint argument is the server's answer to the
  given query as a function of the variables.  The function returns the decoded body;
  the model returns the response record, whose \<open>json_data\<close> and \<open>json_errors\<close> are
  that body.  \<open>if (data.errors)\<close> is taken for every array, the empty one included, and
  \<open>data.errors[0].message\<close> throws on the empty array.
\<close>

definition fetchQuery :: "('v \<Rightarrow> 'd response) \<Rightarrow> 'v \<Rightarrow> error + 'd response" where
  "fetchQuery endpoint variables =
     (let response = endpoint variables in
      if status response \<noteq> 200 then Inl (TransportError (statusText response))
      else
        (case json_errors response of
           Some [] \<Rightarrow> Inl TypeError
         | Some (e # es) \<Rightarrow> Inl (QueryError (message e))
         | None \<Rightarrow> Inr response))"

section \<open>User activity: the records of the bundle\<close>

text \<open>
  The detail nodes fetched during enrichment.  A comment arrives with its
  \<open>reactionGroups\<close>; enrichment deletes that member and, when some group has
  reactors, adds \<open>reactions\<close>, an object from reaction kind to count (an association
  list in insertion order here).  The two shapes are two records.
\<close>

record reaction_group =
  rg_content :: string
  rg_reactors_totalCount :: int

record fetched_comment =
  fc_author :: "string option"
  fc_bodyText :: string
  fc_createdAt :: int
  fc_reactionGroups :: "reaction_group list"

record comment_detail =
  cd_author :: "string option"
  cd_bodyText :: string
  cd_createdAt :: int
  cd_reactions :: "(string \<times> int) list option"

record review_comment =
  rc_bodyText :: string
  rc_path :: string
  rc_position :: "int option"
  rc_diffHunk :: string
  rc_createdAt :: int

record review_detail =
  rd_author :: "string option"
  rd_state :: string
  rd_createdAt :: int
  rd_comments :: "review_comment list"

record changed_file =
  cf_path :: string
  cf_additions :: int
  cf_deletions :: int
  cf_changeType :: string

record timeline_item =
  ti_typename :: string
  ti_actor :: "string option"
  ti_createdAt :: "int option"
  ti_requestedReviewer :: "string option"
  ti_commit_oid :: "string option"

text \<open>
  A pull request of the bundle: the fields of the contributions query, then the four
  members that enrichment attaches (\<open>None\<close> while absent).
\<close>

record pull_request =
  pr_title :: string
  pr_number :: int
  pr_nameWithOwner :: string
  pr_createdAt :: int
  pr_updatedAt :: int
  pr_mergedAt :: "int option"
  pr_closedAt :: "int option"
  pr_isDraft :: bool
  pr_state :: string
  pr_commits_totalCount :: int
  pr_additions :: int
  pr_deletions :: int
  pr_comments_totalCount :: int
  pr_reviews_totalCount :: int
  pr_body :: string
  pr_commentDetails :: "comment_detail list option"
  pr_reviewDetails :: "review_detail list option"
  pr_changedFiles :: "changed_file list option"
  pr_timelineItems :: "timeline_item list option"

record review_contribution =
  rv_createdAt :: int
  rv_updatedAt :: int
  rv_state :: string
  rv_comments_totalCount :: int
  rv_nameWithOwner :: string
  rv_pr_number :: int
  rv_pr_title :: string
  rv_pr_author :: "string option"

record issue_contribution =
  is_title :: string
  is_number :: int
  is_nameWithOwner :: string
  is_createdAt :: int
  is_updatedAt :: int
  is_closedAt :: "int option"
  is_comments_totalCount :: int

record commit_node =
  co_messageHeadline :: string
  co_messageBody :: string
  co_committedDate :: int

record repo_info =
  ri_description :: "string option"
  ri_topics :: "string list"

text \<open>
  A commit bucket: repository and count from the contributions query, then the members
  attached by enrichment.  \<open>fetchRepoInfo\<close> may return \<open>undefined\<close>, so an attached
  \<open>repoInfo\<close> is \<open>Some None\<close> or \<open>Some (Some info)\<close>.
\<close>

record commit_bucket =
  cb_nameWithOwner :: string
  cb_totalCount :: int
  cb_nodes :: "commit_node list option"
  cb_directCommits :: "nat option"
  cb_repoInfo :: "repo_info option option"

text \<open>
  \<open>contributionsCollection\<close> of one response.  The nodes of the three connections are
  the objects \<open>n.pullRequest\<close>, \<open>n.pullRequestReview\<close> and \<open>n.issue\<close> that the loop
  takes out of each node.
\<close>

record contributionsCollection =
  pullRequestContributions :: "pull_request connection"
  pullRequestReviewContributions :: "review_contribution connection"
  commitContributionsByRepository :: "commit_bucket list"
  issueContributions :: "issue_contribution connection"

record activity =
  pullRequests :: "pull_request list"
  reviews :: "review_contribution list"
  issues :: "issue_contribution list"
  commitsByRepo :: "commit_bucket list"

record activity_vars =
  av_cursor :: "string option"
  av_login :: string
  av_since :: int

section \<open>User activity: the widened fetch and the filter\<close>

text \<open>
  \<open>json_data\<close> of a response holds \<open>data.data.user.contributionsCollection\<close>: \<open>None\<close>
  when \<open>data.data\<close> is \<open>null\<close>, \<open>Some None\<close> when \<open>user\<close> is \<open>null\<close>; both make
  the property read throw.  The request carries \<open>from.toISOString()\<close>, modelled by
  the millisecond value of \<open>from\<close>.
\<close>

partial_function (option) fetchUserActivity_loop ::
  "(activity_vars \<Rightarrow> contributionsCollection option response) \<Rightarrow> string \<Rightarrow> int
     \<Rightarrow> string option \<Rightarrow> activity \<Rightarrow> activity_vars list
     \<Rightarrow> ((error + activity) \<times> activity_vars list) option"
where
  "fetchUserActivity_loop endpoint login from cursor act sent =
     (let variables = \<lparr> av_cursor = cursor, av_login = login, av_since = from \<rparr>;
          sent' = sent @ [variables]
      in case fetchQuery endpoint variables of
           Inl e \<Rightarrow> Some (Inl e, sent')
         | Inr data \<Rightarrow>
             (case json_data data of
                None \<Rightarrow> Some (Inl TypeError, sent')
              | Some None \<Rightarrow> Some (Inl TypeError, sent')
              | Some (Some contributions) \<Rightarrow>
                  (let act' =
                         \<lparr> pullRequests =
                             pullRequests act @ nodes (pullRequestContributions contributions),
                           reviews =
                             reviews act @ nodes (pullRequestReviewContributions contributions),
                           issues = issues act @ nodes (issueContributions contributions),
                           commitsByRepo =
                             (if commitsByRepo act = []
                              then commitContributionsByRepository contributions
                              else commitsByRepo act) \<rparr>;
                       info = pageInfo (pullRequestContributions contributions)
                   in if hasNextPage info
                      then fetchUserActivity_loop endpoint login from (endCursor info) act' sent'
                      else Some (Inr act', sent'))))"

text \<open>
  \<open>getMonth\<close> and \<open>setMonth\<close> are the methods of the runtime's \<open>Date\<close>, on the
  millisecond value: \<open>getMonth t\<close> is the month (0 to 11) of \<open>t\<close> in local time, and
  \<open>setMonth t m\<close> the millisecond value after \<open>setMonth(m)\<close>.  They depend on the
  time zone of the machine and are parameters.
\<close>

definition lookbackStart :: "(int \<Rightarrow> int) \<Rightarrow> (int \<Rightarrow> int \<Rightarrow> int) \<Rightarrow> int \<Rightarrow> int" where
  "lookbackStart getMonth setMonth since = setMonth since (getMonth since - 1)"

definition filterUpdatedSince :: "int \<Rightarrow> activity \<Rightarrow> activity" where
  "filterUpdatedSince since act =
     act \<lparr> pullRequests := filter (\<lambda>pr. since \<le> pr_updatedAt pr) (pullRequests act),
           reviews := filter (\<lambda>review. since \<le> rv_updatedAt review) (reviews act),
           issues := filter (\<lambda>issue. since \<le> is_updatedAt issue) (issues act) \<rparr>"

definition fetchUserActivity ::
  "(int \<Rightarrow> int) \<Rightarrow> (int \<Rightarrow> int \<Rightarrow> int)
     \<Rightarrow> (activity_vars \<Rightarrow> contributionsCollection option response) \<Rightarrow> string \<Rightarrow> int
     \<Rightarrow> ((error + activity) \<times> activity_vars list) option"
where
  "fetchUserActivity getMonth setMonth endpoint login since =
     (case fetchUserActivity_loop endpoint login (lookbackStart getMonth setMonth since) None
             \<lparr> pullRequests = [], reviews = [], issues = [], commitsByRepo = [] \<rparr> [] of
        None \<Rightarrow> None
      | Some (Inl e, sent) \<Rightarrow> Some (Inl e, sent)
      | Some (Inr act, sent) \<Rightarrow> Some (Inr (filterUpdatedSince since act), sent))"

text \<open>
  The \<open>Date\<close> methods in a machine whose local time is UTC, after ECMA-262: the day
  number of a time value, the civil date of a day number (proleptic Gregorian calendar,
  months 1 to 12), and \<open>MakeDay\<close>, which lets the day of the month run over into the
  next month.
\<close>

definition msPerDay :: int where
  "msPerDay = 86400000"

definition days_from_civil :: "int \<Rightarrow> int \<Rightarrow> int \<Rightarrow> int" where
  "days_from_civil y m d =
     (let y' = (if m \<le> 2 then y - 1 else y);
          era = y' div 400;
          yoe = y' mod 400;
          doy = (153 * (if 2 < m then m - 3 else m + 9) + 2) div 5 + d - 1;
          doe = yoe * 365 + yoe div 4 - yoe div 100 + doy
      in era * 146097 + doe - 719468)"

definition civil_from_days :: "int \<Rightarrow> int \<times> int \<times> int" where
  "civil_from_days z =
     (let z' = z + 719468;
          era = z' div 146097;
          doe = z' mod 146097;
          yoe = (doe - doe div 1460 + doe div 36524 - doe div 146096) div 365;
          doy = doe - (365 * yoe + yoe div 4 - yoe div 100);
          mp = (5 * doy + 2) div 153;
          d = doy - (153 * mp + 2) div 5 + 1;
          m = (if mp < 10 then mp + 3 else mp - 9);
          y = yoe + era * 400
      in (if m \<le> 2 then y + 1 else y, m, d))"

definition utc_getMonth :: "int \<Rightarrow> int" where
  "utc_getMonth t = (case civil_from_days (t div msPerDay) of (y, m, d) \<Rightarrow> m - 1)"

definition utc_setMonth :: "int \<Rightarrow> int \<Rightarrow> int" where
  "utc_setMonth t month =
     (case civil_from_days (t div msPerDay) of
        (y, m, d) \<Rightarrow>
          (days_from_civil (y + month div 12) (month mod 12 + 1) 1 + (d - 1)) * msPerDay
            + t mod msPerDay)"

section \<open>User activity: the detail fetches of enrichment\<close>

text \<open>
  \<open>s.split('/')\<close>, and reading an element of the resulting array: an index past the end
  reads \<open>undefined\<close>.
\<close>

fun split_slash :: "string \<Rightarrow> string list" where
  "split_slash [] = [[]]"
| "split_slash (c # cs) =
     (if c = CHR ''/'' then [] # split_slash cs
      else (case split_slash cs of
              [] \<Rightarrow> [[c]]
            | w # ws \<Rightarrow> (c # w) # ws))"

fun js_nth :: "'a list \<Rightarrow> nat \<Rightarrow> 'a option" where
  "js_nth [] n = None"
| "js_nth (x # xs) 0 = Some x"
| "js_nth (x # xs) (Suc n) = js_nth xs n"

record pr_vars =
  pv_owner :: "string option"
  pv_repo :: "string option"
  pv_prNumber :: int

record pr_page_vars = pr_vars +
  pv_cursor :: "string option"

text \<open>
  In the four detail fetches \<open>json_data\<close> holds the value at the end of the optional
  chain (\<open>data.data?.repository?.pullRequest?.comments\<close> and the like); \<open>None\<close> stands for
  a \<open>null\<close> anywhere on the chain.
\<close>

partial_function (option) fetchPRComments_loop ::
  "(pr_page_vars \<Rightarrow> fetched_comment connection response) \<Rightarrow> string option \<Rightarrow> string option \<Rightarrow> int
     \<Rightarrow> string option \<Rightarrow> fetched_comment list \<Rightarrow> pr_page_vars list
     \<Rightarrow> ((error + fetched_comment list) \<times> pr_page_vars list) option"
where
  "fetchPRComments_loop endpoint owner repo prNumber commentCursor allComments sent =
     (let variables = \<lparr> pv_owner = owner, pv_repo = repo, pv_prNumber = prNumber,
                         pv_cursor = commentCursor \<rparr>;
          sent' = sent @ [variables]
      in case fetchQuery endpoint variables of
           Inl e \<Rightarrow> Some (Inl e, sent')
         | Inr data \<Rightarrow>
             (case json_data data of
                None \<Rightarrow> Some (Inr allComments, sent')
              | Some comments \<Rightarrow>
                  (let allComments' = allComments @ nodes comments
                   in if hasNextPage (pageInfo comments)
                      then fetchPRComments_loop endpoint owner repo prNumber
                             (endCursor (pageInfo comments)) allComments' sent'
                      else Some (Inr allComments', sent'))))"

definition fetchPRComments ::
  "(pr_page_vars \<Rightarrow> fetched_comment connection response) \<Rightarrow> string option \<Rightarrow> string option \<Rightarrow> int
     \<Rightarrow> ((error + fetched_comment list) \<times> pr_page_vars list) option"
where
  "fetchPRComments endpoint owner repo prNumber =
     fetchPRComments_loop endpoint owner repo prNumber None [] []"

partial_function (option) fetchPRReviewDetails_loop ::
  "(pr_page_vars \<Rightarrow> review_detail connection response) \<Rightarrow> string option \<Rightarrow> string option \<Rightarrow> int
     \<Rightarrow> string option \<Rightarrow> review_detail list \<Rightarrow> pr_page_vars list
     \<Rightarrow> ((error + review_detail list) \<times> pr_page_vars list) option"
where
  "fetchPRReviewDetails_loop endpoint owner repo prNumber reviewCursor allReviewDetails sent =
     (let variables = \<lparr> pv_owner = owner, pv_repo = repo, pv_prNumber = prNumber,
                         pv_cursor = reviewCursor \<rparr>;
          sent' = sent @ [variables]
      in case fetchQuery endpoint variables of
           Inl e \<Rightarrow> Some (Inl e, sent')
         | Inr data \<Rightarrow>
             (case json_data data of
                None \<Rightarrow> Some (Inr allReviewDetails, sent')
              | Some reviewPage \<Rightarrow>
                  (let allReviewDetails' = allReviewDetails @ nodes reviewPage
                   in if hasNextPage (pageInfo reviewPage)
                      then fetchPRReviewDetails_loop endpoint owner repo prNumber
                             (endCursor (pageInfo reviewPage)) allReviewDetails' sent'
                      else Some (Inr allReviewDetails', sent'))))"

definition fetchPRReviewDetails ::
  "(pr_page_vars \<Rightarrow> review_detail connection response) \<Rightarrow> string option \<Rightarrow> string option \<Rightarrow> int
     \<Rightarrow> ((error + review_detail list) \<times> pr_page_vars list) option"
where
  "fetchPRReviewDetails endpoint owner repo prNumber =
     fetchPRReviewDetails_loop endpoint owner repo prNumber None [] []"

text \<open>\<open>data.data?.repository?.pullRequest?.files?.nodes || []\<close>, and the same for the timeline.\<close>

definition fetchPRChangedFiles ::
  "(pr_vars \<Rightarrow> changed_file list response) \<Rightarrow> string option \<Rightarrow> string option \<Rightarrow> int
     \<Rightarrow> error + changed_file list"
where
  "fetchPRChangedFiles endpoint owner repo prNumber =
     (case fetchQuery endpoint \<lparr> pv_owner = owner, pv_repo = repo, pv_prNumber = prNumber \<rparr> of
        Inl e \<Rightarrow> Inl e
      | Inr data \<Rightarrow> Inr (case json_data data of None \<Rightarrow> [] | Some files \<Rightarrow> files))"

definition fetchPRTimeline ::
  "(pr_vars \<Rightarrow> timeline_item list response) \<Rightarrow> string option \<Rightarrow> string option \<Rightarrow> int
     \<Rightarrow> error + timeline_item list"
where
  "fetchPRTimeline endpoint owner repo prNumber =
     (case fetchQuery endpoint \<lparr> pv_owner = owner, pv_repo = repo, pv_prNumber = prNumber \<rparr> of
        Inl e \<Rightarrow> Inl e
      | Inr data \<Rightarrow> Inr (case json_data data of None \<Rightarrow> [] | Some items \<Rightarrow> items))"

text \<open>
  The commit history of one repository.  The author's id is spliced into the query text,
  so it is part of the request.  \<open>json_data = None\<close> stands for \<open>data.data\<close> being
  \<open>null\<close> (the read of \<open>repository\<close> throws), \<open>Some None\<close> for a \<open>null\<close> repository,
  default branch or target (the loop breaks).
\<close>

record commit_vars =
  cv_authorId :: string
  cv_owner :: "string option"
  cv_repo :: "string option"
  cv_commitCursor :: "string option"
  cv_since :: int

partial_function (option) fetchCommitContributionsForRepo_loop ::
  "(commit_vars \<Rightarrow> commit_node connection option response) \<Rightarrow> string option \<Rightarrow> string option
     \<Rightarrow> int \<Rightarrow> string \<Rightarrow> string option \<Rightarrow> commit_node list \<Rightarrow> commit_vars list
     \<Rightarrow> ((error + commit_node list) \<times> commit_vars list) option"
where
  "fetchCommitContributionsForRepo_loop endpoint owner repo since authorId commitCursor
       allCommits sent =
     (let variables = \<lparr> cv_authorId = authorId, cv_owner = owner, cv_repo = repo,
                         cv_commitCursor = commitCursor, cv_since = since \<rparr>;
          sent' = sent @ [variables]
      in case fetchQuery endpoint variables of
           Inl e \<Rightarrow> Some (Inl e, sent')
         | Inr data \<Rightarrow>
             (case json_data data of
                None \<Rightarrow> Some (Inl TypeError, sent')
              | Some None \<Rightarrow> Some (Inr allCommits, sent')
              | Some (Some history) \<Rightarrow>
                  (let allCommits' = allCommits @ nodes history
                   in if hasNextPage (pageInfo history)
                      then fetchCommitContributionsForRepo_loop endpoint owner repo since authorId
                             (endCursor (pageInfo history)) allCommits' sent'
                      else Some (Inr allCommits', sent'))))"

definition fetchCommitContributionsForRepo ::
  "(commit_vars \<Rightarrow> commit_node connection option response) \<Rightarrow> string option \<Rightarrow> string option
     \<Rightarrow> int \<Rightarrow> string \<Rightarrow> ((error + commit_node list) \<times> commit_vars list) option"
where
  "fetchCommitContributionsForRepo endpoint owner repo since authorId =
     fetchCommitContributionsForRepo_loop endpoint owner repo since authorId None [] []"

text \<open>
  \<open>fetchUniqueIdForUser\<close> reads \<open>data.data.user.id\<close> (\<open>json_data = None\<close>: a \<open>null\<close> on
  the way, the read throws); \<open>fetchRepoInfo\<close> returns \<open>data.data?.repository\<close>.
\<close>

definition fetchUniqueIdForUser :: "(string \<Rightarrow> string response) \<Rightarrow> string \<Rightarrow> error + string" where
  "fetchUniqueIdForUser endpoint login =
     (case fetchQuery endpoint login of
        Inl e \<Rightarrow> Inl e
      | Inr data \<Rightarrow> (case json_data data of None \<Rightarrow> Inl TypeError | Some ident \<Rightarrow> Inr ident))"

definition fetchRepoInfo ::
  "(string option \<times> string option \<Rightarrow> repo_info response) \<Rightarrow> string option \<Rightarrow> string option
     \<Rightarrow> error + repo_info option"
where
  "fetchRepoInfo endpoint owner name =
     (case fetchQuery endpoint (owner, name) of
        Inl e \<Rightarrow> Inl e
      | Inr data \<Rightarrow> Inr (json_data data))"

section \<open>User activity: the enrichment fan-out\<close>

text \<open>
  Each enrichment function starts one asynchronous task per item and awaits them with
  \<open>Promise.all\<close>.  A task is a sequence of steps: a step awaits its fetches and then,
  in one synchronous stretch, writes the result onto the task's own item.  A step
  applied to the current item gives \<open>Some (Inr item')\<close> when its fetches succeed,
  \<open>Some (Inl e)\<close> when one of them throws, and \<open>None\<close> when they never settle.

  The order in which the awaited steps settle is decided by the network, not by the
  program, so it is an argument: the schedule lists the task whose pending step settles
  next.  \<open>run_tasks\<close> follows the schedule until a step throws; \<open>Promise.all\<close> then
  rejects with that error, and the items are as the steps settled before have left
  them.  It returns the error (if any), the steps still pending for each task, and the
  items.  An entry of the schedule that names no task, a finished task or a step
  that never settles is no event and is passed over.
\<close>

type_synonym 'a step = "'a \<Rightarrow> (error + 'a) option"

text \<open>
  The event that entry \<open>i\<close> of a schedule stands for: the result of the pending step of
  task \<open>i\<close> on its item, with the steps that remain for the task after it.
\<close>

definition next_event ::
  "nat \<Rightarrow> 'a step list list \<Rightarrow> 'a list \<Rightarrow> ((error + 'a) \<times> 'a step list) option"
where
  "next_event i pending items =
     (if i < length pending \<and> i < length items then
        (case pending ! i of
           [] \<Rightarrow> None
         | step # rest \<Rightarrow> map_option (\<lambda>res. (res, rest)) (step (items ! i)))
      else None)"

fun run_tasks ::
  "nat list \<Rightarrow> 'a step list list \<Rightarrow> 'a list \<Rightarrow> error option \<times> 'a step list list \<times> 'a list"
where
  "run_tasks [] pending items = (None, pending, items)"
| "run_tasks (i # schedule) pending items =
     (case next_event i pending items of
        None \<Rightarrow> run_tasks schedule pending items
      | Some (Inl e, rest) \<Rightarrow> (Some e, pending, items)
      | Some (Inr item', rest) \<Rightarrow> run_tasks schedule (pending[i := rest]) (items[i := item']))"

text \<open>
  What the caller of an enrichment function sees after the events of a schedule: the
  awaited call has thrown, has returned, or is still waiting for some task.
\<close>

datatype outcome = Rejected error | Resolved | Waiting

definition await_all :: "error option \<times> 'a step list list \<times> 'a list \<Rightarrow> outcome" where
  "await_all r =
     (case r of
        (Some e, pending, items) \<Rightarrow> Rejected e
      | (None, pending, items) \<Rightarrow> (if list_all (\<lambda>steps. steps = []) pending then Resolved else Waiting))"

text \<open>
  The reduction of \<open>reactionGroups\<close> to the \<open>reactions\<close> object, and the comment after
  \<open>delete comment.reactionGroups\<close>.
\<close>

definition reactions_of :: "reaction_group list \<Rightarrow> (string \<times> int) list" where
  "reactions_of groups =
     foldl (\<lambda>acc group.
              if 0 < rg_reactors_totalCount group
              then AList.update (rg_content group) (rg_reactors_totalCount group) acc
              else acc)
       [] groups"

definition comment_detail_of :: "fetched_comment \<Rightarrow> comment_detail" where
  "comment_detail_of comment =
     (let reactions = reactions_of (fc_reactionGroups comment) in
      \<lparr> cd_author = fc_author comment,
        cd_bodyText = fc_bodyText comment,
        cd_createdAt = fc_createdAt comment,
        cd_reactions = (if reactions \<noteq> [] then Some reactions else None) \<rparr>)"

text \<open>The synchronous stretch of a pull-request task, after its four fetches.\<close>

definition attachDetails ::
  "int \<Rightarrow> fetched_comment list \<Rightarrow> review_detail list \<Rightarrow> changed_file list \<Rightarrow> timeline_item list
     \<Rightarrow> pull_request \<Rightarrow> pull_request"
where
  "attachDetails since comments reviewDetails changedFiles timelineItems pr =
     pr \<lparr> pr_commentDetails :=
            Some (map comment_detail_of (filter (\<lambda>comment. since \<le> fc_createdAt comment) comments)),
          pr_reviewDetails :=
            Some (filter (\<lambda>review. since \<le> rd_createdAt review) reviewDetails),
          pr_changedFiles := Some changedFiles,
          pr_timelineItems := Some timelineItems \<rparr>"

text \<open>
  The inner \<open>Promise.all\<close> over the four fetches of one pull request rejects as soon as
  one fetch throws, with the error of that fetch, and resolves when all four have
  returned.  When several of the four throw, the error is that of the fetch that throws
  first in time, which the network decides.  So the order in which the four fetches
  settle is an argument: a list of their positions in the array (0 the comments, 1 the
  reviews, 2 the files, 3 the timeline), earliest first.  Fetches that the list does not
  name settle after those it names, in the order of the array, and an entry that is no
  position is passed over.

  \<open>failure_of\<close> is the error of a fetch that throws, and \<open>first_failure\<close> the error of the
  first fetch, in the order given, that throws.
\<close>

fun failure_of :: "(error + 'a) option \<Rightarrow> error option" where
  "failure_of (Some (Inl e)) = Some e"
| "failure_of (Some (Inr x)) = None"
| "failure_of None = None"

definition first_failure :: "nat list \<Rightarrow> error option list \<Rightarrow> error option" where
  "first_failure order failures =
     (case List.find (\<lambda>k. k < length failures \<and> failures ! k \<noteq> None)
             (order @ [0..<length failures]) of
        None \<Rightarrow> None
      | Some k \<Rightarrow> failures ! k)"

definition all4 ::
  "nat list \<Rightarrow> (error + 'a) option \<Rightarrow> (error + 'b) option \<Rightarrow> error + 'c \<Rightarrow> error + 'd
     \<Rightarrow> (error + 'a \<times> 'b \<times> 'c \<times> 'd) option"
where
  "all4 order a b c d =
     (case first_failure order
             [failure_of a, failure_of b, failure_of (Some c), failure_of (Some d)] of
        Some e \<Rightarrow> Some (Inl e)
      | None \<Rightarrow>
          (case (a, b, c, d) of
             (Some (Inr x), Some (Inr y), Inr z, Inr w) \<Rightarrow> Some (Inr (x, y, z, w))
           | _ \<Rightarrow> None))"

record pr_endpoints =
  ep_comments :: "pr_page_vars \<Rightarrow> fetched_comment connection response"
  ep_reviews :: "pr_page_vars \<Rightarrow> review_detail connection response"
  ep_files :: "pr_vars \<Rightarrow> changed_file list response"
  ep_timeline :: "pr_vars \<Rightarrow> timeline_item list response"

text \<open>
  The task of one pull request.  Owner, repository and number are read from the pull
  request when the task starts; \<open>order\<close> is the order in which its four fetches settle.
\<close>

definition pullRequestTask ::
  "pr_endpoints \<Rightarrow> int \<Rightarrow> nat list \<Rightarrow> pull_request \<Rightarrow> pull_request step"
where
  "pullRequestTask endpoints since order pr =
     (let owner = js_nth (split_slash (pr_nameWithOwner pr)) 0;
          repo = js_nth (split_slash (pr_nameWithOwner pr)) 1;
          fetched =
            all4 order
              (map_option fst (fetchPRComments (ep_comments endpoints) owner repo (pr_number pr)))
              (map_option fst (fetchPRReviewDetails (ep_reviews endpoints) owner repo (pr_number pr)))
              (fetchPRChangedFiles (ep_files endpoints) owner repo (pr_number pr))
              (fetchPRTimeline (ep_timeline endpoints) owner repo (pr_number pr))
      in (\<lambda>current.
            case fetched of
              None \<Rightarrow> None
            | Some (Inl e) \<Rightarrow> Some (Inl e)
            | Some (Inr (comments, reviewDetails, changedFiles, timelineItems)) \<Rightarrow>
                Some (Inr (attachDetails since comments reviewDetails changedFiles timelineItems
                             current))))"

text \<open>
  \<open>enrichPullRequestData\<close>: the outcome of the awaited call, and the bundle object as the
  settled steps have left it (on success the function returns that same object).
  \<open>schedule\<close> is the order in which the tasks settle and \<open>orders j\<close> the order in which
  the four fetches of the task of pull request \<open>j\<close> settle.
\<close>

definition enrichPullRequestData ::
  "pr_endpoints \<Rightarrow> nat list \<Rightarrow> (nat \<Rightarrow> nat list) \<Rightarrow> activity \<Rightarrow> int \<Rightarrow> outcome \<times> activity"
where
  "enrichPullRequestData endpoints schedule orders act since =
     (let r = run_tasks schedule
                (map (\<lambda>j. [pullRequestTask endpoints since (orders j) (pullRequests act ! j)])
                   [0..<length (pullRequests act)])
                (pullRequests act)
      in (await_all r, act \<lparr> pullRequests := snd (snd r) \<rparr>))"

record commit_endpoints =
  ep_userId :: "string \<Rightarrow> string response"
  ep_history :: "commit_vars \<Rightarrow> commit_node connection option response"
  ep_repoInfo :: "string option \<times> string option \<Rightarrow> repo_info response"

text \<open>
  The task of one commit bucket has two steps: the commit history, written onto the
  bucket as \<open>nodes\<close> and \<open>directCommits\<close>, and then the repository information.
\<close>

definition commitsStep ::
  "commit_endpoints \<Rightarrow> int \<Rightarrow> string \<Rightarrow> string option \<Rightarrow> string option \<Rightarrow> commit_bucket step"
where
  "commitsStep endpoints since authorId owner repo =
     (\<lambda>current.
        case fetchCommitContributionsForRepo (ep_history endpoints) owner repo since authorId of
          None \<Rightarrow> None
        | Some (Inl e, sent) \<Rightarrow> Some (Inl e)
        | Some (Inr extraCommits, sent) \<Rightarrow>
            Some (Inr (current \<lparr> cb_nodes := Some extraCommits,
                                 cb_directCommits := Some (length extraCommits) \<rparr>)))"

definition repoInfoStep ::
  "commit_endpoints \<Rightarrow> string option \<Rightarrow> string option \<Rightarrow> commit_bucket step"
where
  "repoInfoStep endpoints owner repo =
     (\<lambda>current.
        case fetchRepoInfo (ep_repoInfo endpoints) owner repo of
          Inl e \<Rightarrow> Some (Inl e)
        | Inr info \<Rightarrow> Some (Inr (current \<lparr> cb_repoInfo := Some info \<rparr>)))"

definition commitTask ::
  "commit_endpoints \<Rightarrow> int \<Rightarrow> string \<Rightarrow> commit_bucket \<Rightarrow> commit_bucket step list"
where
  "commitTask endpoints since authorId repoContribution =
     (let owner = js_nth (split_slash (cb_nameWithOwner repoContribution)) 0;
          repo = js_nth (split_slash (cb_nameWithOwner repoContribution)) 1
      in [commitsStep endpoints since authorId owner repo, repoInfoStep endpoints owner repo])"

definition enrichCommitContributions ::
  "commit_endpoints \<Rightarrow> nat list \<Rightarrow> activity \<Rightarrow> int \<Rightarrow> string \<Rightarrow> outcome \<times> activity"
where
  "enrichCommitContributions endpoints schedule act since author =
     (case fetchUniqueIdForUser (ep_userId endpoints) author of
        Inl e \<Rightarrow> (Rejected e, act)
      | Inr authorId \<Rightarrow>
          (let r = run_tasks schedule
                     (map (commitTask endpoints since authorId) (commitsByRepo act))
                     (commitsByRepo act)
           in (await_all r, act \<lparr> commitsByRepo := snd (snd r) \<rparr>)))"

section \<open>The response times in the words of the specification\<close>

text \<open>
  The specification speaks of the events of a pull request, of the login of an event's
  author or actor, of its timestamp and kind, and of rounded hours.  The definitions of
  this section say this on the fields of the nodes, without the functions of the script;
  the properties below compare the script with them.

  The login of a comment or a review is that of its author, the login of a timeline item
  that of its actor.  An empty author login counts as none: it is falsy, so that
  \<open>event.author?.login || event.actor?.login\<close> goes on to the actor, which a comment or
  review does not have.
\<close>

fun spec_login :: "event \<Rightarrow> string option" where
  "spec_login (CommentEvent c) = (if cn_author c = Some [] then None else cn_author c)"
| "spec_login (ReviewEvent r) = (if rn_author r = Some [] then None else rn_author r)"
| "spec_login (TimelineEvent t) = tn_actor t"

text \<open>When the event happened.\<close>

fun spec_timestamp :: "event \<Rightarrow> int" where
  "spec_timestamp (CommentEvent c) = cn_createdAt c"
| "spec_timestamp (ReviewEvent r) = rn_createdAt r"
| "spec_timestamp (TimelineEvent t) = tn_createdAt t"

text \<open>
  Only timeline items have a kind (\<open>__typename\<close>); \<open>spec_kind_in kinds e\<close> holds when
  \<open>e\<close> is a timeline item of one of the kinds listed.
\<close>

fun spec_kind_in :: "string list \<Rightarrow> event \<Rightarrow> bool" where
  "spec_kind_in kinds (CommentEvent c) = False"
| "spec_kind_in kinds (ReviewEvent r) = False"
| "spec_kind_in kinds (TimelineEvent t) = (tn_typename t \<in> set kinds)"

text \<open>
  The single event list of a pull request: its comments, then its reviews, then its
  timeline items, each group in the order received.
\<close>

definition spec_events :: "pr_node \<Rightarrow> event list" where
  "spec_events pr =
     map CommentEvent (pn_comments pr) @ map ReviewEvent (pn_reviews pr)
       @ map TimelineEvent (pn_timelineItems pr)"

text \<open>
  An official event: its login is a maintainer's and is not the creator's, or it is a
  closed or merged event.  A non-author event: its login is not the creator's (an event
  without a login is one).
\<close>

definition spec_official :: "string list \<Rightarrow> string \<Rightarrow> event \<Rightarrow> bool" where
  "spec_official maintainers creator e =
     ((case spec_login e of
         None \<Rightarrow> False
       | Some l \<Rightarrow> l \<in> set maintainers \<and> l \<noteq> creator)
      \<or> spec_kind_in [''ClosedEvent'', ''MergedEvent''] e)"

definition spec_nonAuthor :: "string \<Rightarrow> event \<Rightarrow> bool" where
  "spec_nonAuthor creator e = (spec_login e \<noteq> Some creator)"

text \<open>
  The rounded hours between two timestamps in milliseconds: the quotient by one hour,
  rounded to the nearest integer, a half upwards.
\<close>

definition spec_hours :: "int \<Rightarrow> int \<Rightarrow> int" where
  "spec_hours start finish = \<lfloor>real_of_int (finish - start) / 3600000 + 1 / 2\<rfloor>"

text \<open>
  The effective creation time: the timestamp of the first ready-for-review event if there
  is one, else the pull request's own \<open>createdAt\<close>.
\<close>

definition spec_effectiveCreatedAt :: "pr_node \<Rightarrow> int" where
  "spec_effectiveCreatedAt pr =
     (case List.find (spec_kind_in [''ReadyForReviewEvent'']) (spec_events pr) of
        None \<Rightarrow> pn_createdAt pr
      | Some ready \<Rightarrow> spec_timestamp ready)"

section \<open>The failures of the detail fetches\<close>

text \<open>
  The errors of the four detail fetches of one pull request, in the order of the array
  (comments, reviews, files, timeline): \<open>None\<close> for a fetch that returns or never settles.
\<close>

definition fetchErrors :: "pr_endpoints \<Rightarrow> pull_request \<Rightarrow> error option list" where
  "fetchErrors endpoints pr =
     (let owner = js_nth (split_slash (pr_nameWithOwner pr)) 0;
          repo = js_nth (split_slash (pr_nameWithOwner pr)) 1
      in [(case fetchPRComments (ep_comments endpoints) owner repo (pr_number pr) of
             Some (Inl e, sent) \<Rightarrow> Some e
           | _ \<Rightarrow> None),
          (case fetchPRReviewDetails (ep_reviews endpoints) owner repo (pr_number pr) of
             Some (Inl e, sent) \<Rightarrow> Some e
           | _ \<Rightarrow> None),
          (case fetchPRChangedFiles (ep_files endpoints) owner repo (pr_number pr) of
             Inl e \<Rightarrow> Some e
           | Inr files \<Rightarrow> None),
          (case fetchPRTimeline (ep_timeline endpoints) owner repo (pr_number pr) of
             Inl e \<Rightarrow> Some e
           | Inr items \<Rightarrow> None)])"

section \<open>The calendar in the words of the specification\<close>




section \<open>Page sequences\<close>

text \<open>
  A page sequence is the list of the pages a paginating loop receives.  The loop asks for
  the first page with its starting cursor and for each later page with the end cursor of
  the page before; \<open>cursors_from\<close> lists these cursors.
\<close>

definition cursors_from :: "string option \<Rightarrow> 'a connection list \<Rightarrow> string option list" where
  "cursors_from cursor pages = cursor # map (\<lambda>page. endCursor (pageInfo page)) (butlast pages)"


section \<open>Example inputs\<close>

text \<open>
  A listing endpoint with three pages, newest first, the second of which ends before the
  start of the range used in the examples; and a monitor endpoint with two pages.
\<close>

definition demo_pr :: "int \<Rightarrow> int \<Rightarrow> bool \<Rightarrow> pr_node" where
  "demo_pr n created draft =
     \<lparr> pn_number = n, pn_createdAt = created, pn_author = Some ''carol'', pn_isDraft = draft,
       pn_comments = [], pn_reviews = [], pn_timelineItems = [] \<rparr>"

definition demo_listing :: "string option \<Rightarrow> pr_node connection response" where
  "demo_listing cursor =
     \<lparr> status = 200, statusText = ''OK'',
       json_data =
         Some (if cursor = None
               then \<lparr> nodes = [demo_pr 6 100 False, demo_pr 5 90 True, demo_pr 4 80 False],
                      pageInfo = \<lparr> hasNextPage = True, endCursor = Some ''a'' \<rparr> \<rparr>
               else if cursor = Some ''a''
               then \<lparr> nodes = [demo_pr 3 60 False, demo_pr 2 40 False],
                      pageInfo = \<lparr> hasNextPage = True, endCursor = Some ''b'' \<rparr> \<rparr>
               else \<lparr> nodes = [demo_pr 1 20 False],
                      pageInfo = \<lparr> hasNextPage = False, endCursor = Some ''c'' \<rparr> \<rparr>),
       json_errors = None \<rparr>"

definition demo_monitor_pr :: "int \<Rightarrow> bool \<Rightarrow> monitor_pr" where
  "demo_monitor_pr n draft =
     \<lparr> mp_number = n, mp_title = ''Fix'', mp_createdAt = n * 1000, mp_state = ''OPEN'',
       mp_isDraft = draft, mp_url = ''https://github.com/o/r/pull/'' \<rparr>"

definition demo_monitor :: "monitor_vars \<Rightarrow> monitor_pr connection option response" where
  "demo_monitor v =
     \<lparr> status = 200, statusText = ''OK'',
       json_data =
         Some (Some (if mv_cursor v = None
                     then \<lparr> nodes = [demo_monitor_pr 9 False, demo_monitor_pr 8 True],
                            pageInfo = \<lparr> hasNextPage = True, endCursor = Some ''m'' \<rparr> \<rparr>
                     else \<lparr> nodes = [demo_monitor_pr 7 True, demo_monitor_pr 6 False],
                            pageInfo = \<lparr> hasNextPage = False, endCursor = None \<rparr> \<rparr>)),
       json_errors = None \<rparr>"

definition demo_date :: "int \<Rightarrow> string" where
  "demo_date t = (if t < 7000 then ''6/1/2024'' else ''9/1/2024'')"

text \<open>
  A comments endpoint with three pages and a commit-history endpoint with two.
\<close>

definition demo_comment :: "int \<Rightarrow> fetched_comment" where
  "demo_comment t =
     \<lparr> fc_author = Some ''alice'', fc_bodyText = ''ok'', fc_createdAt = t,
       fc_reactionGroups =
         (if t = 3
          then [\<lparr> rg_content = ''THUMBS_UP'', rg_reactors_totalCount = 2 \<rparr>,
                \<lparr> rg_content = ''HEART'', rg_reactors_totalCount = 0 \<rparr>]
          else []) \<rparr>"

definition demo_comment_pages :: "fetched_comment connection list" where
  "demo_comment_pages =
     [\<lparr> nodes = [demo_comment 1, demo_comment 2],
        pageInfo = \<lparr> hasNextPage = True, endCursor = Some ''c1'' \<rparr> \<rparr>,
      \<lparr> nodes = [demo_comment 3],
        pageInfo = \<lparr> hasNextPage = True, endCursor = Some ''c2'' \<rparr> \<rparr>,
      \<lparr> nodes = [demo_comment 4, demo_comment 1],
        pageInfo = \<lparr> hasNextPage = False, endCursor = Some ''c3'' \<rparr> \<rparr>]"

definition demo_comments :: "pr_page_vars \<Rightarrow> fetched_comment connection response" where
  "demo_comments v =
     \<lparr> status = 200, statusText = ''OK'',
       json_data =
         Some (if pv_cursor v = None then demo_comment_pages ! 0
               else if pv_cursor v = Some ''c1'' then demo_comment_pages ! 1
               else demo_comment_pages ! 2),
       json_errors = None \<rparr>"

definition demo_commit :: "int \<Rightarrow> commit_node" where
  "demo_commit t = \<lparr> co_messageHeadline = ''fix'', co_messageBody = [], co_committedDate = t \<rparr>"

definition demo_history_pages :: "commit_node connection list" where
  "demo_history_pages =
     [\<lparr> nodes = [demo_commit 9, demo_commit 8],
        pageInfo = \<lparr> hasNextPage = True, endCursor = Some ''h1'' \<rparr> \<rparr>,
      \<lparr> nodes = [demo_commit 7],
        pageInfo = \<lparr> hasNextPage = False, endCursor = Some ''h2'' \<rparr> \<rparr>]"

definition demo_history :: "commit_vars \<Rightarrow> commit_node connection option response" where
  "demo_history v =
     \<lparr> status = 200, statusText = ''OK'',
       json_data =
         Some (Some (if cv_commitCursor v = None then demo_history_pages ! 0
                     else demo_history_pages ! 1)),
       json_errors = None \<rparr>"

text \<open>
  A contributions endpoint with three pages.  The window of the examples starts on
  2024-03-15 (1710460800000); pull request 1 was created two months before and updated a
  day after that start, pull request 2 was created and last updated inside the month
  before it.  On the second page the pull-request connection reports no further page
  while the review connection still does.
\<close>

definition demo_pull_request :: "int \<Rightarrow> int \<Rightarrow> int \<Rightarrow> pull_request" where
  "demo_pull_request n created updated =
     \<lparr> pr_title = ''Fix'', pr_number = n, pr_nameWithOwner = ''o/r'', pr_createdAt = created,
       pr_updatedAt = updated, pr_mergedAt = None, pr_closedAt = None, pr_isDraft = False,
       pr_state = ''OPEN'', pr_commits_totalCount = 1, pr_additions = 2, pr_deletions = 1,
       pr_comments_totalCount = 0, pr_reviews_totalCount = 0, pr_body = ''text'',
       pr_commentDetails = None, pr_reviewDetails = None, pr_changedFiles = None,
       pr_timelineItems = None \<rparr>"

definition demo_review :: "int \<Rightarrow> int \<Rightarrow> int \<Rightarrow> review_contribution" where
  "demo_review n created updated =
     \<lparr> rv_createdAt = created, rv_updatedAt = updated, rv_state = ''APPROVED'',
       rv_comments_totalCount = 0, rv_nameWithOwner = ''o/r'', rv_pr_number = n,
       rv_pr_title = ''Fix'', rv_pr_author = Some ''bob'' \<rparr>"

definition demo_issue :: "int \<Rightarrow> int \<Rightarrow> int \<Rightarrow> issue_contribution" where
  "demo_issue n created updated =
     \<lparr> is_title = ''Bug'', is_number = n, is_nameWithOwner = ''o/r'', is_createdAt = created,
       is_updatedAt = updated, is_closedAt = None, is_comments_totalCount = 0 \<rparr>"

definition demo_bucket :: commit_bucket where
  "demo_bucket =
     \<lparr> cb_nameWithOwner = ''o/r'', cb_totalCount = 3, cb_nodes = None, cb_directCommits = None,
       cb_repoInfo = None \<rparr>"

definition demo_contributions :: "string option \<Rightarrow> contributionsCollection" where
  "demo_contributions cursor =
     (if cursor = None then
        \<lparr> pullRequestContributions =
            \<lparr> nodes = [demo_pull_request 1 1704844800000 1710547200000,
                       demo_pull_request 2 1709251200000 1709337600000],
              pageInfo = \<lparr> hasNextPage = True, endCursor = Some ''p1'' \<rparr> \<rparr>,
          pullRequestReviewContributions =
            \<lparr> nodes = [demo_review 11 1710547200000 1710547200000],
              pageInfo = \<lparr> hasNextPage = True, endCursor = Some ''r1'' \<rparr> \<rparr>,
          commitContributionsByRepository = [demo_bucket],
          issueContributions =
            \<lparr> nodes = [demo_issue 21 1709251200000 1710460800000],
              pageInfo = \<lparr> hasNextPage = False, endCursor = Some ''i1'' \<rparr> \<rparr> \<rparr>
      else if cursor = Some ''p1'' then
        \<lparr> pullRequestContributions =
            \<lparr> nodes = [demo_pull_request 3 1710892800000 1710979200000],
              pageInfo = \<lparr> hasNextPage = False, endCursor = Some ''p2'' \<rparr> \<rparr>,
          pullRequestReviewContributions =
            \<lparr> nodes = [demo_review 12 1709251200000 1709337600000],
              pageInfo = \<lparr> hasNextPage = True, endCursor = Some ''r2'' \<rparr> \<rparr>,
          commitContributionsByRepository = [demo_bucket],
          issueContributions =
            \<lparr> nodes = [],
              pageInfo = \<lparr> hasNextPage = False, endCursor = None \<rparr> \<rparr> \<rparr>
      else
        \<lparr> pullRequestContributions =
            \<lparr> nodes = [], pageInfo = \<lparr> hasNextPage = False, endCursor = None \<rparr> \<rparr>,
          pullRequestReviewContributions =
            \<lparr> nodes = [demo_review 13 1710892800000 1710979200000],
              pageInfo = \<lparr> hasNextPage = False, endCursor = Some ''r3'' \<rparr> \<rparr>,
          commitContributionsByRepository = [demo_bucket],
          issueContributions =
            \<lparr> nodes = [],
              pageInfo = \<lparr> hasNextPage = False, endCursor = None \<rparr> \<rparr> \<rparr>)"

definition demo_activity :: "activity_vars \<Rightarrow> contributionsCollection option response" where
  "demo_activity v =
     \<lparr> status = 200, statusText = ''OK'',
       json_data = Some (Some (demo_contributions (av_cursor v))),
       json_errors = None \<rparr>"

text \<open>
  Endpoints for the enrichment examples.  Of the detail fetches of pull request 2 two
  fail, the comments query with a 502 and the files query with a 500; those of every
  other pull request succeed, and \<open>demo_details\<close> is what they attach for a window
  starting at 2.  The repository information query fails, and with
  \<open>demo_no_user_endpoints\<close> the user-id query fails too.  In \<open>demo_array_order\<close> the
  four fetches of every pull request settle in the order of the array, in
  \<open>demo_files_first\<close> the files query settles first.
\<close>

definition demo_review_detail :: "int \<Rightarrow> review_detail" where
  "demo_review_detail t =
     \<lparr> rd_author = Some ''bob'', rd_state = ''APPROVED'', rd_createdAt = t, rd_comments = [] \<rparr>"

definition demo_file :: changed_file where
  "demo_file =
     \<lparr> cf_path = ''index.js'', cf_additions = 2, cf_deletions = 1, cf_changeType = ''MODIFIED'' \<rparr>"

definition demo_pr_comments :: "pr_page_vars \<Rightarrow> fetched_comment connection response" where
  "demo_pr_comments v =
     (if pv_prNumber v = 2
      then \<lparr> status = 502, statusText = ''Bad Gateway'', json_data = None, json_errors = None \<rparr>
      else demo_comments v)"

definition demo_pr_files :: "pr_vars \<Rightarrow> changed_file list response" where
  "demo_pr_files v =
     (if pv_prNumber v = 2
      then \<lparr> status = 500, statusText = ''Internal Server Error'', json_data = None,
             json_errors = None \<rparr>
      else \<lparr> status = 200, statusText = ''OK'', json_data = Some [demo_file],
             json_errors = None \<rparr>)"

definition demo_pr_endpoints :: pr_endpoints where
  "demo_pr_endpoints =
     \<lparr> ep_comments = demo_pr_comments,
       ep_reviews =
         (\<lambda>v. \<lparr> status = 200, statusText = ''OK'',
                 json_data = Some \<lparr> nodes = [demo_review_detail 1, demo_review_detail 5],
                                    pageInfo = \<lparr> hasNextPage = False, endCursor = None \<rparr> \<rparr>,
                 json_errors = None \<rparr>),
       ep_files = demo_pr_files,
       ep_timeline =
         (\<lambda>v. \<lparr> status = 200, statusText = ''OK'', json_data = None, json_errors = None \<rparr>) \<rparr>"

definition demo_bundle :: "int list \<Rightarrow> activity" where
  "demo_bundle numbers =
     \<lparr> pullRequests = map (\<lambda>n. demo_pull_request n 10 20) numbers, reviews = [], issues = [],
       commitsByRepo = [demo_bucket] \<rparr>"

definition demo_commit_endpoints :: commit_endpoints where
  "demo_commit_endpoints =
     \<lparr> ep_userId =
         (\<lambda>login. \<lparr> status = 200, statusText = ''OK'', json_data = Some ''U_1'',
                     json_errors = None \<rparr>),
       ep_history = demo_history,
       ep_repoInfo =
         (\<lambda>v. \<lparr> status = 500, statusText = ''Internal Server Error'', json_data = None,
                 json_errors = None \<rparr>) \<rparr>"

definition demo_no_user_endpoints :: commit_endpoints where
  "demo_no_user_endpoints =
     demo_commit_endpoints
       \<lparr> ep_userId :=
           (\<lambda>login. \<lparr> status = 401, statusText = ''Unauthorized'', json_data = None,
                       json_errors = None \<rparr>) \<rparr>"

definition demo_array_order :: "nat \<Rightarrow> nat list" where
  "demo_array_order j = [0, 1, 2, 3]"

definition demo_files_first :: "nat \<Rightarrow> nat list" where
  "demo_files_first j = [2, 0, 1, 3]"

definition demo_details :: "pull_request \<Rightarrow> pull_request" where
  "demo_details pr =
     pr \<lparr> pr_commentDetails :=
            Some [\<lparr> cd_author = Some ''alice'', cd_bodyText = ''ok'', cd_createdAt = 2,
                     cd_reactions = None \<rparr>,
                  \<lparr> cd_author = Some ''alice'', cd_bodyText = ''ok'', cd_createdAt = 3,
                     cd_reactions = Some [(''THUMBS_UP'', 2)] \<rparr>,
                  \<lparr> cd_author = Some ''alice'', cd_bodyText = ''ok'', cd_createdAt = 4,
                     cd_reactions = None \<rparr>],
          pr_reviewDetails := Some [demo_review_detail 5],
          pr_changedFiles := Some [demo_file],
          pr_timelineItems := Some [] \<rparr>"

text \<open>
  Pull requests for the response-time analysis.  \<open>demo_example_pr\<close> is the example of
  the specification with \<open>T0 = 1700000000000\<close>; its author is a parameter.  In
  \<open>demo_rounding_pr\<close> the first non-author event comes after 2.5 hours, the first official
  one (a review) after 5.4 hours and the closing after 10 hours and 25 minutes.  In
  \<open>demo_late_comment_pr\<close> the first official event in list order is a maintainer's comment
  after 10 hours, although the merge that follows it in the list happened after 1 hour.
  In \<open>demo_actor_pr\<close> the first official event is a timeline item whose actor is a
  maintainer, ahead of a closing with an earlier timestamp.  \<open>demo_own_pr\<close> is a
  maintainer's own pull request, whose first official event is its closing, and
  \<open>demo_quiet_pr\<close> has no official event.
\<close>

definition demo_maintainers :: "string list" where
  "demo_maintainers = [''alice'', ''bob'']"

definition demo_example_pr :: "string option \<Rightarrow> pr_node" where
  "demo_example_pr author =
     \<lparr> pn_number = 7, pn_createdAt = 1700000000000, pn_author = author, pn_isDraft = False,
       pn_comments = [\<lparr> cn_author = Some ''alice'', cn_createdAt = 1700018000000 \<rparr>],
       pn_reviews = [],
       pn_timelineItems =
         [\<lparr> tn_typename = ''ReadyForReviewEvent'', tn_actor = Some ''carol'',
             tn_createdAt = 1700007200000 \<rparr>,
          \<lparr> tn_typename = ''MergedEvent'', tn_actor = Some ''bob'',
             tn_createdAt = 1700108000000 \<rparr>] \<rparr>"

definition demo_rounding_pr :: pr_node where
  "demo_rounding_pr =
     \<lparr> pn_number = 8, pn_createdAt = 0, pn_author = Some ''carol'', pn_isDraft = False,
       pn_comments = [\<lparr> cn_author = Some ''carol'', cn_createdAt = 3600000 \<rparr>,
                      \<lparr> cn_author = Some ''dave'', cn_createdAt = 9000000 \<rparr>],
       pn_reviews = [\<lparr> rn_author = Some ''alice'', rn_createdAt = 19440000,
                       rn_state = ''APPROVED'' \<rparr>],
       pn_timelineItems =
         [\<lparr> tn_typename = ''ClosedEvent'', tn_actor = Some ''carol'',
             tn_createdAt = 37500000 \<rparr>] \<rparr>"

definition demo_late_comment_pr :: pr_node where
  "demo_late_comment_pr =
     \<lparr> pn_number = 3, pn_createdAt = 0, pn_author = Some ''carol'', pn_isDraft = False,
       pn_comments = [\<lparr> cn_author = Some ''carol'', cn_createdAt = 7200000 \<rparr>,
                      \<lparr> cn_author = Some ''alice'', cn_createdAt = 36000000 \<rparr>],
       pn_reviews = [],
       pn_timelineItems =
         [\<lparr> tn_typename = ''MergedEvent'', tn_actor = Some ''bob'',
             tn_createdAt = 3600000 \<rparr>] \<rparr>"

definition demo_actor_pr :: pr_node where
  "demo_actor_pr =
     \<lparr> pn_number = 4, pn_createdAt = 0, pn_author = Some ''carol'', pn_isDraft = False,
       pn_comments = [\<lparr> cn_author = Some ''carol'', cn_createdAt = 3600000 \<rparr>],
       pn_reviews = [\<lparr> rn_author = Some ''dave'', rn_createdAt = 7200000,
                       rn_state = ''COMMENTED'' \<rparr>],
       pn_timelineItems =
         [\<lparr> tn_typename = ''ReadyForReviewEvent'', tn_actor = Some ''alice'',
             tn_createdAt = 10800000 \<rparr>,
          \<lparr> tn_typename = ''ClosedEvent'', tn_actor = Some ''carol'',
             tn_createdAt = 3600000 \<rparr>] \<rparr>"

definition demo_own_pr :: pr_node where
  "demo_own_pr =
     \<lparr> pn_number = 5, pn_createdAt = 0, pn_author = Some ''alice'', pn_isDraft = False,
       pn_comments = [\<lparr> cn_author = Some ''alice'', cn_createdAt = 3600000 \<rparr>,
                      \<lparr> cn_author = Some ''dave'', cn_createdAt = 7200000 \<rparr>],
       pn_reviews = [],
       pn_timelineItems =
         [\<lparr> tn_typename = ''ClosedEvent'', tn_actor = Some ''alice'',
             tn_createdAt = 21600000 \<rparr>] \<rparr>"

definition demo_quiet_pr :: pr_node where
  "demo_quiet_pr =
     \<lparr> pn_number = 6, pn_createdAt = 0, pn_author = Some ''carol'', pn_isDraft = False,
       pn_comments = [\<lparr> cn_author = Some ''dave'', cn_createdAt = 3600000 \<rparr>],
       pn_reviews = [],
       pn_timelineItems = [] \<rparr>"

section \<open>Properties of the response-time analysis\<close>

text \<open>
  \<open>convertToRoundedHours\<close> computes \<open>Math.round(milliseconds / 3600000)\<close>, which rounds
  to the nearest integer and a half upwards.  On integers this is the floored division
  of the definition.  (The script divides in double precision; for differences below
  \<open>2^53\<close> milliseconds the quotient of the doubles rounds to the same integer.)
\<close>

lemma convertToRoundedHours_round:
  "convertToRoundedHours ms = \<lfloor>real_of_int ms / 3600000 + 1 / 2\<rfloor>"
proof -
  have "real_of_int ms / 3600000 + 1 / 2 = real_of_int (ms + 1800000) / real_of_int 3600000"
    by (simp add: field_simps)
  then show ?thesis
    unfolding convertToRoundedHours_def by (simp only: floor_divide_of_int_eq)
qed

lemma find_first_index:
  assumes "i < length xs" "P (xs ! i)" "\<forall>j<i. \<not> P (xs ! j)"
  shows "List.find P xs = Some (xs ! i)"
  using assms by (auto simp: find_Some_iff)

lemma spec_hours_convert: "spec_hours start finish = convertToRoundedHours (finish - start)"
  by (simp only: spec_hours_def convertToRoundedHours_round)

lemma spec_hours_div: "spec_hours start finish = (finish - start + 1800000) div 3600000"
  by (simp only: spec_hours_convert convertToRoundedHours_def)

text \<open>The functions of the script agree with the reading of the specification.\<close>

lemma js_or_None: "js_or a None = (if a = Some [] then None else a)"
  by (cases a) auto

lemma event_login_spec: "event_login e = spec_login e"
  by (cases e) (simp_all add: js_or_None)

lemma event_createdAt_spec: "event_createdAt e = spec_timestamp e"
  by (cases e) simp_all

lemma isOfficial_spec: "isOfficial maintainers creator = spec_official maintainers creator"
proof
  fix e
  show "isOfficial maintainers creator e = spec_official maintainers creator e"
    by (cases e) (auto simp: isOfficial_def spec_official_def split: option.splits)
qed

lemma isNonAuthor_spec: "isNonAuthor creator = spec_nonAuthor creator"
proof
  fix e
  show "isNonAuthor creator e = spec_nonAuthor creator e"
    by (simp add: isNonAuthor_def spec_nonAuthor_def event_login_spec)
qed

lemma isResolved_spec: "isResolved = spec_kind_in [''ClosedEvent'', ''MergedEvent'']"
proof
  fix e
  show "isResolved e = spec_kind_in [''ClosedEvent'', ''MergedEvent''] e"
    by (cases e) (auto simp: isResolved_def)
qed

lemma isReadyForReview_spec: "isReadyForReview = spec_kind_in [''ReadyForReviewEvent'']"
proof
  fix e
  show "isReadyForReview e = spec_kind_in [''ReadyForReviewEvent''] e"
    by (cases e) (auto simp: isReadyForReview_def)
qed

lemma allEvents_spec: "allEvents pr = spec_events pr"
  by (simp add: allEvents_def spec_events_def)

text \<open>The record of one pull request, in the specification's terms.\<close>

lemma responseTime_spec:
  assumes "pn_author pr = Some creator"
  shows "\<exists>r. responseTime maintainers pr = Inr r
     \<and> rt_number r = pn_number pr
     \<and> rt_creator r = creator
     \<and> rt_officialResponseHours r =
         map_option (\<lambda>e. spec_hours (pn_createdAt pr) (spec_timestamp e))
           (List.find (spec_official maintainers creator) (spec_events pr))
     \<and> rt_nonAuthorResponseHours r =
         map_option (\<lambda>e. spec_hours (pn_createdAt pr) (spec_timestamp e))
           (List.find (spec_nonAuthor creator) (spec_events pr))
     \<and> rt_resolutionTime r =
         map_option (\<lambda>e. spec_hours (spec_effectiveCreatedAt pr) (spec_timestamp e))
           (List.find (spec_kind_in [''ClosedEvent'', ''MergedEvent'']) (spec_events pr))"
  using assms
  by (simp add: responseTime_def Let_def spec_hours_convert isOfficial_spec isNonAuthor_spec
      isResolved_spec isReadyForReview_spec allEvents_spec event_createdAt_spec
      spec_effectiveCreatedAt_def split: option.splits)

text \<open>
  \<open>calculateResponseTimes\<close> returns one record per pull request, in order, when every pull
  request has an author, and throws when one has none.
\<close>

lemma calculateResponseTimes_records:
  assumes "\<forall>pr\<in>set prs. pn_author pr \<noteq> None"
  shows "\<exists>rs. calculateResponseTimes prs maintainers = Inr rs
     \<and> length rs = length prs
     \<and> (\<forall>i<length prs. responseTime maintainers (prs ! i) = Inr (rs ! i))"
  using assms
proof (induction prs)
  case Nil
  show ?case by simp
next
  case (Cons pr prs)
  from Cons.prems obtain creator where "pn_author pr = Some creator" by auto
  from responseTime_spec [OF this, of maintainers]
  obtain r where r: "responseTime maintainers pr = Inr r" by blast
  from Cons obtain rs where rs: "calculateResponseTimes prs maintainers = Inr rs"
      "length rs = length prs"
      "\<forall>i<length prs. responseTime maintainers (prs ! i) = Inr (rs ! i)"
    by auto
  have "\<forall>i<length (pr # prs). responseTime maintainers ((pr # prs) ! i) = Inr ((r # rs) ! i)"
    using r rs(3) by (auto simp: nth_Cons split: nat.splits)
  then show ?case using r rs(1,2) by simp
qed

lemma calculateResponseTimes_throws:
  assumes "pr \<in> set prs" "pn_author pr = None"
  shows "calculateResponseTimes prs maintainers = Inl TypeError"
  using assms
proof (induction prs)
  case Nil
  then show ?case by simp
next
  case (Cons p prs)
  show ?case
  proof (cases "pn_author p")
    case None
    then show ?thesis by (simp add: responseTime_def)
  next
    case (Some creator)
    with Cons.prems have "pr \<in> set prs" by auto
    from Cons.IH [OF this Cons.prems(2)] show ?thesis
      by (simp add: responseTime_def Let_def Some)
  qed
qed

lemma map_two: "length xs = 2 \<Longrightarrow> map f xs = [f (xs ! 0), f (xs ! 1)]"
  by (cases xs; cases "tl xs") auto

lemma map_four:
  "length xs = 4 \<Longrightarrow> map f xs = [f (xs ! 0), f (xs ! 1), f (xs ! 2), f (xs ! 3)]"
proof -
  assume "length xs = 4"
  then obtain a b c d where "xs = [a, b, c, d]"
    by (auto simp: numeral_eq_Suc length_Suc_conv)
  then show ?thesis by simp
qed


text \<open>
  Claim C3 (amended).  On a list of pull requests that all have an author,
  \<open>calculateResponseTimes\<close> returns one record per pull request, in order.  In the record
  of each pull request the official and the non-author response hours are the rounded
  hours from the pull request's own \<open>createdAt\<close> to the timestamp of the first official,
  respectively first non-author, event, and the resolution time is the rounded hours from
  the effective creation time (the first ready-for-review event's timestamp if there is
  one, else \<open>createdAt\<close>) to the timestamp of the first closed or merged event; each is
  \<open>null\<close> when there is no such event.  For a pull request of the list created at \<open>T0\<close>
  with a ready-for-review event at \<open>T0 + 2h\<close>, a comment of a maintainer other than the
  author at \<open>T0 + 5h\<close> and a merged event at \<open>T0 + 30h\<close> the official response is
  5 hours and the resolution time 28 hours.
\<close>

theorem calculateResponseTimes_hours:
  assumes "\<forall>pr\<in>set prs. pn_author pr \<noteq> None"
  shows "\<exists>rs. calculateResponseTimes prs maintainers = Inr rs
     \<and> length rs = length prs
     \<and> (\<forall>i<length prs. \<forall>creator. pn_author (prs ! i) = Some creator \<longrightarrow>
           rt_officialResponseHours (rs ! i) =
             map_option (\<lambda>e. spec_hours (pn_createdAt (prs ! i)) (spec_timestamp e))
               (List.find (spec_official maintainers creator) (spec_events (prs ! i)))
         \<and> rt_nonAuthorResponseHours (rs ! i) =
             map_option (\<lambda>e. spec_hours (pn_createdAt (prs ! i)) (spec_timestamp e))
               (List.find (spec_nonAuthor creator) (spec_events (prs ! i)))
         \<and> rt_resolutionTime (rs ! i) =
             map_option (\<lambda>e. spec_hours (spec_effectiveCreatedAt (prs ! i)) (spec_timestamp e))
               (List.find (spec_kind_in [''ClosedEvent'', ''MergedEvent''])
                  (spec_events (prs ! i))))
     \<and> (\<forall>i<length prs. \<forall>m creator n T0 d a1 a2.
           m \<noteq> [] \<and> m \<in> set maintainers \<and> m \<noteq> creator
           \<and> prs ! i =
               \<lparr> pn_number = n, pn_createdAt = T0, pn_author = Some creator, pn_isDraft = d,
                 pn_comments = [\<lparr> cn_author = Some m, cn_createdAt = T0 + 5 * 3600000 \<rparr>],
                 pn_reviews = [],
                 pn_timelineItems =
                   [\<lparr> tn_typename = ''ReadyForReviewEvent'', tn_actor = a1,
                       tn_createdAt = T0 + 2 * 3600000 \<rparr>,
                    \<lparr> tn_typename = ''MergedEvent'', tn_actor = a2,
                       tn_createdAt = T0 + 30 * 3600000 \<rparr>] \<rparr>
           \<longrightarrow> rt_officialResponseHours (rs ! i) = Some 5
               \<and> rt_resolutionTime (rs ! i) = Some 28)"
proof -
  from calculateResponseTimes_records [OF assms, of maintainers]
  obtain rs where rs: "calculateResponseTimes prs maintainers = Inr rs"
      "length rs = length prs"
      "\<forall>i<length prs. responseTime maintainers (prs ! i) = Inr (rs ! i)"
    by blast
  have general: "rt_officialResponseHours (rs ! i) =
             map_option (\<lambda>e. spec_hours (pn_createdAt (prs ! i)) (spec_timestamp e))
               (List.find (spec_official maintainers creator) (spec_events (prs ! i)))
         \<and> rt_nonAuthorResponseHours (rs ! i) =
             map_option (\<lambda>e. spec_hours (pn_createdAt (prs ! i)) (spec_timestamp e))
               (List.find (spec_nonAuthor creator) (spec_events (prs ! i)))
         \<and> rt_resolutionTime (rs ! i) =
             map_option (\<lambda>e. spec_hours (spec_effectiveCreatedAt (prs ! i)) (spec_timestamp e))
               (List.find (spec_kind_in [''ClosedEvent'', ''MergedEvent''])
                  (spec_events (prs ! i)))"
    if "i < length prs" "pn_author (prs ! i) = Some creator" for i creator
  proof -
    from responseTime_spec [OF that(2), of maintainers] rs(3) that(1)
    show ?thesis by auto
  qed
  have example: "rt_officialResponseHours (rs ! i) = Some 5
               \<and> rt_resolutionTime (rs ! i) = Some 28"
    if "i < length prs" "m \<noteq> []" "m \<in> set maintainers" "m \<noteq> creator"
      "prs ! i =
               \<lparr> pn_number = n, pn_createdAt = T0, pn_author = Some creator, pn_isDraft = d,
                 pn_comments = [\<lparr> cn_author = Some m, cn_createdAt = T0 + 5 * 3600000 \<rparr>],
                 pn_reviews = [],
                 pn_timelineItems =
                   [\<lparr> tn_typename = ''ReadyForReviewEvent'', tn_actor = a1,
                       tn_createdAt = T0 + 2 * 3600000 \<rparr>,
                    \<lparr> tn_typename = ''MergedEvent'', tn_actor = a2,
                       tn_createdAt = T0 + 30 * 3600000 \<rparr>] \<rparr>"
    for i m creator n T0 d a1 a2
  proof -
    have run: "responseTime maintainers (prs ! i) = Inr (rs ! i)"
      using rs(3) that(1) by simp
    have "\<exists>r. responseTime maintainers (prs ! i) = Inr r
        \<and> rt_officialResponseHours r = Some 5 \<and> rt_resolutionTime r = Some 28"
      unfolding that(5) using that(2,3,4)
      by (simp add: responseTime_def Let_def allEvents_def isOfficial_def
          isReadyForReview_def isResolved_def convertToRoundedHours_def)
    with run show ?thesis by auto
  qed
  show ?thesis
  proof (intro exI [of _ rs] conjI allI impI)
    show "calculateResponseTimes prs maintainers = Inr rs" by (rule rs(1))
    show "length rs = length prs" by (rule rs(2))
  qed (use general example in \<open>blast+\<close>)
qed

theorem calculateResponseTimes_hours_witness:
  "\<exists>rs. calculateResponseTimes [demo_example_pr (Some ''carol''), demo_rounding_pr]
          demo_maintainers = Inr rs
     \<and> map rt_officialResponseHours rs = [Some 5, Some 5]
     \<and> map rt_nonAuthorResponseHours rs = [Some 5, Some 3]
     \<and> map rt_resolutionTime rs = [Some 28, Some 10]"
proof -
  let ?prs = "[demo_example_pr (Some ''carol''), demo_rounding_pr]"
  have authors: "\<forall>pr\<in>set ?prs. pn_author pr \<noteq> None"
    by (simp add: demo_example_pr_def demo_rounding_pr_def)
  from calculateResponseTimes_hours [OF authors, of demo_maintainers]
  obtain rs where run: "calculateResponseTimes ?prs demo_maintainers = Inr rs"
    and len: "length rs = length ?prs"
    and hours: "\<forall>i<length ?prs. \<forall>creator. pn_author (?prs ! i) = Some creator \<longrightarrow>
           rt_officialResponseHours (rs ! i) =
             map_option (\<lambda>e. spec_hours (pn_createdAt (?prs ! i)) (spec_timestamp e))
               (List.find (spec_official demo_maintainers creator) (spec_events (?prs ! i)))
         \<and> rt_nonAuthorResponseHours (rs ! i) =
             map_option (\<lambda>e. spec_hours (pn_createdAt (?prs ! i)) (spec_timestamp e))
               (List.find (spec_nonAuthor creator) (spec_events (?prs ! i)))
         \<and> rt_resolutionTime (rs ! i) =
             map_option (\<lambda>e. spec_hours (spec_effectiveCreatedAt (?prs ! i)) (spec_timestamp e))
               (List.find (spec_kind_in [''ClosedEvent'', ''MergedEvent''])
                  (spec_events (?prs ! i)))"
    and example: "\<forall>i<length ?prs. \<forall>m creator n T0 d a1 a2.
           m \<noteq> [] \<and> m \<in> set demo_maintainers \<and> m \<noteq> creator
           \<and> ?prs ! i =
               \<lparr> pn_number = n, pn_createdAt = T0, pn_author = Some creator, pn_isDraft = d,
                 pn_comments = [\<lparr> cn_author = Some m, cn_createdAt = T0 + 5 * 3600000 \<rparr>],
                 pn_reviews = [],
                 pn_timelineItems =
                   [\<lparr> tn_typename = ''ReadyForReviewEvent'', tn_actor = a1,
                       tn_createdAt = T0 + 2 * 3600000 \<rparr>,
                    \<lparr> tn_typename = ''MergedEvent'', tn_actor = a2,
                       tn_createdAt = T0 + 30 * 3600000 \<rparr>] \<rparr>
           \<longrightarrow> rt_officialResponseHours (rs ! i) = Some 5
               \<and> rt_resolutionTime (rs ! i) = Some 28"
    by blast
  have first: "rt_officialResponseHours (rs ! 0) = Some 5 \<and> rt_resolutionTime (rs ! 0) = Some 28"
    using example [rule_format, of 0 "''alice''" "''carol''" 7 1700000000000 False
        "Some ''carol''" "Some ''bob''"]
    by (simp add: demo_example_pr_def demo_maintainers_def)
  have first_na: "rt_nonAuthorResponseHours (rs ! 0) = Some 5"
    using hours [rule_format, of 0 "''carol''"]
    by (simp add: demo_example_pr_def spec_events_def spec_nonAuthor_def spec_hours_div)
  have second: "rt_officialResponseHours (rs ! 1) = Some 5
      \<and> rt_nonAuthorResponseHours (rs ! 1) = Some 3
      \<and> rt_resolutionTime (rs ! 1) = Some 10"
    using hours [rule_format, of 1 "''carol''"]
    by (simp add: demo_rounding_pr_def demo_maintainers_def spec_events_def spec_official_def
        spec_nonAuthor_def spec_effectiveCreatedAt_def spec_hours_div)
  have two: "length rs = 2" using len by simp
  show ?thesis
    using run first first_na second by (simp add: map_two [OF two])
qed


text \<open>
  The claim as written speaks of every pull request.  The pull request of the example
  with a \<open>null\<close> author (the account was deleted) makes the analysis throw, alone and
  also after a pull request that has an author, whose record is lost with it.
\<close>

theorem calculateResponseTimes_hours_counterexample:
  "calculateResponseTimes [demo_example_pr None] demo_maintainers = Inl TypeError
   \<and> calculateResponseTimes [demo_example_pr (Some ''carol''), demo_example_pr None]
        demo_maintainers = Inl TypeError"
  by (simp add: responseTime_def demo_example_pr_def Let_def)


text \<open>
  Claim C4 (amended).  On a list of pull requests that all have an author, for every set
  of maintainers: the event list of each pull request is its comments, then its reviews,
  then its timeline items, each group in the order received, and the official response
  hours of its record are computed from the first element of that list, by position and
  whatever the timestamps, whose author or actor login is a maintainer's and not the
  creator's or whose kind is closed or merged; they are \<open>null\<close> exactly when the list has
  no such element.
\<close>

theorem calculateResponseTimes_officialEvent:
  assumes "\<forall>pr\<in>set prs. pn_author pr \<noteq> None"
  shows "\<exists>rs. calculateResponseTimes prs maintainers = Inr rs
     \<and> length rs = length prs
     \<and> (\<forall>i<length prs. \<forall>creator. pn_author (prs ! i) = Some creator \<longrightarrow>
          (let events = map CommentEvent (pn_comments (prs ! i))
                          @ map ReviewEvent (pn_reviews (prs ! i))
                          @ map TimelineEvent (pn_timelineItems (prs ! i))
           in (rt_officialResponseHours (rs ! i) = None \<longleftrightarrow>
                 (\<forall>k<length events. \<not> spec_official maintainers creator (events ! k)))
              \<and> (\<forall>k<length events.
                    spec_official maintainers creator (events ! k)
                    \<and> (\<forall>j<k. \<not> spec_official maintainers creator (events ! j))
                    \<longrightarrow> rt_officialResponseHours (rs ! i) =
                          Some (spec_hours (pn_createdAt (prs ! i))
                                  (spec_timestamp (events ! k))))))"
proof -
  from calculateResponseTimes_records [OF assms, of maintainers]
  obtain rs where rs: "calculateResponseTimes prs maintainers = Inr rs"
      "length rs = length prs"
      "\<forall>i<length prs. responseTime maintainers (prs ! i) = Inr (rs ! i)"
    by blast
  have each: "(rt_officialResponseHours (rs ! i) = None \<longleftrightarrow>
                 (\<forall>k<length (spec_events (prs ! i)).
                     \<not> spec_official maintainers creator (spec_events (prs ! i) ! k)))
              \<and> (\<forall>k<length (spec_events (prs ! i)).
                    spec_official maintainers creator (spec_events (prs ! i) ! k)
                    \<and> (\<forall>j<k. \<not> spec_official maintainers creator (spec_events (prs ! i) ! j))
                    \<longrightarrow> rt_officialResponseHours (rs ! i) =
                          Some (spec_hours (pn_createdAt (prs ! i))
                                  (spec_timestamp (spec_events (prs ! i) ! k))))"
    if "i < length prs" "pn_author (prs ! i) = Some creator" for i creator
  proof -
    let ?P = "spec_official maintainers creator"
    let ?es = "spec_events (prs ! i)"
    from responseTime_spec [OF that(2), of maintainers] rs(3) that(1)
    have hours: "rt_officialResponseHours (rs ! i) =
        map_option (\<lambda>e. spec_hours (pn_createdAt (prs ! i)) (spec_timestamp e))
          (List.find ?P ?es)"
      by auto
    have none: "rt_officialResponseHours (rs ! i) = None \<longleftrightarrow>
        (\<forall>k<length ?es. \<not> ?P (?es ! k))"
      unfolding hours by (auto simp: find_None_iff in_set_conv_nth)
    have first: "\<forall>k<length ?es. ?P (?es ! k) \<and> (\<forall>j<k. \<not> ?P (?es ! j))
        \<longrightarrow> rt_officialResponseHours (rs ! i) =
              Some (spec_hours (pn_createdAt (prs ! i)) (spec_timestamp (?es ! k)))"
      unfolding hours by (auto simp: find_first_index)
    from none first show ?thesis by (rule conjI)
  qed
  show ?thesis
  proof (intro exI [of _ rs] conjI allI impI)
    show "calculateResponseTimes prs maintainers = Inr rs" by (rule rs(1))
    show "length rs = length prs" by (rule rs(2))
  next
    fix i creator
    assume "i < length prs" "pn_author (prs ! i) = Some creator"
    from each [OF this]
    show "let events = map CommentEvent (pn_comments (prs ! i))
                          @ map ReviewEvent (pn_reviews (prs ! i))
                          @ map TimelineEvent (pn_timelineItems (prs ! i))
           in (rt_officialResponseHours (rs ! i) = None \<longleftrightarrow>
                 (\<forall>k<length events. \<not> spec_official maintainers creator (events ! k)))
              \<and> (\<forall>k<length events.
                    spec_official maintainers creator (events ! k)
                    \<and> (\<forall>j<k. \<not> spec_official maintainers creator (events ! j))
                    \<longrightarrow> rt_officialResponseHours (rs ! i) =
                          Some (spec_hours (pn_createdAt (prs ! i))
                                  (spec_timestamp (events ! k))))"
      unfolding spec_events_def Let_def .
  qed
qed


theorem calculateResponseTimes_officialEvent_witness:
  "\<exists>rs. calculateResponseTimes
          [demo_late_comment_pr, demo_actor_pr, demo_own_pr, demo_quiet_pr]
          demo_maintainers = Inr rs
     \<and> map rt_officialResponseHours rs = [Some 10, Some 3, Some 6, None]"
proof -
  let ?prs = "[demo_late_comment_pr, demo_actor_pr, demo_own_pr, demo_quiet_pr]"
  have authors: "\<forall>pr\<in>set ?prs. pn_author pr \<noteq> None"
    by (simp add: demo_late_comment_pr_def demo_actor_pr_def demo_own_pr_def
        demo_quiet_pr_def)
  from calculateResponseTimes_officialEvent [OF authors, of demo_maintainers]
  obtain rs where run: "calculateResponseTimes ?prs demo_maintainers = Inr rs"
    and len: "length rs = length ?prs"
    and official: "\<forall>i<length ?prs. \<forall>creator. pn_author (?prs ! i) = Some creator \<longrightarrow>
          (let events = map CommentEvent (pn_comments (?prs ! i))
                          @ map ReviewEvent (pn_reviews (?prs ! i))
                          @ map TimelineEvent (pn_timelineItems (?prs ! i))
           in (rt_officialResponseHours (rs ! i) = None \<longleftrightarrow>
                 (\<forall>k<length events. \<not> spec_official demo_maintainers creator (events ! k)))
              \<and> (\<forall>k<length events.
                    spec_official demo_maintainers creator (events ! k)
                    \<and> (\<forall>j<k. \<not> spec_official demo_maintainers creator (events ! j))
                    \<longrightarrow> rt_officialResponseHours (rs ! i) =
                          Some (spec_hours (pn_createdAt (?prs ! i))
                                  (spec_timestamp (events ! k)))))"
    by blast
  have late: "rt_officialResponseHours (rs ! 0) = Some 10"
    using official [rule_format, of 0 "''carol''", unfolded Let_def, THEN conjunct2,
        rule_format, of 1]
    by (simp add: demo_late_comment_pr_def demo_maintainers_def spec_official_def
        spec_hours_div)
  have actor: "rt_officialResponseHours (rs ! 1) = Some 3"
    using official [rule_format, of 1 "''carol''", unfolded Let_def, THEN conjunct2,
        rule_format, of 2]
    by (simp add: demo_actor_pr_def demo_maintainers_def spec_official_def
        spec_hours_div less_Suc_eq numeral_2_eq_2)
  have own: "rt_officialResponseHours (rs ! 2) = Some 6"
    using official [rule_format, of 2 "''alice''", unfolded Let_def, THEN conjunct2,
        rule_format, of 2]
    by (simp add: demo_own_pr_def demo_maintainers_def spec_official_def
        spec_hours_div less_Suc_eq numeral_2_eq_2)
  have quiet: "rt_officialResponseHours (rs ! 3) = None"
    using official [rule_format, of 3 "''carol''", unfolded Let_def, THEN conjunct1]
    by (simp add: demo_quiet_pr_def demo_maintainers_def spec_official_def)
  have four: "length rs = 4" using len by simp
  show ?thesis
    using run late actor own quiet by (simp add: map_four [OF four])
qed


text \<open>
  Without an author the analysis selects no event at all: it throws, for the pull request
  itself and for the pull requests analysed with it.
\<close>

theorem calculateResponseTimes_officialEvent_counterexample:
  "calculateResponseTimes [demo_late_comment_pr \<lparr> pn_author := None \<rparr>] demo_maintainers
     = Inl TypeError
   \<and> calculateResponseTimes [demo_late_comment_pr, demo_actor_pr \<lparr> pn_author := None \<rparr>]
        demo_maintainers = Inl TypeError"
  by (simp add: responseTime_def demo_late_comment_pr_def demo_actor_pr_def Let_def)

section \<open>Properties of a single request\<close>

text \<open>
  Claim C7, as amended.  \<open>fetchQuery\<close> throws the transport error, carrying the status
  text, exactly when the HTTP status is not 200; it throws the query error, carrying the
  message of the first element of \<open>errors\<close>, exactly when the status is 200 and the
  body's \<open>errors\<close> is a non-empty list; and when the status is 200 and the body has no
  \<open>errors\<close> it returns the decoded body.
\<close>

theorem fetchQuery_outcomes:
  "((\<exists>t. fetchQuery endpoint v = Inl (TransportError t)) \<longleftrightarrow> status (endpoint v) \<noteq> 200)
   \<and> (status (endpoint v) \<noteq> 200 \<longrightarrow>
        fetchQuery endpoint v = Inl (TransportError (statusText (endpoint v))))
   \<and> ((\<exists>m. fetchQuery endpoint v = Inl (QueryError m)) \<longleftrightarrow>
        status (endpoint v) = 200 \<and> (\<exists>e es. json_errors (endpoint v) = Some (e # es)))
   \<and> (\<forall>e es. status (endpoint v) = 200 \<and> json_errors (endpoint v) = Some (e # es) \<longrightarrow>
        fetchQuery endpoint v = Inl (QueryError (message e)))
   \<and> (status (endpoint v) = 200 \<and> json_errors (endpoint v) = None \<longrightarrow>
        fetchQuery endpoint v = Inr (endpoint v))"
  by (auto simp: fetchQuery_def Let_def split: option.splits list.splits)

theorem fetchQuery_outcomes_witness:
  "fetchQuery (\<lambda>v::unit. \<lparr> status = 500, statusText = ''Internal Server Error'',
                            json_data = (None :: nat option), json_errors = None \<rparr>) ()
     = Inl (TransportError ''Internal Server Error'')
   \<and> fetchQuery (\<lambda>v::unit. \<lparr> status = 200, statusText = ''OK'', json_data = (None :: nat option),
                              json_errors = Some [\<lparr> message = ''rate limited'' \<rparr>,
                                                  \<lparr> message = ''second'' \<rparr>] \<rparr>) ()
     = Inl (QueryError ''rate limited'')
   \<and> fetchQuery (\<lambda>v::unit. \<lparr> status = 200, statusText = ''OK'', json_data = Some (5 :: nat),
                              json_errors = None \<rparr>) ()
     = Inr \<lparr> status = 200, statusText = ''OK'', json_data = Some (5 :: nat), json_errors = None \<rparr>"
  using
    fetchQuery_outcomes [of "\<lambda>v::unit. \<lparr> status = 500, statusText = ''Internal Server Error'',
                            json_data = (None :: nat option), json_errors = None \<rparr>" "()"]
    fetchQuery_outcomes [of "\<lambda>v::unit. \<lparr> status = 200, statusText = ''OK'',
                            json_data = (None :: nat option),
                            json_errors = Some [\<lparr> message = ''rate limited'' \<rparr>,
                                                \<lparr> message = ''second'' \<rparr>] \<rparr>" "()"]
    fetchQuery_outcomes [of "\<lambda>v::unit. \<lparr> status = 200, statusText = ''OK'',
                            json_data = Some (5 :: nat), json_errors = None \<rparr>" "()"]
  by simp

text \<open>
  Claim C7 as stated fails in two places.  The status test is \<open>status !== 200\<close>, so a
  response with another success status (one for which \<open>response.ok\<close> holds) is a
  transport error.  And an \<open>errors\<close> member that is the empty list does not let the
  body through: the array is truthy, and reading \<open>errors[0].message\<close> throws.
\<close>

theorem fetchQuery_counterexample:
  "response_ok \<lparr> status = 204, statusText = ''No Content'', json_data = (None :: nat option),
                 json_errors = None \<rparr>
   \<and> fetchQuery (\<lambda>v::unit. \<lparr> status = 204, statusText = ''No Content'',
                              json_data = (None :: nat option), json_errors = None \<rparr>) ()
     = Inl (TransportError ''No Content'')
   \<and> fetchQuery (\<lambda>v::unit. \<lparr> status = 200, statusText = ''OK'', json_data = Some (5 :: nat),
                              json_errors = Some [] \<rparr>) ()
     = Inl TypeError"
  by (simp add: fetchQuery_def response_ok_def)


section \<open>Properties of the pull-request listing\<close>

lemma fetchPRData_loop_sent:
  assumes "fetchPRData_loop endpoint rangeStart cursor acc sent = Some y"
  shows "\<exists>new. snd y = sent @ new \<and> new \<noteq> []
           \<and> (\<forall>i<length new.
                 status (endpoint (new ! i)) = 200
                 \<and> (\<exists>page. json_data (endpoint (new ! i)) = Some page \<and> nodes page \<noteq> []
                       \<and> pn_createdAt (last (nodes page)) < rangeStart)
                 \<longrightarrow> Suc i = length new)"
proof (rule fetchPRData_loop.raw_induct
    [where P = "\<lambda>endpoint rangeStart cursor acc sent y.
       \<exists>new. snd y = sent @ new \<and> new \<noteq> []
           \<and> (\<forall>i<length new.
                 status (endpoint (new ! i)) = 200
                 \<and> (\<exists>page. json_data (endpoint (new ! i)) = Some page \<and> nodes page \<noteq> []
                       \<and> pn_createdAt (last (nodes page)) < rangeStart)
                 \<longrightarrow> Suc i = length new)", OF _ assms], goal_cases)
  case (1 loop endpoint rangeStart cursor acc sent y)
  note IH = 1(1) and body = 1(2)
  let ?T = "\<lambda>c. status (endpoint c) = 200
                 \<and> (\<exists>page. json_data (endpoint c) = Some page \<and> nodes page \<noteq> []
                       \<and> pn_createdAt (last (nodes page)) < rangeStart)"
  show "\<exists>new. snd y = sent @ new \<and> new \<noteq> []
           \<and> (\<forall>i<length new. ?T (new ! i) \<longrightarrow> Suc i = length new)"
  proof (cases "\<exists>page. status (endpoint cursor) = 200 \<and> json_data (endpoint cursor) = Some page
            \<and> \<not> (nodes page \<noteq> [] \<and> pn_createdAt (last (nodes page)) < rangeStart)
            \<and> hasNextPage (pageInfo page)")
    case True
    then obtain page where page: "status (endpoint cursor) = 200"
        "json_data (endpoint cursor) = Some page"
        "\<not> (nodes page \<noteq> [] \<and> pn_createdAt (last (nodes page)) < rangeStart)"
        "hasNextPage (pageInfo page)"
      by blast
    with body have "loop endpoint rangeStart (endCursor (pageInfo page)) (acc @ nodes page)
        (sent @ [cursor]) = Some y"
      by (simp add: Let_def)
    from IH [OF this] obtain new where new: "snd y = (sent @ [cursor]) @ new" "new \<noteq> []"
        "\<forall>i<length new. ?T (new ! i) \<longrightarrow> Suc i = length new"
      by blast
    have "\<forall>i<length (cursor # new). ?T ((cursor # new) ! i) \<longrightarrow> Suc i = length (cursor # new)"
    proof (intro allI impI)
      fix i assume i: "i < length (cursor # new)" and t: "?T ((cursor # new) ! i)"
      show "Suc i = length (cursor # new)"
      proof (cases i)
        case 0
        with t page show ?thesis by auto
      next
        case (Suc j)
        with i t new(3) show ?thesis by auto
      qed
    qed
    with new(1) show ?thesis
      by (intro exI [of _ "cursor # new"]) simp
  next
    case False
    with body have "snd y = sent @ [cursor]"
      by (auto simp: Let_def split: if_splits option.splits)
    then show ?thesis
      by (intro exI [of _ "[cursor]"]) simp
  qed
qed

lemma fetchPRData_loop_stops:
  assumes "status (endpoint cursor) = 200" "json_data (endpoint cursor) = Some page"
    "nodes page \<noteq> []" "pn_createdAt (last (nodes page)) < rangeStart"
  shows "fetchPRData_loop endpoint rangeStart cursor acc sent
           = Some (Inr (acc @ nodes page), sent @ [cursor])"
  using assms by (subst fetchPRData_loop.simps) (simp add: Let_def)

lemma fetchPRData_cases:
  assumes "fetchPRData endpoint rangeStart rangeEnd = Some (result, sent)"
  shows "\<exists>r. fetchPRData_loop endpoint rangeStart None [] [] = Some (r, sent)
            \<and> (\<forall>prs. result = Inr prs \<longrightarrow>
                  (\<exists>all. r = Inr all \<and> prs = filter (inRange rangeStart rangeEnd) all))"
  using assms
  by (auto simp: fetchPRData_def split: option.splits sum.splits prod.splits)

text \<open>
  Claim C5.  In a run of \<open>fetchPRData\<close> that returns, a request answered with a page
  whose last (oldest) pull request was created before \<open>rangeStart\<close> is the last
  request sent, and no pull request of the result was created before \<open>rangeStart\<close>.
  Moreover the loop does return at such a page, with that request as its last: wherever
  it stands, it adds the page's nodes and sends nothing further.
\<close>

theorem fetchPRData_early_exit:
  "(fetchPRData endpoint rangeStart rangeEnd = Some (result, sent) \<longrightarrow>
      (\<forall>i<length sent.
          status (endpoint (sent ! i)) = 200
          \<and> (\<exists>page. json_data (endpoint (sent ! i)) = Some page \<and> nodes page \<noteq> []
                \<and> pn_createdAt (last (nodes page)) < rangeStart)
          \<longrightarrow> Suc i = length sent)
      \<and> (\<forall>prs. result = Inr prs \<longrightarrow> (\<forall>pr\<in>set prs. rangeStart \<le> pn_createdAt pr)))
   \<and> (status (endpoint cursor) = 200 \<and> json_data (endpoint cursor) = Some page
        \<and> nodes page \<noteq> [] \<and> pn_createdAt (last (nodes page)) < rangeStart \<longrightarrow>
        fetchPRData_loop endpoint rangeStart cursor acc sent0
          = Some (Inr (acc @ nodes page), sent0 @ [cursor]))"
proof (intro conjI impI)
  assume run: "fetchPRData endpoint rangeStart rangeEnd = Some (result, sent)"
  from fetchPRData_cases [OF run] obtain r
    where both: "fetchPRData_loop endpoint rangeStart None [] [] = Some (r, sent)
            \<and> (\<forall>prs. result = Inr prs \<longrightarrow>
                  (\<exists>all. r = Inr all \<and> prs = filter (inRange rangeStart rangeEnd) all))" ..
  note r = both [THEN conjunct1] and prs = both [THEN conjunct2]
  from fetchPRData_loop_sent [OF r]
  show "\<forall>i<length sent.
          status (endpoint (sent ! i)) = 200
          \<and> (\<exists>page. json_data (endpoint (sent ! i)) = Some page \<and> nodes page \<noteq> []
                \<and> pn_createdAt (last (nodes page)) < rangeStart)
          \<longrightarrow> Suc i = length sent"
    by simp
  show "\<forall>prs. result = Inr prs \<longrightarrow> (\<forall>pr\<in>set prs. rangeStart \<le> pn_createdAt pr)"
    using prs by (auto simp: inRange_def)
next
  assume "status (endpoint cursor) = 200 \<and> json_data (endpoint cursor) = Some page
        \<and> nodes page \<noteq> [] \<and> pn_createdAt (last (nodes page)) < rangeStart"
  then show "fetchPRData_loop endpoint rangeStart cursor acc sent0
          = Some (Inr (acc @ nodes page), sent0 @ [cursor])"
    by (simp add: fetchPRData_loop_stops)
qed

lemma demo_listing_run:
  "fetchPRData demo_listing 50 95
     = Some (Inr [demo_pr 4 80 False, demo_pr 3 60 False], [None, Some ''a''])"
  by (simp add: fetchPRData_def fetchPRData_loop.simps demo_listing_def inRange_def demo_pr_def
      Let_def)

theorem fetchPRData_early_exit_witness:
  "fetchPRData demo_listing 50 95
     = Some (Inr [demo_pr 4 80 False, demo_pr 3 60 False], [None, Some ''a''])
   \<and> hasNextPage (pageInfo (the (json_data (demo_listing (Some ''a'')))))
   \<and> pn_createdAt (last (nodes (the (json_data (demo_listing (Some ''a'')))))) = 40
   \<and> fetchPRData_loop demo_listing 50 (Some ''a'') [] [None]
       = Some (Inr [demo_pr 3 60 False, demo_pr 2 40 False], [None, Some ''a''])"
  using fetchPRData_early_exit [of demo_listing 50 95
      "Inr [demo_pr 4 80 False, demo_pr 3 60 False]" "[None, Some ''a'']" "Some ''a''"
      "the (json_data (demo_listing (Some ''a'')))" "[]" "[None]"]
    demo_listing_run
  by (simp add: demo_listing_def demo_pr_def)

section \<open>Drafts\<close>

lemma calculateResponseTimes_numbers:
  "calculateResponseTimes prs maintainers = Inr rs \<Longrightarrow> map rt_number rs = map pn_number prs"
proof (induction prs arbitrary: rs)
  case Nil
  then show ?case by simp
next
  case (Cons pr prs)
  then show ?case
    by (auto simp: responseTime_def Let_def split: sum.splits option.splits)
qed

lemma fetchRepoMetrics_loop_rows:
  assumes "fetchRepoMetrics_loop endpoint fmt org repo cursor acc sent = Some y"
  shows "\<exists>new. snd y = sent @ new
           \<and> (\<forall>rows. fst y = Inr rows \<longrightarrow>
                 rows = acc @ map (monitor_row_of fmt)
                   (filter (\<lambda>pr. \<not> mp_isDraft pr)
                      (concat (map (\<lambda>v. case json_data (endpoint v) of
                                            Some (Some page) \<Rightarrow> nodes page
                                          | _ \<Rightarrow> []) new))))"
proof (rule fetchRepoMetrics_loop.raw_induct
    [where P = "\<lambda>endpoint fmt org repo cursor acc sent y.
       \<exists>new. snd y = sent @ new
           \<and> (\<forall>rows. fst y = Inr rows \<longrightarrow>
                 rows = acc @ map (monitor_row_of fmt)
                   (filter (\<lambda>pr. \<not> mp_isDraft pr)
                      (concat (map (\<lambda>v. case json_data (endpoint v) of
                                            Some (Some page) \<Rightarrow> nodes page
                                          | _ \<Rightarrow> []) new))))", OF _ assms], goal_cases)
  case (1 loop endpoint fmt org repo cursor acc sent y)
  note IH = 1(1) and body = 1(2)
  let ?v = "\<lparr> mv_cursor = cursor, mv_owner = org, mv_name = repo \<rparr>"
  let ?N = "\<lambda>v. case json_data (endpoint v) of Some (Some page) \<Rightarrow> nodes page | _ \<Rightarrow> []"
  show ?case
  proof (cases "\<exists>page. response_ok (endpoint ?v) \<and> json_data (endpoint ?v) = Some (Some page)
            \<and> json_errors (endpoint ?v) = None")
    case True
    then obtain page where page: "response_ok (endpoint ?v)"
        "json_data (endpoint ?v) = Some (Some page)" "json_errors (endpoint ?v) = None"
      by blast
    show ?thesis
    proof (cases "hasNextPage (pageInfo page)")
      case True
      with page body have "loop endpoint fmt org repo (endCursor (pageInfo page))
          (acc @ map (monitor_row_of fmt) (filter (\<lambda>pr. \<not> mp_isDraft pr) (nodes page)))
          (sent @ [?v]) = Some y"
        by (simp add: Let_def)
      from IH [OF this] obtain new where new: "snd y = (sent @ [?v]) @ new"
        "\<forall>rows. fst y = Inr rows \<longrightarrow>
           rows = (acc @ map (monitor_row_of fmt) (filter (\<lambda>pr. \<not> mp_isDraft pr) (nodes page)))
                    @ map (monitor_row_of fmt)
                        (filter (\<lambda>pr. \<not> mp_isDraft pr) (concat (map ?N new)))"
        by blast
      show ?thesis
        using new page by (intro exI [of _ "?v # new"]) simp
    next
      case False
      with page body have "y = (Inr (acc @ map (monitor_row_of fmt)
          (filter (\<lambda>pr. \<not> mp_isDraft pr) (nodes page))), sent @ [?v])"
        by (simp add: Let_def)
      then show ?thesis
        using page by (intro exI [of _ "[?v]"]) simp
    qed
  next
    case False
    with body have "snd y = sent @ [?v] \<and> (\<forall>rows. fst y \<noteq> Inr rows)"
      by (auto simp: Let_def split: if_splits option.splits list.splits)
    then show ?thesis
      by (intro exI [of _ "[?v]"]) simp
  qed
qed

text \<open>
  Claim C10.  No pull request returned by \<open>fetchPRData\<close> is a draft, whatever its
  creation date, and the analysis of the returned list has one record per returned pull
  request, in order, with its number.  The rows collected by \<open>fetchRepoMetrics\<close> are
  the rows of the non-draft nodes of the pages received, in order.
\<close>

theorem drafts_excluded:
  "(fetchPRData endpoint rangeStart rangeEnd = Some (Inr prs, sent) \<longrightarrow>
      (\<forall>pr\<in>set prs. \<not> pn_isDraft pr)
      \<and> (\<forall>rs. calculateResponseTimes prs maintainers = Inr rs \<longrightarrow>
            map rt_number rs = map pn_number prs))
   \<and> (fetchRepoMetrics monitor toLocaleDateString org repo = Some (Inr rows, requests) \<longrightarrow>
        rows = map (monitor_row_of toLocaleDateString)
                 (filter (\<lambda>pr. \<not> mp_isDraft pr)
                    (concat (map (\<lambda>v. case json_data (monitor v) of
                                          Some (Some page) \<Rightarrow> nodes page
                                        | _ \<Rightarrow> []) requests))))"
proof (intro conjI impI)
  assume run: "fetchPRData endpoint rangeStart rangeEnd = Some (Inr prs, sent)"
  from fetchPRData_cases [OF run]
  show "\<forall>pr\<in>set prs. \<not> pn_isDraft pr"
    by (auto simp: inRange_def)
  show "\<forall>rs. calculateResponseTimes prs maintainers = Inr rs \<longrightarrow>
            map rt_number rs = map pn_number prs"
    by (simp add: calculateResponseTimes_numbers)
next
  assume "fetchRepoMetrics monitor toLocaleDateString org repo = Some (Inr rows, requests)"
  then have "fetchRepoMetrics_loop monitor toLocaleDateString org repo None [] []
      = Some (Inr rows, requests)"
    by (simp add: fetchRepoMetrics_def)
  from fetchRepoMetrics_loop_rows [OF this]
  show "rows = map (monitor_row_of toLocaleDateString)
                 (filter (\<lambda>pr. \<not> mp_isDraft pr)
                    (concat (map (\<lambda>v. case json_data (monitor v) of
                                          Some (Some page) \<Rightarrow> nodes page
                                        | _ \<Rightarrow> []) requests)))"
    by simp
qed

lemma demo_monitor_run:
  "fetchRepoMetrics demo_monitor demo_date ''o'' ''r''
     = Some (Inr [monitor_row_of demo_date (demo_monitor_pr 9 False),
                  monitor_row_of demo_date (demo_monitor_pr 6 False)],
             [\<lparr> mv_cursor = None, mv_owner = ''o'', mv_name = ''r'' \<rparr>,
              \<lparr> mv_cursor = Some ''m'', mv_owner = ''o'', mv_name = ''r'' \<rparr>])"
  by (simp add: fetchRepoMetrics_def fetchRepoMetrics_loop.simps demo_monitor_def response_ok_def
      demo_monitor_pr_def Let_def)

theorem drafts_excluded_witness:
  "fetchPRData demo_listing 50 95
     = Some (Inr [demo_pr 4 80 False, demo_pr 3 60 False], [None, Some ''a''])
   \<and> pn_isDraft (demo_pr 5 90 True)
   \<and> demo_pr 5 90 True \<in> set (nodes (the (json_data (demo_listing None))))
   \<and> calculateResponseTimes [demo_pr 4 80 False, demo_pr 3 60 False] [''alice'']
       = Inr [\<lparr> rt_number = 4, rt_createdAt = 80, rt_resolvedAt = None, rt_resolutionTime = None,
                rt_maintainer = False, rt_creator = ''carol'', rt_officialResponseHours = None,
                rt_nonAuthorResponseHours = None \<rparr>,
              \<lparr> rt_number = 3, rt_createdAt = 60, rt_resolvedAt = None, rt_resolutionTime = None,
                rt_maintainer = False, rt_creator = ''carol'', rt_officialResponseHours = None,
                rt_nonAuthorResponseHours = None \<rparr>]
   \<and> fetchRepoMetrics demo_monitor demo_date ''o'' ''r''
     = Some (Inr [monitor_row_of demo_date (demo_monitor_pr 9 False),
                  monitor_row_of demo_date (demo_monitor_pr 6 False)],
             [\<lparr> mv_cursor = None, mv_owner = ''o'', mv_name = ''r'' \<rparr>,
              \<lparr> mv_cursor = Some ''m'', mv_owner = ''o'', mv_name = ''r'' \<rparr>])"
  using drafts_excluded [of demo_listing 50 95 "[demo_pr 4 80 False, demo_pr 3 60 False]"
      "[None, Some ''a'']" "[''alice'']" demo_monitor demo_date "''o''" "''r''"
      "[monitor_row_of demo_date (demo_monitor_pr 9 False),
        monitor_row_of demo_date (demo_monitor_pr 6 False)]"
      "[\<lparr> mv_cursor = None, mv_owner = ''o'', mv_name = ''r'' \<rparr>,
        \<lparr> mv_cursor = Some ''m'', mv_owner = ''o'', mv_name = ''r'' \<rparr>]"]
    demo_listing_run demo_monitor_run
  by (simp add: demo_listing_def demo_pr_def responseTime_def allEvents_def Let_def)

section \<open>Properties of the paginated detail fetches\<close>

lemma cursors_from_Cons:
  "pages \<noteq> [] \<Longrightarrow>
     cursors_from cursor (page # pages)
       = cursor # cursors_from (endCursor (pageInfo page)) pages"
  by (simp add: cursors_from_def)

lemma cursors_from_single: "cursors_from cursor [page] = [cursor]"
  by (simp add: cursors_from_def)

lemma fetchPRComments_loop_pages:
  assumes "pages \<noteq> []"
    and "\<forall>i<length pages.
           status (endpoint \<lparr> pv_owner = owner, pv_repo = repo, pv_prNumber = prNumber,
                              pv_cursor = cursors_from cursor pages ! i \<rparr>) = 200
           \<and> json_errors (endpoint \<lparr> pv_owner = owner, pv_repo = repo, pv_prNumber = prNumber,
                              pv_cursor = cursors_from cursor pages ! i \<rparr>) = None
           \<and> json_data (endpoint \<lparr> pv_owner = owner, pv_repo = repo, pv_prNumber = prNumber,
                              pv_cursor = cursors_from cursor pages ! i \<rparr>) = Some (pages ! i)
           \<and> hasNextPage (pageInfo (pages ! i)) = (Suc i < length pages)"
  shows "fetchPRComments_loop endpoint owner repo prNumber cursor acc sent
           = Some (Inr (acc @ concat (map nodes pages)),
                   sent @ map (\<lambda>c. \<lparr> pv_owner = owner, pv_repo = repo, pv_prNumber = prNumber,
                                       pv_cursor = c \<rparr>) (cursors_from cursor pages))"
  using assms
proof (induction pages arbitrary: cursor acc sent)
  case Nil
  then show ?case by simp
next
  case (Cons page pages)
  let ?v = "\<lambda>c. \<lparr> pv_owner = owner, pv_repo = repo, pv_prNumber = prNumber, pv_cursor = c \<rparr>"
  from Cons.prems(2) [rule_format, of 0]
  have first: "status (endpoint (?v cursor)) = 200" "json_errors (endpoint (?v cursor)) = None"
    "json_data (endpoint (?v cursor)) = Some page"
    "hasNextPage (pageInfo page) = (pages \<noteq> [])"
    by (simp_all add: cursors_from_def)
  show ?case
  proof (cases "pages = []")
    case True
    with first show ?thesis
      by (subst fetchPRComments_loop.simps)
        (simp add: fetchQuery_def Let_def cursors_from_single)
  next
    case False
    have "\<forall>i<length pages.
           status (endpoint (?v (cursors_from (endCursor (pageInfo page)) pages ! i))) = 200
           \<and> json_errors (endpoint (?v (cursors_from (endCursor (pageInfo page)) pages ! i))) = None
           \<and> json_data (endpoint (?v (cursors_from (endCursor (pageInfo page)) pages ! i)))
               = Some (pages ! i)
           \<and> hasNextPage (pageInfo (pages ! i)) = (Suc i < length pages)"
    proof (intro allI impI)
      fix i assume "i < length pages"
      with Cons.prems(2) [rule_format, of "Suc i"] False
      show "status (endpoint (?v (cursors_from (endCursor (pageInfo page)) pages ! i))) = 200
           \<and> json_errors (endpoint (?v (cursors_from (endCursor (pageInfo page)) pages ! i))) = None
           \<and> json_data (endpoint (?v (cursors_from (endCursor (pageInfo page)) pages ! i)))
               = Some (pages ! i)
           \<and> hasNextPage (pageInfo (pages ! i)) = (Suc i < length pages)"
        by (simp add: cursors_from_Cons)
    qed
    from Cons.IH [OF False this]
    have rest: "fetchPRComments_loop endpoint owner repo prNumber (endCursor (pageInfo page))
        (acc @ nodes page) (sent @ [?v cursor])
      = Some (Inr ((acc @ nodes page) @ concat (map nodes pages)),
              (sent @ [?v cursor]) @ map ?v (cursors_from (endCursor (pageInfo page)) pages))" .
    from first False show ?thesis
      by (subst fetchPRComments_loop.simps)
        (simp add: fetchQuery_def Let_def rest cursors_from_Cons)
  qed
qed

lemma fetchCommitContributionsForRepo_loop_pages:
  assumes "pages \<noteq> []"
    and "\<forall>i<length pages.
           status (endpoint \<lparr> cv_authorId = authorId, cv_owner = owner, cv_repo = repo,
                              cv_commitCursor = cursors_from cursor pages ! i,
                              cv_since = since \<rparr>) = 200
           \<and> json_errors (endpoint \<lparr> cv_authorId = authorId, cv_owner = owner, cv_repo = repo,
                              cv_commitCursor = cursors_from cursor pages ! i,
                              cv_since = since \<rparr>) = None
           \<and> json_data (endpoint \<lparr> cv_authorId = authorId, cv_owner = owner, cv_repo = repo,
                              cv_commitCursor = cursors_from cursor pages ! i,
                              cv_since = since \<rparr>) = Some (Some (pages ! i))
           \<and> hasNextPage (pageInfo (pages ! i)) = (Suc i < length pages)"
  shows "fetchCommitContributionsForRepo_loop endpoint owner repo since authorId cursor acc sent
           = Some (Inr (acc @ concat (map nodes pages)),
                   sent @ map (\<lambda>c. \<lparr> cv_authorId = authorId, cv_owner = owner, cv_repo = repo,
                                       cv_commitCursor = c, cv_since = since \<rparr>)
                            (cursors_from cursor pages))"
  using assms
proof (induction pages arbitrary: cursor acc sent)
  case Nil
  then show ?case by simp
next
  case (Cons page pages)
  let ?v = "\<lambda>c. \<lparr> cv_authorId = authorId, cv_owner = owner, cv_repo = repo,
                   cv_commitCursor = c, cv_since = since \<rparr>"
  from Cons.prems(2) [rule_format, of 0]
  have first: "status (endpoint (?v cursor)) = 200" "json_errors (endpoint (?v cursor)) = None"
    "json_data (endpoint (?v cursor)) = Some (Some page)"
    "hasNextPage (pageInfo page) = (pages \<noteq> [])"
    by (simp_all add: cursors_from_def)
  show ?case
  proof (cases "pages = []")
    case True
    with first show ?thesis
      by (subst fetchCommitContributionsForRepo_loop.simps)
        (simp add: fetchQuery_def Let_def cursors_from_single)
  next
    case False
    have "\<forall>i<length pages.
           status (endpoint (?v (cursors_from (endCursor (pageInfo page)) pages ! i))) = 200
           \<and> json_errors (endpoint (?v (cursors_from (endCursor (pageInfo page)) pages ! i))) = None
           \<and> json_data (endpoint (?v (cursors_from (endCursor (pageInfo page)) pages ! i)))
               = Some (Some (pages ! i))
           \<and> hasNextPage (pageInfo (pages ! i)) = (Suc i < length pages)"
    proof (intro allI impI)
      fix i assume "i < length pages"
      with Cons.prems(2) [rule_format, of "Suc i"] False
      show "status (endpoint (?v (cursors_from (endCursor (pageInfo page)) pages ! i))) = 200
           \<and> json_errors (endpoint (?v (cursors_from (endCursor (pageInfo page)) pages ! i))) = None
           \<and> json_data (endpoint (?v (cursors_from (endCursor (pageInfo page)) pages ! i)))
               = Some (Some (pages ! i))
           \<and> hasNextPage (pageInfo (pages ! i)) = (Suc i < length pages)"
        by (simp add: cursors_from_Cons)
    qed
    from Cons.IH [OF False this]
    have rest: "fetchCommitContributionsForRepo_loop endpoint owner repo since authorId
        (endCursor (pageInfo page)) (acc @ nodes page) (sent @ [?v cursor])
      = Some (Inr ((acc @ nodes page) @ concat (map nodes pages)),
              (sent @ [?v cursor]) @ map ?v (cursors_from (endCursor (pageInfo page)) pages))" .
    from first False show ?thesis
      by (subst fetchCommitContributionsForRepo_loop.simps)
        (simp add: fetchQuery_def Let_def rest cursors_from_Cons)
  qed
qed

lemma length_cursors_from: "pages \<noteq> [] \<Longrightarrow> length (cursors_from cursor pages) = length pages"
  by (simp add: cursors_from_def)

text \<open>
  Claim C6.  When the endpoint answers the chain of cursors with the pages of a page
  sequence of length \<open>k\<close>, of which the last page is the first to report
  \<open>hasNextPage = false\<close>, the paginated fetches (\<open>fetchPRComments\<close> and
  \<open>fetchCommitContributionsForRepo\<close>) return, after exactly \<open>k\<close> requests sent
  with the cursors of the chain, the concatenation of the nodes of the \<open>k\<close> pages in
  page order.
\<close>

theorem paginate_to_last_page:
  "(pages \<noteq> []
    \<and> (\<forall>i<length pages.
          status (endpoint \<lparr> pv_owner = owner, pv_repo = repo, pv_prNumber = prNumber,
                             pv_cursor = cursors_from None pages ! i \<rparr>) = 200
          \<and> json_errors (endpoint \<lparr> pv_owner = owner, pv_repo = repo, pv_prNumber = prNumber,
                             pv_cursor = cursors_from None pages ! i \<rparr>) = None
          \<and> json_data (endpoint \<lparr> pv_owner = owner, pv_repo = repo, pv_prNumber = prNumber,
                             pv_cursor = cursors_from None pages ! i \<rparr>) = Some (pages ! i)
          \<and> hasNextPage (pageInfo (pages ! i)) = (Suc i < length pages))
    \<longrightarrow> (\<exists>sent. fetchPRComments endpoint owner repo prNumber
                  = Some (Inr (concat (map nodes pages)), sent)
             \<and> length sent = length pages
             \<and> map pv_cursor sent = cursors_from None pages))
   \<and> (histories \<noteq> []
      \<and> (\<forall>i<length histories.
            status (history \<lparr> cv_authorId = authorId, cv_owner = owner', cv_repo = repo',
                              cv_commitCursor = cursors_from None histories ! i,
                              cv_since = since \<rparr>) = 200
            \<and> json_errors (history \<lparr> cv_authorId = authorId, cv_owner = owner', cv_repo = repo',
                              cv_commitCursor = cursors_from None histories ! i,
                              cv_since = since \<rparr>) = None
            \<and> json_data (history \<lparr> cv_authorId = authorId, cv_owner = owner', cv_repo = repo',
                              cv_commitCursor = cursors_from None histories ! i,
                              cv_since = since \<rparr>) = Some (Some (histories ! i))
            \<and> hasNextPage (pageInfo (histories ! i)) = (Suc i < length histories))
      \<longrightarrow> (\<exists>sent. fetchCommitContributionsForRepo history owner' repo' since authorId
                    = Some (Inr (concat (map nodes histories)), sent)
               \<and> length sent = length histories
               \<and> map cv_commitCursor sent = cursors_from None histories))"
proof (intro conjI impI)
  assume h: "pages \<noteq> []
    \<and> (\<forall>i<length pages.
          status (endpoint \<lparr> pv_owner = owner, pv_repo = repo, pv_prNumber = prNumber,
                             pv_cursor = cursors_from None pages ! i \<rparr>) = 200
          \<and> json_errors (endpoint \<lparr> pv_owner = owner, pv_repo = repo, pv_prNumber = prNumber,
                             pv_cursor = cursors_from None pages ! i \<rparr>) = None
          \<and> json_data (endpoint \<lparr> pv_owner = owner, pv_repo = repo, pv_prNumber = prNumber,
                             pv_cursor = cursors_from None pages ! i \<rparr>) = Some (pages ! i)
          \<and> hasNextPage (pageInfo (pages ! i)) = (Suc i < length pages))"
  let ?sent = "map (\<lambda>c. \<lparr> pv_owner = owner, pv_repo = repo, pv_prNumber = prNumber,
                           pv_cursor = c \<rparr>) (cursors_from None pages)"
  from fetchPRComments_loop_pages [OF h [THEN conjunct1] h [THEN conjunct2], of "[]" "[]"]
  have "fetchPRComments endpoint owner repo prNumber
          = Some (Inr (concat (map nodes pages)), ?sent)"
    by (simp add: fetchPRComments_def)
  moreover have "length ?sent = length pages"
    using h by (simp add: length_cursors_from)
  moreover have "map pv_cursor ?sent = cursors_from None pages"
    by (simp add: comp_def)
  ultimately show "\<exists>sent. fetchPRComments endpoint owner repo prNumber
                  = Some (Inr (concat (map nodes pages)), sent)
             \<and> length sent = length pages
             \<and> map pv_cursor sent = cursors_from None pages"
    by (intro exI [of _ ?sent] conjI)
next
  assume h: "histories \<noteq> []
      \<and> (\<forall>i<length histories.
            status (history \<lparr> cv_authorId = authorId, cv_owner = owner', cv_repo = repo',
                              cv_commitCursor = cursors_from None histories ! i,
                              cv_since = since \<rparr>) = 200
            \<and> json_errors (history \<lparr> cv_authorId = authorId, cv_owner = owner', cv_repo = repo',
                              cv_commitCursor = cursors_from None histories ! i,
                              cv_since = since \<rparr>) = None
            \<and> json_data (history \<lparr> cv_authorId = authorId, cv_owner = owner', cv_repo = repo',
                              cv_commitCursor = cursors_from None histories ! i,
                              cv_since = since \<rparr>) = Some (Some (histories ! i))
            \<and> hasNextPage (pageInfo (histories ! i)) = (Suc i < length histories))"
  let ?sent = "map (\<lambda>c. \<lparr> cv_authorId = authorId, cv_owner = owner', cv_repo = repo',
                           cv_commitCursor = c, cv_since = since \<rparr>) (cursors_from None histories)"
  from fetchCommitContributionsForRepo_loop_pages
    [OF h [THEN conjunct1] h [THEN conjunct2], of "[]" "[]"]
  have "fetchCommitContributionsForRepo history owner' repo' since authorId
          = Some (Inr (concat (map nodes histories)), ?sent)"
    by (simp add: fetchCommitContributionsForRepo_def)
  moreover have "length ?sent = length histories"
    using h by (simp add: length_cursors_from)
  moreover have "map cv_commitCursor ?sent = cursors_from None histories"
    by (simp add: comp_def)
  ultimately show "\<exists>sent. fetchCommitContributionsForRepo history owner' repo' since authorId
                    = Some (Inr (concat (map nodes histories)), sent)
               \<and> length sent = length histories
               \<and> map cv_commitCursor sent = cursors_from None histories"
    by (intro exI [of _ ?sent] conjI)
qed

theorem paginate_to_last_page_witness:
  "(\<exists>sent. fetchPRComments demo_comments (Some ''o'') (Some ''r'') 7
             = Some (Inr [demo_comment 1, demo_comment 2, demo_comment 3, demo_comment 4,
                          demo_comment 1], sent)
        \<and> length sent = 3
        \<and> map pv_cursor sent = [None, Some ''c1'', Some ''c2''])
   \<and> (\<exists>sent. fetchCommitContributionsForRepo demo_history (Some ''o'') (Some ''r'') 0 ''id''
               = Some (Inr [demo_commit 9, demo_commit 8, demo_commit 7], sent)
          \<and> length sent = 2
          \<and> map cv_commitCursor sent = [None, Some ''h1''])"
proof -
  have comments: "demo_comment_pages \<noteq> []
    \<and> (\<forall>i<length demo_comment_pages.
          status (demo_comments \<lparr> pv_owner = Some ''o'', pv_repo = Some ''r'', pv_prNumber = 7,
                             pv_cursor = cursors_from None demo_comment_pages ! i \<rparr>) = 200
          \<and> json_errors (demo_comments \<lparr> pv_owner = Some ''o'', pv_repo = Some ''r'',
                             pv_prNumber = 7,
                             pv_cursor = cursors_from None demo_comment_pages ! i \<rparr>) = None
          \<and> json_data (demo_comments \<lparr> pv_owner = Some ''o'', pv_repo = Some ''r'',
                             pv_prNumber = 7,
                             pv_cursor = cursors_from None demo_comment_pages ! i \<rparr>)
              = Some (demo_comment_pages ! i)
          \<and> hasNextPage (pageInfo (demo_comment_pages ! i)) = (Suc i < length demo_comment_pages))"
    by (simp add: demo_comment_pages_def demo_comments_def cursors_from_def All_less_Suc)
  have commits: "demo_history_pages \<noteq> []
      \<and> (\<forall>i<length demo_history_pages.
            status (demo_history \<lparr> cv_authorId = ''id'', cv_owner = Some ''o'', cv_repo = Some ''r'',
                              cv_commitCursor = cursors_from None demo_history_pages ! i,
                              cv_since = 0 \<rparr>) = 200
            \<and> json_errors (demo_history \<lparr> cv_authorId = ''id'', cv_owner = Some ''o'',
                              cv_repo = Some ''r'',
                              cv_commitCursor = cursors_from None demo_history_pages ! i,
                              cv_since = 0 \<rparr>) = None
            \<and> json_data (demo_history \<lparr> cv_authorId = ''id'', cv_owner = Some ''o'',
                              cv_repo = Some ''r'',
                              cv_commitCursor = cursors_from None demo_history_pages ! i,
                              cv_since = 0 \<rparr>) = Some (Some (demo_history_pages ! i))
            \<and> hasNextPage (pageInfo (demo_history_pages ! i))
                = (Suc i < length demo_history_pages))"
    by (simp add: demo_history_pages_def demo_history_def cursors_from_def All_less_Suc)
  note pages = paginate_to_last_page [of demo_comment_pages demo_comments "Some ''o''"
      "Some ''r''" 7 demo_history_pages demo_history "''id''" "Some ''o''" "Some ''r''" 0]
  from pages [THEN conjunct1, rule_format, OF comments]
    pages [THEN conjunct2, rule_format, OF commits]
  show ?thesis
    by (simp add: demo_comment_pages_def demo_history_pages_def cursors_from_def
        numeral_3_eq_3 numeral_2_eq_2)
qed

section \<open>Properties of the widened fetch\<close>



lemma div_mod_step:
  fixes x n :: int
  assumes "0 < n"
  shows div_step: "x div n = (x - 1) div n + (if x mod n = 0 then 1 else 0)"
    and mod_step: "(x - 1) mod n = (if x mod n = 0 then n - 1 else x mod n - 1)"
proof -
  have split: "x = n * (x div n) + x mod n" by simp
  have "(x - 1) div n = x div n - (if x mod n = 0 then 1 else 0)
      \<and> (x - 1) mod n = (if x mod n = 0 then n - 1 else x mod n - 1)"
  proof (cases "x mod n = 0")
    case True
    with split have "x = n * (x div n)" by (simp only: add_0_right)
    then have eq: "x - 1 = n * (x div n - 1) + (n - 1)"
      by (simp add: algebra_simps)
    have "(x - 1) div n = x div n - 1"
      by (rule int_div_pos_eq [OF eq]) (use assms in simp_all)
    moreover have "(x - 1) mod n = n - 1"
      by (rule int_mod_pos_eq [OF eq]) (use assms in simp_all)
    ultimately show ?thesis using True by simp
  next
    case False
    from assms have "0 \<le> x mod n" "x mod n < n" by simp_all
    with False have pos: "0 < x mod n" "x mod n < n" by linarith+
    from split have eq: "x - 1 = n * (x div n) + (x mod n - 1)"
      by linarith
    have "(x - 1) div n = x div n"
      by (rule int_div_pos_eq [OF eq]) (use pos in simp_all)
    moreover have "(x - 1) mod n = x mod n - 1"
      by (rule int_mod_pos_eq [OF eq]) (use pos in simp_all)
    ultimately show ?thesis using False by simp
  qed
  then show "x div n = (x - 1) div n + (if x mod n = 0 then 1 else 0)"
    and "(x - 1) mod n = (if x mod n = 0 then n - 1 else x mod n - 1)"
    by simp_all
qed








lemma demo_lookback: "lookbackStart utc_getMonth utc_setMonth 1710460800000 = 1707955200000"
  by code_simp

lemma demo_activity_run:
  "fetchUserActivity utc_getMonth utc_setMonth demo_activity ''alice'' 1710460800000
     = Some (Inr \<lparr> pullRequests = [demo_pull_request 1 1704844800000 1710547200000,
                                     demo_pull_request 3 1710892800000 1710979200000],
                   reviews = [demo_review 11 1710547200000 1710547200000],
                   issues = [demo_issue 21 1709251200000 1710460800000],
                   commitsByRepo = [demo_bucket] \<rparr>,
             [\<lparr> av_cursor = None, av_login = ''alice'', av_since = 1707955200000 \<rparr>,
              \<lparr> av_cursor = Some ''p1'', av_login = ''alice'', av_since = 1707955200000 \<rparr>])"
  by (simp add: fetchUserActivity_def demo_lookback fetchUserActivity_loop.simps fetchQuery_def
      demo_activity_def demo_contributions_def filterUpdatedSince_def Let_def
      demo_pull_request_def demo_review_def demo_issue_def)














text \<open>
  Claim C1 does not hold of the code.  The loop reads only the page information of the
  pull-request connection: in the run below the second response reports a further page
  of reviews, the pull-request connection reports none, and the loop stops after two
  requests.
\<close>

theorem fetchUserActivity_ignores_review_pages:
  "fetchUserActivity utc_getMonth utc_setMonth demo_activity ''alice'' 1710460800000
     = Some (Inr \<lparr> pullRequests = [demo_pull_request 1 1704844800000 1710547200000,
                                     demo_pull_request 3 1710892800000 1710979200000],
                   reviews = [demo_review 11 1710547200000 1710547200000],
                   issues = [demo_issue 21 1709251200000 1710460800000],
                   commitsByRepo = [demo_bucket] \<rparr>,
             [\<lparr> av_cursor = None, av_login = ''alice'', av_since = 1707955200000 \<rparr>,
              \<lparr> av_cursor = Some ''p1'', av_login = ''alice'', av_since = 1707955200000 \<rparr>])
   \<and> json_data (demo_activity \<lparr> av_cursor = Some ''p1'', av_login = ''alice'',
                                 av_since = 1707955200000 \<rparr>)
       = Some (Some (demo_contributions (Some ''p1'')))
   \<and> hasNextPage (pageInfo (pullRequestReviewContributions (demo_contributions (Some ''p1''))))
   \<and> \<not> hasNextPage (pageInfo (pullRequestContributions (demo_contributions (Some ''p1''))))"
  using demo_activity_run by (simp add: demo_activity_def demo_contributions_def)

section \<open>Properties of the enrichment fan-out\<close>

lemma run_tasks_length:
  "run_tasks schedule pending items = (r, pending', items') \<Longrightarrow>
     length pending' = length pending \<and> length items' = length items"
proof (induction schedule arbitrary: pending items)
  case Nil
  then show ?case by simp
next
  case (Cons i schedule)
  show ?case
  proof (cases "next_event i pending items")
    case None
    with Cons.prems have "run_tasks schedule pending items = (r, pending', items')"
      by simp
    then show ?thesis by (rule Cons.IH)
  next
    case (Some ev)
    obtain res rest where ev: "ev = (res, rest)" by (cases ev)
    show ?thesis
    proof (cases res)
      case (Inl e)
      with Some ev Cons.prems show ?thesis by simp
    next
      case (Inr item')
      with Some ev Cons.prems
      have "run_tasks schedule (pending[i := rest]) (items[i := item']) = (r, pending', items')"
        by simp
      from Cons.IH [OF this] show ?thesis by simp
    qed
  qed
qed

lemma next_event_SomeD:
  assumes "next_event i pending items = Some (res, rest)"
  shows "i < length pending \<and> i < length items
         \<and> (\<exists>step. pending ! i = step # rest \<and> step (items ! i) = Some res)"
  using assms by (auto simp: next_event_def split: if_splits list.splits)

lemma run_tasks_rejected:
  "run_tasks schedule pending items = (Some e, pending', items') \<Longrightarrow>
     \<exists>done i rest step steps.
        schedule = done @ i # rest
        \<and> run_tasks done pending items = (None, pending', items')
        \<and> i < length pending' \<and> i < length items'
        \<and> pending' ! i = step # steps \<and> step (items' ! i) = Some (Inl e)"
proof (induction schedule arbitrary: pending items)
  case Nil
  then show ?case by simp
next
  case (Cons i schedule)
  show ?case
  proof (cases "next_event i pending items")
    case None
    with Cons.prems have "run_tasks schedule pending items = (Some e, pending', items')"
      by simp
    from Cons.IH [OF this] obtain "done" k rest step steps
      where "schedule = done @ k # rest
        \<and> run_tasks done pending items = (None, pending', items')
        \<and> k < length pending' \<and> k < length items'
        \<and> pending' ! k = step # steps \<and> step (items' ! k) = Some (Inl e)"
      by blast
    with None have "i # schedule = (i # done) @ k # rest
        \<and> run_tasks (i # done) pending items = (None, pending', items')
        \<and> k < length pending' \<and> k < length items'
        \<and> pending' ! k = step # steps \<and> step (items' ! k) = Some (Inl e)"
      by simp
    then show ?thesis by blast
  next
    case (Some ev)
    obtain res steps where ev: "ev = (res, steps)" by (cases ev)
    note ne = next_event_SomeD [OF Some [unfolded ev]]
    show ?thesis
    proof (cases res)
      case (Inl e')
      with Some ev Cons.prems have same: "e' = e" "pending' = pending" "items' = items"
        by simp_all
      from ne obtain step where "pending ! i = step # steps" "step (items ! i) = Some res"
        by blast
      with ne Inl same have "i # schedule = [] @ i # schedule
        \<and> run_tasks [] pending items = (None, pending', items')
        \<and> i < length pending' \<and> i < length items'
        \<and> pending' ! i = step # steps \<and> step (items' ! i) = Some (Inl e)"
        by simp
      then show ?thesis by blast
    next
      case (Inr item')
      with Some ev Cons.prems
      have "run_tasks schedule (pending[i := steps]) (items[i := item'])
              = (Some e, pending', items')"
        by simp
      from Cons.IH [OF this] obtain "done" k rest step steps'
        where "schedule = done @ k # rest
          \<and> run_tasks done (pending[i := steps]) (items[i := item']) = (None, pending', items')
          \<and> k < length pending' \<and> k < length items'
          \<and> pending' ! k = step # steps' \<and> step (items' ! k) = Some (Inl e)"
        by blast
      with Some ev Inr have "i # schedule = (i # done) @ k # rest
        \<and> run_tasks (i # done) pending items = (None, pending', items')
        \<and> k < length pending' \<and> k < length items'
        \<and> pending' ! k = step # steps' \<and> step (items' ! k) = Some (Inl e)"
        by simp
      then show ?thesis by blast
    qed
  qed
qed

lemma run_tasks_reaches_failure:
  assumes "length pre < count_list schedule i" "i < length pending" "i < length items"
    "pending ! i = pre @ failing # post"
    "\<forall>step\<in>set pre. \<forall>x. step x \<noteq> None"
    "\<And>x. \<exists>e. failing x = Some (Inl e)"
  shows "\<exists>e'. fst (run_tasks schedule pending items) = Some e'"
  using assms(1-5)
proof (induction schedule arbitrary: pending items pre)
  case Nil
  then show ?case by simp
next
  case (Cons k schedule)
  from assms(6) [of "items ! i"] obtain e where e: "failing (items ! i) = Some (Inl e)" ..
  show ?case
  proof (cases "next_event k pending items")
    case None
    have "k \<noteq> i"
    proof
      assume "k = i"
      with None Cons.prems(2,3,4,5) e show False
        by (cases pre) (auto simp: next_event_def)
    qed
    with Cons.prems(1) have count: "length pre < count_list schedule i" by simp
    from Cons.IH [OF count Cons.prems(2,3,4,5)] None show ?thesis by simp
  next
    case (Some ev)
    obtain res rest where ev: "ev = (res, rest)" by (cases ev)
    note ne = next_event_SomeD [OF Some [unfolded ev]]
    show ?thesis
    proof (cases res)
      case (Inl e')
      with Some ev show ?thesis by simp
    next
      case (Inr item')
      show ?thesis
      proof (cases "k = i")
        case True
        from ne True Cons.prems(4) obtain step
          where step: "pre @ failing # post = step # rest" "step (items ! i) = Some res"
          by auto
        from step Inr e obtain pre' where pre: "pre = step # pre'"
          by (cases pre) auto
        with step(1) have rest: "rest = pre' @ failing # post" by simp
        from pre Cons.prems(1) True have count: "length pre' < count_list schedule i"
          by simp
        from Cons.prems(2,3) True rest
        have at: "i < length (pending[k := rest])" "i < length (items[k := item'])"
          "pending[k := rest] ! i = pre' @ failing # post"
          by simp_all
        from Cons.prems(5) pre have settle: "\<forall>step\<in>set pre'. \<forall>x. step x \<noteq> None"
          by simp
        from Cons.IH [OF count at settle] Some ev Inr show ?thesis by simp
      next
        case False
        with Cons.prems(1) have count: "length pre < count_list schedule i" by simp
        from False Cons.prems(2,3,4)
        have at: "i < length (pending[k := rest])" "i < length (items[k := item'])"
          "pending[k := rest] ! i = pre @ failing # post"
          by simp_all
        from Cons.IH [OF count at Cons.prems(5)] Some ev Inr show ?thesis by simp
      qed
    qed
  qed
qed

text \<open>
  Tasks of one step each: an item is as it was while its task is pending, and is the
  result of its task afterwards.
\<close>

lemma run_tasks_single_step:
  assumes "run_tasks schedule pending items = (r, pending', items')"
    and "length pending = length items"
    and "\<forall>j<length items.
           (pending ! j = [T j] \<and> items ! j = items0 ! j)
           \<or> (pending ! j = [] \<and> T j (items0 ! j) = Some (Inr (items ! j)))"
  shows "\<forall>j<length items.
           (pending' ! j = [T j] \<and> items' ! j = items0 ! j)
           \<or> (pending' ! j = [] \<and> T j (items0 ! j) = Some (Inr (items' ! j)))"
  using assms
proof (induction schedule arbitrary: pending items)
  case Nil
  then show ?case by simp
next
  case (Cons i schedule)
  show ?case
  proof (cases "next_event i pending items")
    case None
    with Cons.prems(1) have "run_tasks schedule pending items = (r, pending', items')"
      by simp
    from Cons.IH [OF this Cons.prems(2,3)] show ?thesis .
  next
    case (Some ev)
    obtain res rest where ev: "ev = (res, rest)" by (cases ev)
    note ne = next_event_SomeD [OF Some [unfolded ev]]
    show ?thesis
    proof (cases res)
      case (Inl e)
      with Some ev Cons.prems(1) have "pending' = pending" "items' = items"
        by simp_all
      with Cons.prems(3) show ?thesis by simp
    next
      case (Inr item')
      with Some ev Cons.prems(1)
      have run: "run_tasks schedule (pending[i := rest]) (items[i := item'])
                   = (r, pending', items')"
        by simp
      from ne obtain step where step: "i < length items" "pending ! i = step # rest"
          "step (items ! i) = Some res"
        by blast
      from Cons.prems(3) [rule_format, OF step(1)] step(2)
      have i: "step = T i" "rest = []" "items ! i = items0 ! i"
        by auto
      have inv: "\<forall>j<length (items[i := item']).
           (pending[i := rest] ! j = [T j] \<and> items[i := item'] ! j = items0 ! j)
           \<or> (pending[i := rest] ! j = []
               \<and> T j (items0 ! j) = Some (Inr (items[i := item'] ! j)))"
      proof (intro allI impI)
        fix j assume j: "j < length (items[i := item'])"
        show "(pending[i := rest] ! j = [T j] \<and> items[i := item'] ! j = items0 ! j)
           \<or> (pending[i := rest] ! j = []
               \<and> T j (items0 ! j) = Some (Inr (items[i := item'] ! j)))"
        proof (cases "j = i")
          case True
          with j i step(3) Inr Cons.prems(2) show ?thesis by simp
        next
          case False
          with j Cons.prems(3) show ?thesis by simp
        qed
      qed
      have len: "length (pending[i := rest]) = length (items[i := item'])"
        using Cons.prems(2) by simp
      from Cons.IH [OF run len inv] show ?thesis by simp
    qed
  qed
qed

lemma run_tasks_suffix:
  "run_tasks schedule pending items = (r, pending', items') \<Longrightarrow>
     \<forall>j<length pending. \<exists>k. pending' ! j = drop k (pending ! j)"
proof (induction schedule arbitrary: pending items)
  case Nil
  then have "pending' = pending" by simp
  then show ?case by (auto intro: exI [of _ 0])
next
  case (Cons i schedule)
  show ?case
  proof (cases "next_event i pending items")
    case None
    with Cons.prems have "run_tasks schedule pending items = (r, pending', items')"
      by simp
    then show ?thesis by (rule Cons.IH)
  next
    case (Some ev)
    obtain res rest where ev: "ev = (res, rest)" by (cases ev)
    note ne = next_event_SomeD [OF Some [unfolded ev]]
    show ?thesis
    proof (cases res)
      case (Inl e)
      with Some ev Cons.prems have "pending' = pending" by simp
      then show ?thesis by (auto intro: exI [of _ 0])
    next
      case (Inr item')
      with Some ev Cons.prems
      have "run_tasks schedule (pending[i := rest]) (items[i := item']) = (r, pending', items')"
        by simp
      from Cons.IH [OF this]
      have IH: "\<forall>j<length pending. \<exists>k. pending' ! j = drop k (pending[i := rest] ! j)"
        by simp
      from ne obtain step where step: "i < length pending" "pending ! i = step # rest"
        by blast
      show ?thesis
      proof (intro allI impI)
        fix j assume j: "j < length pending"
        from IH j obtain k where k: "pending' ! j = drop k (pending[i := rest] ! j)"
          by blast
        show "\<exists>k. pending' ! j = drop k (pending ! j)"
        proof (cases "j = i")
          case True
          with k step have "pending' ! j = drop (Suc k) (pending ! j)" by simp
          then show ?thesis ..
        next
          case False
          with k have "pending' ! j = drop k (pending ! j)" by simp
          then show ?thesis ..
        qed
      qed
    qed
  qed
qed

lemma await_all_Rejected:
  "await_all (r, pending, items) = Rejected e \<longleftrightarrow> r = Some e"
  by (cases r) (simp_all add: await_all_def)

lemma await_all_Resolved:
  "await_all (r, pending, items) = Resolved \<longleftrightarrow> r = None \<and> list_all (\<lambda>steps. steps = []) pending"
  by (cases r) (simp_all add: await_all_def)

lemma await_all_Waiting:
  "i < length pending \<Longrightarrow> pending ! i \<noteq> [] \<Longrightarrow> await_all (None, pending, items) = Waiting"
  by (auto simp: await_all_def list_all_length)


text \<open>
  The error of the inner \<open>Promise.all\<close> is that of the first fetch, in the order of
  settlement, that throws; there is one as soon as some fetch throws.
\<close>

lemma first_failure_SomeD:
  assumes "first_failure order failures = Some e"
  shows "\<exists>n<length (order @ [0..<length failures]).
           (order @ [0..<length failures]) ! n < length failures
           \<and> failures ! ((order @ [0..<length failures]) ! n) = Some e
           \<and> (\<forall>m<n. (order @ [0..<length failures]) ! m < length failures
                  \<longrightarrow> failures ! ((order @ [0..<length failures]) ! m) = None)"
proof -
  let ?ord = "order @ [0..<length failures]"
  let ?P = "\<lambda>k. k < length failures \<and> failures ! k \<noteq> None"
  from assms obtain k where k: "List.find ?P ?ord = Some k" "failures ! k = Some e"
    by (auto simp: first_failure_def split: option.splits)
  from k(1) obtain n where n: "n < length ?ord" "?P (?ord ! n)" "k = ?ord ! n"
      "\<forall>m<n. \<not> ?P (?ord ! m)"
    unfolding find_Some_iff by blast
  from n k(2) have "?ord ! n < length failures \<and> failures ! (?ord ! n) = Some e
      \<and> (\<forall>m<n. ?ord ! m < length failures \<longrightarrow> failures ! (?ord ! m) = None)"
    by auto
  with n(1) show ?thesis by blast
qed

lemma first_failure_None:
  "first_failure order failures = None \<longleftrightarrow> (\<forall>k<length failures. failures ! k = None)"
proof
  assume none: "first_failure order failures = None"
  show "\<forall>k<length failures. failures ! k = None"
  proof (intro allI impI)
    fix k assume k: "k < length failures"
    show "failures ! k = None"
    proof (rule ccontr)
      assume "failures ! k \<noteq> None"
      with k have "\<exists>x\<in>set (order @ [0..<length failures]).
          x < length failures \<and> failures ! x \<noteq> None"
        by auto
      then obtain x where "List.find (\<lambda>k. k < length failures \<and> failures ! k \<noteq> None)
          (order @ [0..<length failures]) = Some x"
        by (cases "List.find (\<lambda>k. k < length failures \<and> failures ! k \<noteq> None)
          (order @ [0..<length failures])") (auto simp: find_None_iff)
      moreover from this have "x < length failures \<and> failures ! x \<noteq> None"
        by (auto simp: find_Some_iff)
      ultimately show False using none by (auto simp: first_failure_def)
    qed
  qed
next
  assume "\<forall>k<length failures. failures ! k = None"
  then have "List.find (\<lambda>k. k < length failures \<and> failures ! k \<noteq> None)
          (order @ [0..<length failures]) = None"
    by (auto simp: find_None_iff)
  then show "first_failure order failures = None"
    by (simp add: first_failure_def)
qed

lemma fetchErrors_failure_of:
  "fetchErrors endpoints pr =
     [failure_of (map_option fst
        (fetchPRComments (ep_comments endpoints) (js_nth (split_slash (pr_nameWithOwner pr)) 0)
           (js_nth (split_slash (pr_nameWithOwner pr)) 1) (pr_number pr))),
      failure_of (map_option fst
        (fetchPRReviewDetails (ep_reviews endpoints) (js_nth (split_slash (pr_nameWithOwner pr)) 0)
           (js_nth (split_slash (pr_nameWithOwner pr)) 1) (pr_number pr))),
      failure_of (Some
        (fetchPRChangedFiles (ep_files endpoints) (js_nth (split_slash (pr_nameWithOwner pr)) 0)
           (js_nth (split_slash (pr_nameWithOwner pr)) 1) (pr_number pr))),
      failure_of (Some
        (fetchPRTimeline (ep_timeline endpoints) (js_nth (split_slash (pr_nameWithOwner pr)) 0)
           (js_nth (split_slash (pr_nameWithOwner pr)) 1) (pr_number pr)))]"
  by (simp add: fetchErrors_def Let_def split: option.splits sum.splits prod.splits)

lemma length_fetchErrors: "length (fetchErrors endpoints pr) = 4"
  by (simp add: fetchErrors_def Let_def)

lemma failure_of_None: "failure_of a = None \<longleftrightarrow> a = None \<or> (\<exists>x. a = Some (Inr x))"
  by (cases a rule: failure_of.cases) simp_all

lemma all4_Inl:
  "all4 order a b c d = Some (Inl e) \<longleftrightarrow>
     first_failure order [failure_of a, failure_of b, failure_of (Some c), failure_of (Some d)]
       = Some e"
  by (auto simp: all4_def split: option.splits sum.splits)

lemma all4_Inr:
  assumes "all4 order a b c d = Some (Inr (x, y, z, w))"
  shows "a = Some (Inr x) \<and> b = Some (Inr y) \<and> c = Inr z \<and> d = Inr w"
  using assms by (auto simp: all4_def split: option.splits sum.splits)

lemma pullRequestTask_first_failure:
  "pullRequestTask endpoints since order pr x = Some (Inl e) \<longleftrightarrow>
     first_failure order (fetchErrors endpoints pr) = Some e"
proof -
  have "pullRequestTask endpoints since order pr x = Some (Inl e) \<longleftrightarrow>
      all4 order
        (map_option fst
          (fetchPRComments (ep_comments endpoints) (js_nth (split_slash (pr_nameWithOwner pr)) 0)
             (js_nth (split_slash (pr_nameWithOwner pr)) 1) (pr_number pr)))
        (map_option fst
          (fetchPRReviewDetails (ep_reviews endpoints) (js_nth (split_slash (pr_nameWithOwner pr)) 0)
             (js_nth (split_slash (pr_nameWithOwner pr)) 1) (pr_number pr)))
        (fetchPRChangedFiles (ep_files endpoints) (js_nth (split_slash (pr_nameWithOwner pr)) 0)
           (js_nth (split_slash (pr_nameWithOwner pr)) 1) (pr_number pr))
        (fetchPRTimeline (ep_timeline endpoints) (js_nth (split_slash (pr_nameWithOwner pr)) 0)
           (js_nth (split_slash (pr_nameWithOwner pr)) 1) (pr_number pr))
      = Some (Inl e)"
    by (auto simp: pullRequestTask_def Let_def split: option.splits sum.splits prod.splits)
  then show ?thesis
    by (simp only: all4_Inl fetchErrors_failure_of)
qed

lemma pullRequestTask_Inr:
  assumes "pullRequestTask endpoints since order pr current = Some (Inr pr')"
  shows "\<exists>c r f t. pr' = attachDetails since c r f t current
     \<and> map_option fst
         (fetchPRComments (ep_comments endpoints) (js_nth (split_slash (pr_nameWithOwner pr)) 0)
            (js_nth (split_slash (pr_nameWithOwner pr)) 1) (pr_number pr)) = Some (Inr c)
     \<and> map_option fst
         (fetchPRReviewDetails (ep_reviews endpoints) (js_nth (split_slash (pr_nameWithOwner pr)) 0)
            (js_nth (split_slash (pr_nameWithOwner pr)) 1) (pr_number pr)) = Some (Inr r)
     \<and> fetchPRChangedFiles (ep_files endpoints) (js_nth (split_slash (pr_nameWithOwner pr)) 0)
         (js_nth (split_slash (pr_nameWithOwner pr)) 1) (pr_number pr) = Inr f
     \<and> fetchPRTimeline (ep_timeline endpoints) (js_nth (split_slash (pr_nameWithOwner pr)) 0)
         (js_nth (split_slash (pr_nameWithOwner pr)) 1) (pr_number pr) = Inr t"
proof -
  let ?a = "map_option fst
         (fetchPRComments (ep_comments endpoints) (js_nth (split_slash (pr_nameWithOwner pr)) 0)
            (js_nth (split_slash (pr_nameWithOwner pr)) 1) (pr_number pr))"
  let ?b = "map_option fst
         (fetchPRReviewDetails (ep_reviews endpoints) (js_nth (split_slash (pr_nameWithOwner pr)) 0)
            (js_nth (split_slash (pr_nameWithOwner pr)) 1) (pr_number pr))"
  let ?c = "fetchPRChangedFiles (ep_files endpoints) (js_nth (split_slash (pr_nameWithOwner pr)) 0)
         (js_nth (split_slash (pr_nameWithOwner pr)) 1) (pr_number pr)"
  let ?d = "fetchPRTimeline (ep_timeline endpoints) (js_nth (split_slash (pr_nameWithOwner pr)) 0)
         (js_nth (split_slash (pr_nameWithOwner pr)) 1) (pr_number pr)"
  from assms obtain c r f t where all: "all4 order ?a ?b ?c ?d = Some (Inr (c, r, f, t))"
    and pr': "pr' = attachDetails since c r f t current"
    by (auto simp: pullRequestTask_def Let_def split: option.splits sum.splits prod.splits)
  from all4_Inr [OF all] pr' show ?thesis by blast
qed

lemma pullRequestTask_fails:
  assumes "q < 4" "fetchErrors endpoints pr ! q \<noteq> None"
  shows "\<exists>e. \<forall>x. pullRequestTask endpoints since order pr x = Some (Inl e)"
proof -
  from assms have "first_failure order (fetchErrors endpoints pr) \<noteq> None"
    by (auto simp: first_failure_None length_fetchErrors)
  then obtain e where "first_failure order (fetchErrors endpoints pr) = Some e"
    by auto
  then have "\<forall>x. pullRequestTask endpoints since order pr x = Some (Inl e)"
    by (simp add: pullRequestTask_first_failure)
  then show ?thesis ..
qed

text \<open>The items of the pull-request pass after any schedule.\<close>

lemma enrichPullRequestData_items:
  assumes "run_tasks schedule
             (map (\<lambda>j. [pullRequestTask endpoints since (orders j) (prs ! j)]) [0..<length prs])
             prs = (r, pending', items')"
  shows "length items' = length prs \<and> length pending' = length prs
     \<and> (\<forall>j<length prs.
           (pending' ! j = [pullRequestTask endpoints since (orders j) (prs ! j)]
            \<and> items' ! j = prs ! j)
           \<or> (pending' ! j = []
               \<and> pullRequestTask endpoints since (orders j) (prs ! j) (prs ! j)
                   = Some (Inr (items' ! j))))"
proof -
  let ?pending = "map (\<lambda>j. [pullRequestTask endpoints since (orders j) (prs ! j)])
                    [0..<length prs]"
  have len: "length ?pending = length prs" by simp
  have inv: "\<forall>j<length prs.
           (?pending ! j = [pullRequestTask endpoints since (orders j) (prs ! j)]
            \<and> prs ! j = prs ! j)
           \<or> (?pending ! j = []
               \<and> pullRequestTask endpoints since (orders j) (prs ! j) (prs ! j)
                   = Some (Inr (prs ! j)))"
    by simp
  from run_tasks_single_step [of schedule ?pending prs r pending' items'
      "\<lambda>j. pullRequestTask endpoints since (orders j) (prs ! j)" prs, OF assms len inv]
    run_tasks_length [OF assms]
  show ?thesis by simp
qed

lemma enrichPullRequestData_run:
  assumes "enrichPullRequestData endpoints schedule orders act since = (out, act')"
  shows "\<exists>r pending' items'.
     run_tasks schedule
       (map (\<lambda>j. [pullRequestTask endpoints since (orders j) (pullRequests act ! j)])
          [0..<length (pullRequests act)])
       (pullRequests act) = (r, pending', items')
     \<and> out = await_all (r, pending', items')
     \<and> act' = act \<lparr> pullRequests := items' \<rparr>"
proof -
  obtain r pending' items'
    where run: "run_tasks schedule
        (map (\<lambda>j. [pullRequestTask endpoints since (orders j) (pullRequests act ! j)])
           [0..<length (pullRequests act)])
        (pullRequests act) = (r, pending', items')"
    by (rule prod_cases3)
  with assms have "out = await_all (r, pending', items') \<and> act' = act \<lparr> pullRequests := items' \<rparr>"
    by (simp add: enrichPullRequestData_def Let_def)
  with run show ?thesis by blast
qed

lemma first_failure_four_None: "first_failure order [None, None, None, None] = None"
  by (simp add: first_failure_None nth_Cons split: nat.splits)

lemma all4_resolves:
  "all4 order (Some (Inr x)) (Some (Inr y)) (Inr z) (Inr w) = Some (Inr (x, y, z, w))"
  by (simp add: all4_def first_failure_four_None)

lemma demo_comments_fetch:
  "n \<noteq> 2 \<Longrightarrow>
     map_option fst (fetchPRComments demo_pr_comments (Some ''o'') (Some ''r'') n)
       = Some (Inr [demo_comment 1, demo_comment 2, demo_comment 3, demo_comment 4,
                    demo_comment 1])"
  by (simp add: fetchPRComments_def fetchPRComments_loop.simps fetchQuery_def demo_comments_def
      demo_pr_comments_def demo_comment_pages_def Let_def)

lemma demo_owner_repo:
  "js_nth (split_slash ''o/r'') 0 = Some ''o''" "js_nth (split_slash ''o/r'') 1 = Some ''r''"
  by simp_all

lemma demo_task_ok:
  "n \<noteq> 2 \<Longrightarrow>
     pullRequestTask demo_pr_endpoints 2 order (demo_pull_request n 10 20) current
       = Some (Inr (demo_details current))"
  by (simp add: pullRequestTask_def demo_pull_request_def demo_owner_repo demo_pr_endpoints_def
      demo_comments_fetch fetchPRReviewDetails_def fetchPRReviewDetails_loop.simps fetchQuery_def
      fetchPRChangedFiles_def fetchPRTimeline_def Let_def attachDetails_def demo_details_def
      demo_comment_def demo_review_detail_def comment_detail_of_def reactions_of_def
      demo_pr_files_def all4_resolves)

lemma demo_fetchErrors:
  "fetchErrors demo_pr_endpoints (demo_pull_request 2 10 20)
     = [Some (TransportError ''Bad Gateway''), None,
        Some (TransportError ''Internal Server Error''), None]"
  by (simp add: fetchErrors_def demo_pull_request_def demo_owner_repo demo_pr_endpoints_def
      fetchPRComments_def fetchPRComments_loop.simps fetchQuery_def demo_pr_comments_def
      fetchPRReviewDetails_def fetchPRReviewDetails_loop.simps
      fetchPRChangedFiles_def fetchPRTimeline_def demo_pr_files_def Let_def)

lemma demo_task_fails:
  "pullRequestTask demo_pr_endpoints 2 (demo_array_order j) (demo_pull_request 2 10 20) current
     = Some (Inl (TransportError ''Bad Gateway''))"
  "pullRequestTask demo_pr_endpoints 2 (demo_files_first j) (demo_pull_request 2 10 20) current
     = Some (Inl (TransportError ''Internal Server Error''))"
  by (simp_all add: pullRequestTask_first_failure demo_fetchErrors first_failure_def
      demo_array_order_def demo_files_first_def)

lemma attachDetails_primary:
  "pr_title (attachDetails since c r f t pr) = pr_title pr
   \<and> pr_number (attachDetails since c r f t pr) = pr_number pr
   \<and> pr_nameWithOwner (attachDetails since c r f t pr) = pr_nameWithOwner pr
   \<and> pr_createdAt (attachDetails since c r f t pr) = pr_createdAt pr
   \<and> pr_updatedAt (attachDetails since c r f t pr) = pr_updatedAt pr
   \<and> pr_mergedAt (attachDetails since c r f t pr) = pr_mergedAt pr
   \<and> pr_closedAt (attachDetails since c r f t pr) = pr_closedAt pr
   \<and> pr_isDraft (attachDetails since c r f t pr) = pr_isDraft pr
   \<and> pr_state (attachDetails since c r f t pr) = pr_state pr
   \<and> pr_commits_totalCount (attachDetails since c r f t pr) = pr_commits_totalCount pr
   \<and> pr_additions (attachDetails since c r f t pr) = pr_additions pr
   \<and> pr_deletions (attachDetails since c r f t pr) = pr_deletions pr
   \<and> pr_comments_totalCount (attachDetails since c r f t pr) = pr_comments_totalCount pr
   \<and> pr_reviews_totalCount (attachDetails since c r f t pr) = pr_reviews_totalCount pr
   \<and> pr_body (attachDetails since c r f t pr) = pr_body pr"
  by (simp add: attachDetails_def)

lemma attachDetails_attached:
  "pr_commentDetails (attachDetails since c r f t pr) \<noteq> None
   \<and> pr_reviewDetails (attachDetails since c r f t pr) \<noteq> None
   \<and> pr_changedFiles (attachDetails since c r f t pr) \<noteq> None
   \<and> pr_timelineItems (attachDetails since c r f t pr) \<noteq> None"
  by (simp add: attachDetails_def)

text \<open>
  Claim C9.  Whatever the order of settlement and the outcome, \<open>enrichPullRequestData\<close> leaves the
  number of pull requests, the other lists of the bundle and every field of the
  contributions query of every pull request as they were; and when the call returns,
  every pull request carries \<open>commentDetails\<close>, \<open>reviewDetails\<close>, \<open>changedFiles\<close> and
  \<open>timelineItems\<close>.
\<close>

theorem enrichment_is_additive:
  "enrichPullRequestData endpoints schedule orders act since = (out, act') \<longrightarrow>
     length (pullRequests act') = length (pullRequests act)
     \<and> reviews act' = reviews act \<and> issues act' = issues act
     \<and> commitsByRepo act' = commitsByRepo act
     \<and> (\<forall>j<length (pullRequests act).
           pr_title (pullRequests act' ! j) = pr_title (pullRequests act ! j)
           \<and> pr_number (pullRequests act' ! j) = pr_number (pullRequests act ! j)
           \<and> pr_nameWithOwner (pullRequests act' ! j) = pr_nameWithOwner (pullRequests act ! j)
           \<and> pr_createdAt (pullRequests act' ! j) = pr_createdAt (pullRequests act ! j)
           \<and> pr_updatedAt (pullRequests act' ! j) = pr_updatedAt (pullRequests act ! j)
           \<and> pr_mergedAt (pullRequests act' ! j) = pr_mergedAt (pullRequests act ! j)
           \<and> pr_closedAt (pullRequests act' ! j) = pr_closedAt (pullRequests act ! j)
           \<and> pr_isDraft (pullRequests act' ! j) = pr_isDraft (pullRequests act ! j)
           \<and> pr_state (pullRequests act' ! j) = pr_state (pullRequests act ! j)
           \<and> pr_commits_totalCount (pullRequests act' ! j)
               = pr_commits_totalCount (pullRequests act ! j)
           \<and> pr_additions (pullRequests act' ! j) = pr_additions (pullRequests act ! j)
           \<and> pr_deletions (pullRequests act' ! j) = pr_deletions (pullRequests act ! j)
           \<and> pr_comments_totalCount (pullRequests act' ! j)
               = pr_comments_totalCount (pullRequests act ! j)
           \<and> pr_reviews_totalCount (pullRequests act' ! j)
               = pr_reviews_totalCount (pullRequests act ! j)
           \<and> pr_body (pullRequests act' ! j) = pr_body (pullRequests act ! j)
           \<and> (out = Resolved \<longrightarrow>
                 pr_commentDetails (pullRequests act' ! j) \<noteq> None
                 \<and> pr_reviewDetails (pullRequests act' ! j) \<noteq> None
                 \<and> pr_changedFiles (pullRequests act' ! j) \<noteq> None
                 \<and> pr_timelineItems (pullRequests act' ! j) \<noteq> None))"
proof
  assume "enrichPullRequestData endpoints schedule orders act since = (out, act')"
  from enrichPullRequestData_run [OF this] obtain r pending' items'
    where run: "run_tasks schedule
        (map (\<lambda>j. [pullRequestTask endpoints since (orders j) (pullRequests act ! j)])
           [0..<length (pullRequests act)])
        (pullRequests act) = (r, pending', items')"
      and out: "out = await_all (r, pending', items')"
      and act': "act' = act \<lparr> pullRequests := items' \<rparr>"
    by blast
  note items = enrichPullRequestData_items [OF run]
  have each: "pr_title (items' ! j) = pr_title (pullRequests act ! j)
           \<and> pr_number (items' ! j) = pr_number (pullRequests act ! j)
           \<and> pr_nameWithOwner (items' ! j) = pr_nameWithOwner (pullRequests act ! j)
           \<and> pr_createdAt (items' ! j) = pr_createdAt (pullRequests act ! j)
           \<and> pr_updatedAt (items' ! j) = pr_updatedAt (pullRequests act ! j)
           \<and> pr_mergedAt (items' ! j) = pr_mergedAt (pullRequests act ! j)
           \<and> pr_closedAt (items' ! j) = pr_closedAt (pullRequests act ! j)
           \<and> pr_isDraft (items' ! j) = pr_isDraft (pullRequests act ! j)
           \<and> pr_state (items' ! j) = pr_state (pullRequests act ! j)
           \<and> pr_commits_totalCount (items' ! j) = pr_commits_totalCount (pullRequests act ! j)
           \<and> pr_additions (items' ! j) = pr_additions (pullRequests act ! j)
           \<and> pr_deletions (items' ! j) = pr_deletions (pullRequests act ! j)
           \<and> pr_comments_totalCount (items' ! j) = pr_comments_totalCount (pullRequests act ! j)
           \<and> pr_reviews_totalCount (items' ! j) = pr_reviews_totalCount (pullRequests act ! j)
           \<and> pr_body (items' ! j) = pr_body (pullRequests act ! j)
           \<and> (out = Resolved \<longrightarrow>
                 pr_commentDetails (items' ! j) \<noteq> None
                 \<and> pr_reviewDetails (items' ! j) \<noteq> None
                 \<and> pr_changedFiles (items' ! j) \<noteq> None
                 \<and> pr_timelineItems (items' ! j) \<noteq> None)"
    if j: "j < length (pullRequests act)" for j
  proof -
    from items j consider
        (pending) "pending' ! j = [pullRequestTask endpoints since (orders j) (pullRequests act ! j)]"
          "items' ! j = pullRequests act ! j"
      | (settled) "pullRequestTask endpoints since (orders j) (pullRequests act ! j)
          (pullRequests act ! j)
          = Some (Inr (items' ! j))"
      by blast
    then show ?thesis
    proof cases
      case pending
      from items j pending(1) have "\<not> list_all (\<lambda>steps. steps = []) pending'"
        by (auto simp: list_all_length)
      then have "out \<noteq> Resolved"
        by (simp add: out await_all_Resolved)
      with pending(2) show ?thesis by simp
    next
      case settled
      from pullRequestTask_Inr [OF settled] obtain c r f t
        where "items' ! j = attachDetails since c r f t (pullRequests act ! j)"
        by blast
      then show ?thesis
        by (simp only: attachDetails_primary attachDetails_attached simp_thms)
    qed
  qed
  from items have "length items' = length (pullRequests act)" by simp
  with each show "length (pullRequests act') = length (pullRequests act)
     \<and> reviews act' = reviews act \<and> issues act' = issues act
     \<and> commitsByRepo act' = commitsByRepo act
     \<and> (\<forall>j<length (pullRequests act).
           pr_title (pullRequests act' ! j) = pr_title (pullRequests act ! j)
           \<and> pr_number (pullRequests act' ! j) = pr_number (pullRequests act ! j)
           \<and> pr_nameWithOwner (pullRequests act' ! j) = pr_nameWithOwner (pullRequests act ! j)
           \<and> pr_createdAt (pullRequests act' ! j) = pr_createdAt (pullRequests act ! j)
           \<and> pr_updatedAt (pullRequests act' ! j) = pr_updatedAt (pullRequests act ! j)
           \<and> pr_mergedAt (pullRequests act' ! j) = pr_mergedAt (pullRequests act ! j)
           \<and> pr_closedAt (pullRequests act' ! j) = pr_closedAt (pullRequests act ! j)
           \<and> pr_isDraft (pullRequests act' ! j) = pr_isDraft (pullRequests act ! j)
           \<and> pr_state (pullRequests act' ! j) = pr_state (pullRequests act ! j)
           \<and> pr_commits_totalCount (pullRequests act' ! j)
               = pr_commits_totalCount (pullRequests act ! j)
           \<and> pr_additions (pullRequests act' ! j) = pr_additions (pullRequests act ! j)
           \<and> pr_deletions (pullRequests act' ! j) = pr_deletions (pullRequests act ! j)
           \<and> pr_comments_totalCount (pullRequests act' ! j)
               = pr_comments_totalCount (pullRequests act ! j)
           \<and> pr_reviews_totalCount (pullRequests act' ! j)
               = pr_reviews_totalCount (pullRequests act ! j)
           \<and> pr_body (pullRequests act' ! j) = pr_body (pullRequests act ! j)
           \<and> (out = Resolved \<longrightarrow>
                 pr_commentDetails (pullRequests act' ! j) \<noteq> None
                 \<and> pr_reviewDetails (pullRequests act' ! j) \<noteq> None
                 \<and> pr_changedFiles (pullRequests act' ! j) \<noteq> None
                 \<and> pr_timelineItems (pullRequests act' ! j) \<noteq> None))"
    by (simp add: act')
qed


lemma demo_enrich_resolved:
  "enrichPullRequestData demo_pr_endpoints [1, 0] demo_files_first (demo_bundle [1, 3]) 2
     = (Resolved,
        demo_bundle [1, 3]
          \<lparr> pullRequests := [demo_details (demo_pull_request 1 10 20),
                             demo_details (demo_pull_request 3 10 20)] \<rparr>)"
  by (simp add: enrichPullRequestData_def demo_bundle_def next_event_def demo_task_ok
      await_all_def Let_def upt_rec)

theorem enrichment_is_additive_witness:
  "enrichPullRequestData demo_pr_endpoints [1, 0] demo_files_first (demo_bundle [1, 3]) 2
     = (Resolved,
        demo_bundle [1, 3]
          \<lparr> pullRequests := [demo_details (demo_pull_request 1 10 20),
                             demo_details (demo_pull_request 3 10 20)] \<rparr>)
   \<and> pr_number (demo_details (demo_pull_request 3 10 20)) = 3
   \<and> pr_body (demo_details (demo_pull_request 3 10 20)) = ''text''
   \<and> pr_changedFiles (demo_details (demo_pull_request 3 10 20)) = Some [demo_file]"
  using enrichment_is_additive [of demo_pr_endpoints "[1, 0]" demo_files_first
      "demo_bundle [1, 3]" 2 Resolved
      "demo_bundle [1, 3]
          \<lparr> pullRequests := [demo_details (demo_pull_request 1 10 20),
                             demo_details (demo_pull_request 3 10 20)] \<rparr>"]
    demo_enrich_resolved
  by (simp add: demo_details_def demo_pull_request_def)

lemma enrichCommitContributions_run:
  assumes "enrichCommitContributions endpoints schedule act since author = (out, act')"
    and "fetchUniqueIdForUser (ep_userId endpoints) author = Inr authorId"
  shows "\<exists>r pending' items'.
     run_tasks schedule (map (commitTask endpoints since authorId) (commitsByRepo act))
       (commitsByRepo act) = (r, pending', items')
     \<and> out = await_all (r, pending', items')
     \<and> act' = act \<lparr> commitsByRepo := items' \<rparr>"
proof -
  obtain r pending' items'
    where run: "run_tasks schedule (map (commitTask endpoints since authorId) (commitsByRepo act))
        (commitsByRepo act) = (r, pending', items')"
    by (rule prod_cases3)
  with assms have "out = await_all (r, pending', items') \<and> act' = act \<lparr> commitsByRepo := items' \<rparr>"
    by (simp add: enrichCommitContributions_def Let_def)
  with run show ?thesis by blast
qed

lemma commitsStep_Inl:
  assumes "commitsStep endpoints since authorId owner repo x = Some (Inl e)"
  shows "\<exists>sent. fetchCommitContributionsForRepo (ep_history endpoints) owner repo since authorId
           = Some (Inl e, sent)"
  using assms by (auto simp: commitsStep_def split: option.splits sum.splits prod.splits)

lemma repoInfoStep_Inl:
  assumes "repoInfoStep endpoints owner repo x = Some (Inl e)"
  shows "fetchRepoInfo (ep_repoInfo endpoints) owner repo = Inl e"
  using assms by (auto simp: repoInfoStep_def split: sum.splits)

lemma drop_two:
  assumes "drop k [a, b] = x # xs"
  shows "x = a \<or> x = b"
proof (cases k)
  case 0
  with assms show ?thesis by simp
next
  case (Suc k')
  with assms show ?thesis by (cases k') simp_all
qed


lemma upt_four: "[0..<4] = [0, 1, 2, 3]"
  by (simp add: upt_rec)

text \<open>The pull-request pass: what a rejection means, and what makes the call reject.\<close>

lemma enrichPullRequestData_rejected:
  assumes rej: "enrichPullRequestData endpoints schedule orders act since = (Rejected e, act')"
  shows "(\<exists>done i rest n.
          schedule = done @ i # rest \<and> i < length (pullRequests act)
          \<and> n < length (orders i @ [0, 1, 2, 3])
          \<and> (orders i @ [0, 1, 2, 3]) ! n < 4
          \<and> fetchErrors endpoints (pullRequests act ! i) ! ((orders i @ [0, 1, 2, 3]) ! n) = Some e
          \<and> (\<forall>m<n. (orders i @ [0, 1, 2, 3]) ! m < 4 \<longrightarrow>
                 fetchErrors endpoints (pullRequests act ! i) ! ((orders i @ [0, 1, 2, 3]) ! m)
                   = None)
          \<and> enrichPullRequestData endpoints done orders act since = (Waiting, act'))
      \<and> length (pullRequests act') = length (pullRequests act)
      \<and> (\<forall>j<length (pullRequests act).
            pullRequests act' ! j = pullRequests act ! j
            \<or> (\<exists>c r f t.
                  pullRequests act' ! j = attachDetails since c r f t (pullRequests act ! j)
                  \<and> map_option fst
                      (fetchPRComments (ep_comments endpoints)
                         (js_nth (split_slash (pr_nameWithOwner (pullRequests act ! j))) 0)
                         (js_nth (split_slash (pr_nameWithOwner (pullRequests act ! j))) 1)
                         (pr_number (pullRequests act ! j))) = Some (Inr c)
                  \<and> map_option fst
                      (fetchPRReviewDetails (ep_reviews endpoints)
                         (js_nth (split_slash (pr_nameWithOwner (pullRequests act ! j))) 0)
                         (js_nth (split_slash (pr_nameWithOwner (pullRequests act ! j))) 1)
                         (pr_number (pullRequests act ! j))) = Some (Inr r)
                  \<and> fetchPRChangedFiles (ep_files endpoints)
                      (js_nth (split_slash (pr_nameWithOwner (pullRequests act ! j))) 0)
                      (js_nth (split_slash (pr_nameWithOwner (pullRequests act ! j))) 1)
                      (pr_number (pullRequests act ! j)) = Inr f
                  \<and> fetchPRTimeline (ep_timeline endpoints)
                      (js_nth (split_slash (pr_nameWithOwner (pullRequests act ! j))) 0)
                      (js_nth (split_slash (pr_nameWithOwner (pullRequests act ! j))) 1)
                      (pr_number (pullRequests act ! j)) = Inr t))"
proof (intro conjI)
  let ?prs = "pullRequests act"
  let ?pending = "map (\<lambda>j. [pullRequestTask endpoints since (orders j) (?prs ! j)])
                    [0..<length ?prs]"
  from enrichPullRequestData_run [OF rej] obtain r pending' items'
    where run: "run_tasks schedule ?pending ?prs = (r, pending', items')"
      and out: "Rejected e = await_all (r, pending', items')"
      and act': "act' = act \<lparr> pullRequests := items' \<rparr>"
    by blast
  from out have r: "r = Some e"
    using await_all_Rejected [of r pending' items' e] by simp
  from run_tasks_rejected [OF run [unfolded r]] obtain "done" i rest step steps
    where split: "schedule = done @ i # rest"
      and before: "run_tasks done ?pending ?prs = (None, pending', items')"
      and i: "i < length pending'" "pending' ! i = step # steps"
        "step (items' ! i) = Some (Inl e)"
    by blast
  note items = enrichPullRequestData_items [OF before]
  from items i(1) have i_len: "i < length ?prs" by simp
  from items i_len i(2)
  have "step = pullRequestTask endpoints since (orders i) (?prs ! i)" "items' ! i = ?prs ! i"
    by auto
  with i(3)
  have "pullRequestTask endpoints since (orders i) (?prs ! i) (?prs ! i) = Some (Inl e)"
    by simp
  then have "first_failure (orders i) (fetchErrors endpoints (?prs ! i)) = Some e"
    by (simp only: pullRequestTask_first_failure)
  from first_failure_SomeD [OF this, unfolded length_fetchErrors upt_four]
  obtain n where n: "n < length (orders i @ [0, 1, 2, 3])"
      "(orders i @ [0, 1, 2, 3]) ! n < 4"
      "fetchErrors endpoints (?prs ! i) ! ((orders i @ [0, 1, 2, 3]) ! n) = Some e"
      "\<forall>m<n. (orders i @ [0, 1, 2, 3]) ! m < 4 \<longrightarrow>
         fetchErrors endpoints (?prs ! i) ! ((orders i @ [0, 1, 2, 3]) ! m) = None"
    by blast
  have "await_all (None, pending', items') = Waiting"
    by (rule await_all_Waiting [OF i(1)]) (simp add: i(2))
  with before act'
  have waiting: "enrichPullRequestData endpoints done orders act since = (Waiting, act')"
    by (simp add: enrichPullRequestData_def Let_def)
  from split i_len n waiting
  show "\<exists>done i rest n.
          schedule = done @ i # rest \<and> i < length (pullRequests act)
          \<and> n < length (orders i @ [0, 1, 2, 3])
          \<and> (orders i @ [0, 1, 2, 3]) ! n < 4
          \<and> fetchErrors endpoints (pullRequests act ! i) ! ((orders i @ [0, 1, 2, 3]) ! n) = Some e
          \<and> (\<forall>m<n. (orders i @ [0, 1, 2, 3]) ! m < 4 \<longrightarrow>
                 fetchErrors endpoints (pullRequests act ! i) ! ((orders i @ [0, 1, 2, 3]) ! m)
                   = None)
          \<and> enrichPullRequestData endpoints done orders act since = (Waiting, act')"
    by blast
  from items show "length (pullRequests act') = length (pullRequests act)"
    by (simp add: act')
  show "\<forall>j<length (pullRequests act).
            pullRequests act' ! j = pullRequests act ! j
            \<or> (\<exists>c r f t.
                  pullRequests act' ! j = attachDetails since c r f t (pullRequests act ! j)
                  \<and> map_option fst
                      (fetchPRComments (ep_comments endpoints)
                         (js_nth (split_slash (pr_nameWithOwner (pullRequests act ! j))) 0)
                         (js_nth (split_slash (pr_nameWithOwner (pullRequests act ! j))) 1)
                         (pr_number (pullRequests act ! j))) = Some (Inr c)
                  \<and> map_option fst
                      (fetchPRReviewDetails (ep_reviews endpoints)
                         (js_nth (split_slash (pr_nameWithOwner (pullRequests act ! j))) 0)
                         (js_nth (split_slash (pr_nameWithOwner (pullRequests act ! j))) 1)
                         (pr_number (pullRequests act ! j))) = Some (Inr r)
                  \<and> fetchPRChangedFiles (ep_files endpoints)
                      (js_nth (split_slash (pr_nameWithOwner (pullRequests act ! j))) 0)
                      (js_nth (split_slash (pr_nameWithOwner (pullRequests act ! j))) 1)
                      (pr_number (pullRequests act ! j)) = Inr f
                  \<and> fetchPRTimeline (ep_timeline endpoints)
                      (js_nth (split_slash (pr_nameWithOwner (pullRequests act ! j))) 0)
                      (js_nth (split_slash (pr_nameWithOwner (pullRequests act ! j))) 1)
                      (pr_number (pullRequests act ! j)) = Inr t)"
  proof (intro allI impI)
    fix j assume j: "j < length (pullRequests act)"
    have same: "pullRequests act' ! j = items' ! j" by (simp add: act')
    from items j consider "items' ! j = ?prs ! j"
      | "pullRequestTask endpoints since (orders j) (?prs ! j) (?prs ! j)
           = Some (Inr (items' ! j))"
      by blast
    then show "pullRequests act' ! j = pullRequests act ! j
            \<or> (\<exists>c r f t.
                  pullRequests act' ! j = attachDetails since c r f t (pullRequests act ! j)
                  \<and> map_option fst
                      (fetchPRComments (ep_comments endpoints)
                         (js_nth (split_slash (pr_nameWithOwner (pullRequests act ! j))) 0)
                         (js_nth (split_slash (pr_nameWithOwner (pullRequests act ! j))) 1)
                         (pr_number (pullRequests act ! j))) = Some (Inr c)
                  \<and> map_option fst
                      (fetchPRReviewDetails (ep_reviews endpoints)
                         (js_nth (split_slash (pr_nameWithOwner (pullRequests act ! j))) 0)
                         (js_nth (split_slash (pr_nameWithOwner (pullRequests act ! j))) 1)
                         (pr_number (pullRequests act ! j))) = Some (Inr r)
                  \<and> fetchPRChangedFiles (ep_files endpoints)
                      (js_nth (split_slash (pr_nameWithOwner (pullRequests act ! j))) 0)
                      (js_nth (split_slash (pr_nameWithOwner (pullRequests act ! j))) 1)
                      (pr_number (pullRequests act ! j)) = Inr f
                  \<and> fetchPRTimeline (ep_timeline endpoints)
                      (js_nth (split_slash (pr_nameWithOwner (pullRequests act ! j))) 0)
                      (js_nth (split_slash (pr_nameWithOwner (pullRequests act ! j))) 1)
                      (pr_number (pullRequests act ! j)) = Inr t)"
    proof cases
      case 1
      with same show ?thesis by simp
    next
      case 2
      from pullRequestTask_Inr [OF 2] show ?thesis
        unfolding same by (rule disjI2)
    qed
  qed
qed

lemma enrichPullRequestData_rejects:
  assumes "k \<in> set schedule" "k < length (pullRequests act)" "q < 4"
    "fetchErrors endpoints (pullRequests act ! k) ! q = Some e0"
  shows "\<exists>e'. fst (enrichPullRequestData endpoints schedule orders act since) = Rejected e'"
proof -
  let ?prs = "pullRequests act"
  let ?pending = "map (\<lambda>j. [pullRequestTask endpoints since (orders j) (?prs ! j)])
                    [0..<length ?prs]"
  from assms(4) have "fetchErrors endpoints (?prs ! k) ! q \<noteq> None" by simp
  from pullRequestTask_fails [OF assms(3) this, of since "orders k"]
  obtain e where fails: "\<forall>x. pullRequestTask endpoints since (orders k) (?prs ! k) x
      = Some (Inl e)"
    by blast
  from assms(1) have count: "length ([] :: pull_request step list) < count_list schedule k"
    using count_list_0_iff [of schedule k] by simp
  have at: "k < length ?pending" "k < length ?prs"
    "?pending ! k = [] @ pullRequestTask endpoints since (orders k) (?prs ! k) # []"
    using assms(2) by simp_all
  have settle: "\<forall>step\<in>set ([] :: pull_request step list). \<forall>x. step x \<noteq> None"
    by simp
  have "\<exists>e'. fst (run_tasks schedule ?pending ?prs) = Some e'"
    by (rule run_tasks_reaches_failure [OF count at settle]) (use fails in blast)
  then obtain e' where e': "fst (run_tasks schedule ?pending ?prs) = Some e'" ..
  obtain r pending' items' where run: "run_tasks schedule ?pending ?prs = (r, pending', items')"
    by (rule prod_cases3)
  with e' have "fst (enrichPullRequestData endpoints schedule orders act since) = Rejected e'"
    by (simp add: enrichPullRequestData_def Let_def await_all_def)
  then show ?thesis ..
qed

text \<open>The commit pass: what a rejection means, and what makes the call reject.\<close>

lemma enrichCommitContributions_rejected:
  assumes rej: "enrichCommitContributions cendpoints cschedule act since author = (Rejected ce, cact)"
  shows "(fetchUniqueIdForUser (ep_userId cendpoints) author = Inl ce \<and> cact = act)
        \<or> (\<exists>authorId done i rest.
              fetchUniqueIdForUser (ep_userId cendpoints) author = Inr authorId
              \<and> cschedule = done @ i # rest \<and> i < length (commitsByRepo act)
              \<and> ((\<exists>sent. fetchCommitContributionsForRepo (ep_history cendpoints)
                            (js_nth (split_slash (cb_nameWithOwner (commitsByRepo act ! i))) 0)
                            (js_nth (split_slash (cb_nameWithOwner (commitsByRepo act ! i))) 1)
                            since authorId = Some (Inl ce, sent))
                  \<or> fetchRepoInfo (ep_repoInfo cendpoints)
                       (js_nth (split_slash (cb_nameWithOwner (commitsByRepo act ! i))) 0)
                       (js_nth (split_slash (cb_nameWithOwner (commitsByRepo act ! i))) 1)
                     = Inl ce)
              \<and> enrichCommitContributions cendpoints done act since author = (Waiting, cact))"
proof (cases "fetchUniqueIdForUser (ep_userId cendpoints) author")
  case (Inl e')
  with rej have "e' = ce \<and> cact = act"
    by (simp add: enrichCommitContributions_def)
  with Inl show ?thesis by simp
next
  case (Inr authorId)
  let ?owner = "\<lambda>i. js_nth (split_slash (cb_nameWithOwner (commitsByRepo act ! i))) 0"
  let ?repo = "\<lambda>i. js_nth (split_slash (cb_nameWithOwner (commitsByRepo act ! i))) 1"
  let ?buckets = "commitsByRepo act"
  let ?pending = "map (commitTask cendpoints since authorId) ?buckets"
  from enrichCommitContributions_run [OF rej Inr] obtain r pending' items'
    where run: "run_tasks cschedule ?pending ?buckets = (r, pending', items')"
      and out: "Rejected ce = await_all (r, pending', items')"
      and act': "cact = act \<lparr> commitsByRepo := items' \<rparr>"
    by blast
  from out have r: "r = Some ce"
    using await_all_Rejected [of r pending' items' ce] by simp
  from run_tasks_rejected [OF run [unfolded r]] obtain "done" i rest step steps
    where split: "cschedule = done @ i # rest"
      and before: "run_tasks done ?pending ?buckets = (None, pending', items')"
      and i: "i < length pending'" "pending' ! i = step # steps"
        "step (items' ! i) = Some (Inl ce)"
    by blast
  from run_tasks_length [OF before] i(1) have i_len: "i < length ?buckets"
    by simp
  from run_tasks_suffix [OF before] i_len obtain n
    where "pending' ! i = drop n (?pending ! i)"
    by auto
  with i(2) i_len
  have "drop n [commitsStep cendpoints since authorId (?owner i) (?repo i),
                repoInfoStep cendpoints (?owner i) (?repo i)] = step # steps"
    by (simp add: commitTask_def Let_def)
  from drop_two [OF this] i(3)
  have err: "(\<exists>sent. fetchCommitContributionsForRepo (ep_history cendpoints)
                          (?owner i) (?repo i) since authorId = Some (Inl ce, sent))
                \<or> fetchRepoInfo (ep_repoInfo cendpoints) (?owner i) (?repo i) = Inl ce"
    by (auto dest: commitsStep_Inl repoInfoStep_Inl)
  have "await_all (None, pending', items') = Waiting"
    by (rule await_all_Waiting [OF i(1)]) (simp add: i(2))
  with before act' Inr
  have waiting: "enrichCommitContributions cendpoints done act since author = (Waiting, cact)"
    by (simp add: enrichCommitContributions_def Let_def)
  from Inr split i_len err waiting show ?thesis
    by blast
qed

lemma enrichCommitContributions_rejects_userId:
  assumes "fetchUniqueIdForUser (ep_userId cendpoints) author = Inl ce"
  shows "enrichCommitContributions cendpoints cschedule act since author = (Rejected ce, act)"
  using assms by (simp add: enrichCommitContributions_def)

lemma enrichCommitContributions_rejects_task:
  assumes id: "fetchUniqueIdForUser (ep_userId cendpoints) author = Inr authorId"
    and ck: "ck < length (commitsByRepo act)"
    and count: "length pre < count_list cschedule ck"
    and task: "commitTask cendpoints since authorId (commitsByRepo act ! ck) = pre @ failing # post"
    and settle: "\<forall>step\<in>set pre. \<forall>x. step x \<noteq> None"
    and fails: "\<And>x. \<exists>e. failing x = Some (Inl e)"
  shows "\<exists>e'. fst (enrichCommitContributions cendpoints cschedule act since author) = Rejected e'"
proof -
  let ?buckets = "commitsByRepo act"
  let ?pending = "map (commitTask cendpoints since authorId) ?buckets"
  have at: "ck < length ?pending" "ck < length ?buckets" "?pending ! ck = pre @ failing # post"
    using ck task by simp_all
  have "\<exists>e'. fst (run_tasks cschedule ?pending ?buckets) = Some e'"
    by (rule run_tasks_reaches_failure [OF count at settle]) (rule fails)
  then obtain e' where e': "fst (run_tasks cschedule ?pending ?buckets) = Some e'" ..
  obtain r pending' items'
    where run: "run_tasks cschedule ?pending ?buckets = (r, pending', items')"
    by (rule prod_cases3)
  with e' id
  have "fst (enrichCommitContributions cendpoints cschedule act since author) = Rejected e'"
    by (simp add: enrichCommitContributions_def Let_def await_all_def)
  then show ?thesis ..
qed

lemma enrichCommitContributions_rejects:
  assumes "fetchUniqueIdForUser (ep_userId cendpoints) author = Inr authorId
        \<and> ck < length (commitsByRepo act)
        \<and> ((ck \<in> set cschedule
             \<and> (\<exists>sent. fetchCommitContributionsForRepo (ep_history cendpoints)
                          (js_nth (split_slash (cb_nameWithOwner (commitsByRepo act ! ck))) 0)
                          (js_nth (split_slash (cb_nameWithOwner (commitsByRepo act ! ck))) 1)
                          since authorId = Some (Inl ce0, sent)))
            \<or> (2 \<le> count_list cschedule ck
                \<and> (\<exists>commits sent. fetchCommitContributionsForRepo (ep_history cendpoints)
                          (js_nth (split_slash (cb_nameWithOwner (commitsByRepo act ! ck))) 0)
                          (js_nth (split_slash (cb_nameWithOwner (commitsByRepo act ! ck))) 1)
                          since authorId = Some (Inr commits, sent))
                \<and> fetchRepoInfo (ep_repoInfo cendpoints)
                     (js_nth (split_slash (cb_nameWithOwner (commitsByRepo act ! ck))) 0)
                     (js_nth (split_slash (cb_nameWithOwner (commitsByRepo act ! ck))) 1)
                   = Inl ce0))"
  shows "\<exists>e'. fst (enrichCommitContributions cendpoints cschedule act since author) = Rejected e'"
proof -
  let ?owner = "js_nth (split_slash (cb_nameWithOwner (commitsByRepo act ! ck))) 0"
  let ?repo = "js_nth (split_slash (cb_nameWithOwner (commitsByRepo act ! ck))) 1"
  let ?history = "commitsStep cendpoints since authorId ?owner ?repo"
  let ?info = "repoInfoStep cendpoints ?owner ?repo"
  from assms have id: "fetchUniqueIdForUser (ep_userId cendpoints) author = Inr authorId"
    and ck: "ck < length (commitsByRepo act)"
    by simp_all
  have task: "commitTask cendpoints since authorId (commitsByRepo act ! ck) = [?history, ?info]"
    by (simp add: commitTask_def Let_def)
  from assms consider
      (history) sent where "ck \<in> set cschedule"
        "fetchCommitContributionsForRepo (ep_history cendpoints) ?owner ?repo since authorId
           = Some (Inl ce0, sent)"
    | (info) commits sent where "2 \<le> count_list cschedule ck"
        "fetchCommitContributionsForRepo (ep_history cendpoints) ?owner ?repo since authorId
           = Some (Inr commits, sent)"
        "fetchRepoInfo (ep_repoInfo cendpoints) ?owner ?repo = Inl ce0"
    by blast
  then show ?thesis
  proof cases
    case history
    from history(1) have count: "length ([] :: commit_bucket step list) < count_list cschedule ck"
      using count_list_0_iff [of cschedule ck] by simp
    have task': "commitTask cendpoints since authorId (commitsByRepo act ! ck)
        = [] @ ?history # [?info]"
      using task by simp
    have settle: "\<forall>step\<in>set ([] :: commit_bucket step list). \<forall>x. step x \<noteq> None"
      by simp
    have fails: "\<exists>e. ?history x = Some (Inl e)" for x
      using history(2) by (simp add: commitsStep_def)
    from enrichCommitContributions_rejects_task [OF id ck count task' settle fails]
    show ?thesis .
  next
    case info
    from info(1) have count: "length [?history] < count_list cschedule ck"
      by simp
    have task': "commitTask cendpoints since authorId (commitsByRepo act ! ck)
        = [?history] @ ?info # []"
      using task by simp
    have settle: "\<forall>step\<in>set [?history]. \<forall>x. step x \<noteq> None"
      using info(2) by (simp add: commitsStep_def)
    have fails: "\<exists>e. ?info x = Some (Inl e)" for x
      using info(3) by (simp add: repoInfoStep_def)
    from enrichCommitContributions_rejects_task [OF id ck count task' settle fails]
    show ?thesis .
  qed
qed

text \<open>
  Claim C8 (amended).  When an enrichment call throws, the merge is partial, not absent:
  the bundle is exactly as the tasks settled before the failure have left it (the
  enrichment function run on that earlier part of the schedule is still waiting, with
  the same bundle).  In the pull-request pass the error is that of a detail fetch of the
  failing pull request, namely of the one that throws first in the order in which its
  four fetches settle, and each pull request is either as it was or carries the details
  made from the results of its own four fetches.  In the commit pass the error is that of
  the user-id query (before any task starts, the bundle unchanged) or that of the
  failing bucket's history fetch or repository query.

  Conversely the call throws, with the error of the failure that comes first: when a
  detail fetch throws of a pull request whose task settles in the schedule; when the
  user-id query throws; when the history fetch throws of a bucket whose task settles in
  the schedule; and when the repository query throws of a bucket whose history fetch
  returned and whose task settles twice in the schedule.
\<close>

theorem enrichment_failure_keeps_partial_merge:
  "(enrichPullRequestData endpoints schedule orders act since = (Rejected e, act') \<longrightarrow>
      (\<exists>done i rest n.
          schedule = done @ i # rest \<and> i < length (pullRequests act)
          \<and> n < length (orders i @ [0, 1, 2, 3])
          \<and> (orders i @ [0, 1, 2, 3]) ! n < 4
          \<and> fetchErrors endpoints (pullRequests act ! i) ! ((orders i @ [0, 1, 2, 3]) ! n) = Some e
          \<and> (\<forall>m<n. (orders i @ [0, 1, 2, 3]) ! m < 4 \<longrightarrow>
                 fetchErrors endpoints (pullRequests act ! i) ! ((orders i @ [0, 1, 2, 3]) ! m)
                   = None)
          \<and> enrichPullRequestData endpoints done orders act since = (Waiting, act'))
      \<and> length (pullRequests act') = length (pullRequests act)
      \<and> (\<forall>j<length (pullRequests act).
            pullRequests act' ! j = pullRequests act ! j
            \<or> (\<exists>c r f t.
                  pullRequests act' ! j = attachDetails since c r f t (pullRequests act ! j)
                  \<and> map_option fst
                      (fetchPRComments (ep_comments endpoints)
                         (js_nth (split_slash (pr_nameWithOwner (pullRequests act ! j))) 0)
                         (js_nth (split_slash (pr_nameWithOwner (pullRequests act ! j))) 1)
                         (pr_number (pullRequests act ! j))) = Some (Inr c)
                  \<and> map_option fst
                      (fetchPRReviewDetails (ep_reviews endpoints)
                         (js_nth (split_slash (pr_nameWithOwner (pullRequests act ! j))) 0)
                         (js_nth (split_slash (pr_nameWithOwner (pullRequests act ! j))) 1)
                         (pr_number (pullRequests act ! j))) = Some (Inr r)
                  \<and> fetchPRChangedFiles (ep_files endpoints)
                      (js_nth (split_slash (pr_nameWithOwner (pullRequests act ! j))) 0)
                      (js_nth (split_slash (pr_nameWithOwner (pullRequests act ! j))) 1)
                      (pr_number (pullRequests act ! j)) = Inr f
                  \<and> fetchPRTimeline (ep_timeline endpoints)
                      (js_nth (split_slash (pr_nameWithOwner (pullRequests act ! j))) 0)
                      (js_nth (split_slash (pr_nameWithOwner (pullRequests act ! j))) 1)
                      (pr_number (pullRequests act ! j)) = Inr t)))
   \<and> (k \<in> set schedule \<and> k < length (pullRequests act) \<and> q < 4
        \<and> fetchErrors endpoints (pullRequests act ! k) ! q = Some e0 \<longrightarrow>
        (\<exists>e'. fst (enrichPullRequestData endpoints schedule orders act since) = Rejected e'))
   \<and> (enrichCommitContributions cendpoints cschedule act since author = (Rejected ce, cact) \<longrightarrow>
        (fetchUniqueIdForUser (ep_userId cendpoints) author = Inl ce \<and> cact = act)
        \<or> (\<exists>authorId done i rest.
              fetchUniqueIdForUser (ep_userId cendpoints) author = Inr authorId
              \<and> cschedule = done @ i # rest \<and> i < length (commitsByRepo act)
              \<and> ((\<exists>sent. fetchCommitContributionsForRepo (ep_history cendpoints)
                            (js_nth (split_slash (cb_nameWithOwner (commitsByRepo act ! i))) 0)
                            (js_nth (split_slash (cb_nameWithOwner (commitsByRepo act ! i))) 1)
                            since authorId = Some (Inl ce, sent))
                  \<or> fetchRepoInfo (ep_repoInfo cendpoints)
                       (js_nth (split_slash (cb_nameWithOwner (commitsByRepo act ! i))) 0)
                       (js_nth (split_slash (cb_nameWithOwner (commitsByRepo act ! i))) 1)
                     = Inl ce)
              \<and> enrichCommitContributions cendpoints done act since author = (Waiting, cact)))
   \<and> (fetchUniqueIdForUser (ep_userId cendpoints) author = Inl ce \<longrightarrow>
        enrichCommitContributions cendpoints cschedule act since author = (Rejected ce, act))
   \<and> (fetchUniqueIdForUser (ep_userId cendpoints) author = Inr authorId
        \<and> ck < length (commitsByRepo act)
        \<and> ((ck \<in> set cschedule
             \<and> (\<exists>sent. fetchCommitContributionsForRepo (ep_history cendpoints)
                          (js_nth (split_slash (cb_nameWithOwner (commitsByRepo act ! ck))) 0)
                          (js_nth (split_slash (cb_nameWithOwner (commitsByRepo act ! ck))) 1)
                          since authorId = Some (Inl ce0, sent)))
            \<or> (2 \<le> count_list cschedule ck
                \<and> (\<exists>commits sent. fetchCommitContributionsForRepo (ep_history cendpoints)
                          (js_nth (split_slash (cb_nameWithOwner (commitsByRepo act ! ck))) 0)
                          (js_nth (split_slash (cb_nameWithOwner (commitsByRepo act ! ck))) 1)
                          since authorId = Some (Inr commits, sent))
                \<and> fetchRepoInfo (ep_repoInfo cendpoints)
                     (js_nth (split_slash (cb_nameWithOwner (commitsByRepo act ! ck))) 0)
                     (js_nth (split_slash (cb_nameWithOwner (commitsByRepo act ! ck))) 1)
                   = Inl ce0)) \<longrightarrow>
        (\<exists>e'. fst (enrichCommitContributions cendpoints cschedule act since author)
                = Rejected e'))"
proof (intro conjI impI)
  assume "k \<in> set schedule \<and> k < length (pullRequests act) \<and> q < 4
        \<and> fetchErrors endpoints (pullRequests act ! k) ! q = Some e0"
  then have "k \<in> set schedule" "k < length (pullRequests act)" "q < 4"
    "fetchErrors endpoints (pullRequests act ! k) ! q = Some e0"
    by simp_all
  then show "\<exists>e'. fst (enrichPullRequestData endpoints schedule orders act since) = Rejected e'"
    by (rule enrichPullRequestData_rejects)
next
  assume "enrichCommitContributions cendpoints cschedule act since author = (Rejected ce, cact)"
  then show "(fetchUniqueIdForUser (ep_userId cendpoints) author = Inl ce \<and> cact = act)
        \<or> (\<exists>authorId done i rest.
              fetchUniqueIdForUser (ep_userId cendpoints) author = Inr authorId
              \<and> cschedule = done @ i # rest \<and> i < length (commitsByRepo act)
              \<and> ((\<exists>sent. fetchCommitContributionsForRepo (ep_history cendpoints)
                            (js_nth (split_slash (cb_nameWithOwner (commitsByRepo act ! i))) 0)
                            (js_nth (split_slash (cb_nameWithOwner (commitsByRepo act ! i))) 1)
                            since authorId = Some (Inl ce, sent))
                  \<or> fetchRepoInfo (ep_repoInfo cendpoints)
                       (js_nth (split_slash (cb_nameWithOwner (commitsByRepo act ! i))) 0)
                       (js_nth (split_slash (cb_nameWithOwner (commitsByRepo act ! i))) 1)
                     = Inl ce)
              \<and> enrichCommitContributions cendpoints done act since author = (Waiting, cact))"
    by (rule enrichCommitContributions_rejected)
next
  assume "fetchUniqueIdForUser (ep_userId cendpoints) author = Inl ce"
  then show "enrichCommitContributions cendpoints cschedule act since author = (Rejected ce, act)"
    by (rule enrichCommitContributions_rejects_userId)
next
  assume "fetchUniqueIdForUser (ep_userId cendpoints) author = Inr authorId
        \<and> ck < length (commitsByRepo act)
        \<and> ((ck \<in> set cschedule
             \<and> (\<exists>sent. fetchCommitContributionsForRepo (ep_history cendpoints)
                          (js_nth (split_slash (cb_nameWithOwner (commitsByRepo act ! ck))) 0)
                          (js_nth (split_slash (cb_nameWithOwner (commitsByRepo act ! ck))) 1)
                          since authorId = Some (Inl ce0, sent)))
            \<or> (2 \<le> count_list cschedule ck
                \<and> (\<exists>commits sent. fetchCommitContributionsForRepo (ep_history cendpoints)
                          (js_nth (split_slash (cb_nameWithOwner (commitsByRepo act ! ck))) 0)
                          (js_nth (split_slash (cb_nameWithOwner (commitsByRepo act ! ck))) 1)
                          since authorId = Some (Inr commits, sent))
                \<and> fetchRepoInfo (ep_repoInfo cendpoints)
                     (js_nth (split_slash (cb_nameWithOwner (commitsByRepo act ! ck))) 0)
                     (js_nth (split_slash (cb_nameWithOwner (commitsByRepo act ! ck))) 1)
                   = Inl ce0))"
  then show "\<exists>e'. fst (enrichCommitContributions cendpoints cschedule act since author)
                = Rejected e'"
    by (rule enrichCommitContributions_rejects)
qed (rule enrichPullRequestData_rejected [THEN conjunct1],
     assumption,
     rule enrichPullRequestData_rejected [THEN conjunct2, THEN conjunct1],
     assumption,
     rule enrichPullRequestData_rejected [THEN conjunct2, THEN conjunct2],
     assumption)

lemma demo_enrich_rejected:
  "enrichPullRequestData demo_pr_endpoints [0, 1] demo_array_order (demo_bundle [1, 2]) 2
     = (Rejected (TransportError ''Bad Gateway''),
        demo_bundle [1, 2]
          \<lparr> pullRequests := [demo_details (demo_pull_request 1 10 20),
                             demo_pull_request 2 10 20] \<rparr>)"
  "enrichPullRequestData demo_pr_endpoints [0, 1] demo_files_first (demo_bundle [1, 2]) 2
     = (Rejected (TransportError ''Internal Server Error''),
        demo_bundle [1, 2]
          \<lparr> pullRequests := [demo_details (demo_pull_request 1 10 20),
                             demo_pull_request 2 10 20] \<rparr>)"
  by (simp_all add: enrichPullRequestData_def demo_bundle_def next_event_def demo_task_ok
      demo_task_fails await_all_def Let_def upt_rec)

lemma demo_enrich_waiting:
  "enrichPullRequestData demo_pr_endpoints [0] orders (demo_bundle [1, 2]) 2
     = (Waiting,
        demo_bundle [1, 2]
          \<lparr> pullRequests := [demo_details (demo_pull_request 1 10 20),
                             demo_pull_request 2 10 20] \<rparr>)"
  by (simp add: enrichPullRequestData_def demo_bundle_def next_event_def demo_task_ok
      await_all_def Let_def upt_rec)

lemma demo_history_fetch:
  "fetchCommitContributionsForRepo demo_history (Some ''o'') (Some ''r'') 2 ''U_1''
     = Some (Inr [demo_commit 9, demo_commit 8, demo_commit 7],
             [\<lparr> cv_authorId = ''U_1'', cv_owner = Some ''o'', cv_repo = Some ''r'',
                 cv_commitCursor = None, cv_since = 2 \<rparr>,
              \<lparr> cv_authorId = ''U_1'', cv_owner = Some ''o'', cv_repo = Some ''r'',
                 cv_commitCursor = Some ''h1'', cv_since = 2 \<rparr>])"
  by (simp add: fetchCommitContributionsForRepo_def fetchCommitContributionsForRepo_loop.simps
      fetchQuery_def demo_history_def demo_history_pages_def Let_def)

lemma demo_commit_rejected:
  "enrichCommitContributions demo_commit_endpoints [0, 0] (demo_bundle [1, 2]) 2 ''alice''
     = (Rejected (TransportError ''Internal Server Error''),
        demo_bundle [1, 2]
          \<lparr> commitsByRepo :=
              [demo_bucket \<lparr> cb_nodes := Some [demo_commit 9, demo_commit 8, demo_commit 7],
                             cb_directCommits := Some 3 \<rparr>] \<rparr>)"
  by (simp add: enrichCommitContributions_def fetchUniqueIdForUser_def fetchQuery_def
      demo_commit_endpoints_def demo_bundle_def next_event_def commitTask_def commitsStep_def
      repoInfoStep_def fetchRepoInfo_def demo_bucket_def demo_owner_repo demo_history_fetch
      await_all_def Let_def)

lemma demo_commit_no_user:
  "enrichCommitContributions demo_no_user_endpoints [0, 0] (demo_bundle [1, 2]) 2 ''alice''
     = (Rejected (TransportError ''Unauthorized''), demo_bundle [1, 2])"
  by (simp add: enrichCommitContributions_def fetchUniqueIdForUser_def fetchQuery_def
      demo_no_user_endpoints_def)

theorem enrichment_failure_keeps_partial_merge_witness:
  "enrichPullRequestData demo_pr_endpoints [0, 1] demo_files_first (demo_bundle [1, 2]) 2
     = (Rejected (TransportError ''Internal Server Error''),
        demo_bundle [1, 2]
          \<lparr> pullRequests := [demo_details (demo_pull_request 1 10 20),
                             demo_pull_request 2 10 20] \<rparr>)
   \<and> enrichPullRequestData demo_pr_endpoints [0, 1] demo_array_order (demo_bundle [1, 2]) 2
     = (Rejected (TransportError ''Bad Gateway''),
        demo_bundle [1, 2]
          \<lparr> pullRequests := [demo_details (demo_pull_request 1 10 20),
                             demo_pull_request 2 10 20] \<rparr>)
   \<and> fetchErrors demo_pr_endpoints (demo_pull_request 2 10 20)
       = [Some (TransportError ''Bad Gateway''), None,
          Some (TransportError ''Internal Server Error''), None]
   \<and> enrichPullRequestData demo_pr_endpoints [0] demo_files_first (demo_bundle [1, 2]) 2
       = (Waiting,
          demo_bundle [1, 2]
          \<lparr> pullRequests := [demo_details (demo_pull_request 1 10 20),
                             demo_pull_request 2 10 20] \<rparr>)
   \<and> enrichCommitContributions demo_commit_endpoints [0, 0] (demo_bundle [1, 2]) 2 ''alice''
       = (Rejected (TransportError ''Internal Server Error''),
          demo_bundle [1, 2]
          \<lparr> commitsByRepo :=
              [demo_bucket \<lparr> cb_nodes := Some [demo_commit 9, demo_commit 8, demo_commit 7],
                             cb_directCommits := Some 3 \<rparr>] \<rparr>)
   \<and> enrichCommitContributions demo_no_user_endpoints [0, 0] (demo_bundle [1, 2]) 2 ''alice''
       = (Rejected (TransportError ''Unauthorized''), demo_bundle [1, 2])"
  using
    enrichment_failure_keeps_partial_merge [where endpoints = demo_pr_endpoints
      and schedule = "[0, 1]" and orders = demo_files_first and act = "demo_bundle [1, 2]"
      and since = 2 and e = "TransportError ''Internal Server Error''"
      and act' = "demo_bundle [1, 2]
          \<lparr> pullRequests := [demo_details (demo_pull_request 1 10 20),
                             demo_pull_request 2 10 20] \<rparr>"
      and k = 1 and q = 0 and ?e0.0 = "TransportError ''Bad Gateway''"
      and cendpoints = demo_commit_endpoints and cschedule = "[0, 0]" and author = "''alice''"
      and ce = "TransportError ''Internal Server Error''"
      and cact = "demo_bundle [1, 2]
          \<lparr> commitsByRepo :=
              [demo_bucket \<lparr> cb_nodes := Some [demo_commit 9, demo_commit 8, demo_commit 7],
                             cb_directCommits := Some 3 \<rparr>] \<rparr>"
      and authorId = "''U_1''" and ck = 0
      and ?ce0.0 = "TransportError ''Internal Server Error''"]
    enrichment_failure_keeps_partial_merge [where endpoints = demo_pr_endpoints
      and schedule = "[0, 1]" and orders = demo_array_order and act = "demo_bundle [1, 2]"
      and since = 2 and e = "TransportError ''Bad Gateway''"
      and act' = "demo_bundle [1, 2]
          \<lparr> pullRequests := [demo_details (demo_pull_request 1 10 20),
                             demo_pull_request 2 10 20] \<rparr>"
      and k = 1 and q = 2 and ?e0.0 = "TransportError ''Internal Server Error''"
      and cendpoints = demo_no_user_endpoints and cschedule = "[0, 0]" and author = "''alice''"
      and ce = "TransportError ''Unauthorized''"
      and cact = "demo_bundle [1, 2]"
      and authorId = "''U_1''" and ck = 0
      and ?ce0.0 = "TransportError ''Internal Server Error''"]
    demo_enrich_rejected demo_enrich_waiting [of demo_files_first] demo_commit_rejected
    demo_commit_no_user demo_fetchErrors
  by simp

text \<open>
  Claim C8 as stated fails: with two pull requests, the task of the first settling
  before the second one's fails, the call throws and the first pull request of the
  bundle carries its comment details.
\<close>

theorem enrichment_partial_merge_counterexample:
  "enrichPullRequestData demo_pr_endpoints [0, 1] demo_array_order (demo_bundle [1, 2]) 2
     = (Rejected (TransportError ''Bad Gateway''),
        demo_bundle [1, 2]
          \<lparr> pullRequests := [demo_details (demo_pull_request 1 10 20),
                             demo_pull_request 2 10 20] \<rparr>)
   \<and> pullRequests (demo_bundle [1, 2]) = [demo_pull_request 1 10 20, demo_pull_request 2 10 20]
   \<and> pr_commentDetails (demo_pull_request 1 10 20) = None
   \<and> pr_commentDetails (demo_details (demo_pull_request 1 10 20))
       = Some [\<lparr> cd_author = Some ''alice'', cd_bodyText = ''ok'', cd_createdAt = 2,
                  cd_reactions = None \<rparr>,
               \<lparr> cd_author = Some ''alice'', cd_bodyText = ''ok'', cd_createdAt = 3,
                  cd_reactions = Some [(''THUMBS_UP'', 2)] \<rparr>,
               \<lparr> cd_author = Some ''alice'', cd_bodyText = ''ok'', cd_createdAt = 4,
                  cd_reactions = None \<rparr>]
   \<and> pullRequestTask demo_pr_endpoints 2 (demo_array_order 0) (demo_pull_request 1 10 20)
         (demo_pull_request 1 10 20)
       = Some (Inr (demo_details (demo_pull_request 1 10 20)))"
  using demo_enrich_rejected(1) demo_task_ok [of 1 "demo_array_order 0" "demo_pull_request 1 10 20"]
  by (simp add: demo_bundle_def demo_details_def demo_pull_request_def)

end
